(* ===== verification/Prelude.thy ===== *)
theory Prelude
  imports Main "HOL-Library.Word"
begin

text \<open>
  Shared vocabulary of the development. The program (\<open>src/Modules/tkappinit.c\<close>)
  reads bytes from its own executable image, compares them with a fixed signature, and
  writes path strings into Tcl variables. Bytes are \<open>8 word\<close> values, as C's
  \<open>char\<close> buffers compared by \<open>memcmp\<close> (which compares as \<open>unsigned char\<close>);
  path names and Tcl values are HOL strings. The generic facts about byte lists at a
  fixed offset from the end, shared by the archive detector and its round-trip lemmas,
  are collected here, as are the named theorem collections the component theories fill.
\<close>

type_synonym byte = "8 word"

text \<open>The file system as the program sees it: a readable file is its contents, a name
  that \<open>fopen\<close> cannot open maps to \<open>None\<close>.\<close>

type_synonym file_system = "string \<rightharpoonup> byte list"

text \<open>The two ways a C program can stop being a program: an \<open>assert\<close> that fails
  (abort) and a construct whose behaviour ISO C leaves undefined. Both are errors of
  the model, never silently a value.\<close>

datatype error = Assertion_failed string | Undefined_behaviour string

named_theorems state_frame
  "frame lemmas: fields an operation of the model leaves unchanged"

named_theorems model_unfold
  "definitions of the straight-line operations, unfolded by the component proofs"

definition tail_window :: "nat \<Rightarrow> nat \<Rightarrow> byte list \<Rightarrow> byte list" where
  "tail_window back n d = take n (drop (length d - back) d)"

lemma tail_window_append:
  assumes "length ys = back - n" and "n \<le> back" and "length xs = n"
  shows "tail_window back n (pre @ xs @ ys) = xs"
  using assms by (simp add: tail_window_def)

lemma tail_window_length:
  assumes "n \<le> back" and "back \<le> length d"
  shows "length (tail_window back n d) = n"
  using assms by (simp add: tail_window_def)

lemma take_append_prefix:
  assumes "length xs = n"
  shows "take n (xs @ ys) = xs"
  using assms by simp

lemma single_marker_split:
  assumes "xs @ [x] @ ys = [y] @ zs" and "P x" and "P y" and "\<not> list_ex P zs"
  shows "x = y \<and> xs = [] \<and> ys = zs"
  using assms by (cases xs) (auto simp: list_ex_iff)

end
