(* ===== verification/LibC.thy ===== *)
theory LibC
  imports Prelude
begin

text \<open>
  The part of the C standard library that \<open>setup_zvfs\<close> (\<open>src/Modules/tkappinit.c\<close>,
  lines 42--58) calls: \<open>fopen\<close>, \<open>fseek\<close> with \<open>SEEK_END\<close>, \<open>fread\<close>, \<open>fclose\<close>
  and \<open>memcmp\<close>. The library is not code of the repository; these definitions give
  the ISO C semantics the code relies on. The only state they share with the rest of
  the process is the number of open \<open>FILE\<close> streams, a record that the process state
  extends, so that the detector can be shown not to leak a stream.
  \<^item> \<open>fopen\<close> fails (a null \<open>FILE *\<close>) exactly when the file cannot be opened;
  \<^item> \<open>fseek(fp, off, SEEK_END)\<close> fails when the new position would be negative;
  \<^item> \<open>fread\<close> copies the bytes it can read into the front of the buffer and leaves the
    rest of the buffer as it was;
  \<^item> \<open>memcmp\<close> compares as \<open>unsigned char\<close> and returns a negative, zero or
    positive \<open>int\<close>.
\<close>

record cstate =
  open_files :: nat

record cfile =
  fdata :: "byte list"
  fpos :: nat

definition c_fopen :: "file_system \<Rightarrow> string \<Rightarrow> 'a cstate_scheme \<Rightarrow> cfile option \<times> 'a cstate_scheme" where
  "c_fopen fs name s =
     (case fs name of
        None \<Rightarrow> (None, s)
      | Some d \<Rightarrow> (Some \<lparr>fdata = d, fpos = 0\<rparr>, s\<lparr>open_files := Suc (open_files s)\<rparr>))"

definition c_fclose :: "'a cstate_scheme \<Rightarrow> 'a cstate_scheme" where
  "c_fclose s = s\<lparr>open_files := open_files s - 1\<rparr>"

definition c_fseek_end :: "cfile \<Rightarrow> int \<Rightarrow> cfile option" where
  "c_fseek_end f off =
     (let p = int (length (fdata f)) + off
      in if p < 0 then None else Some (f\<lparr>fpos := nat p\<rparr>))"

definition c_fread :: "cfile \<Rightarrow> nat \<Rightarrow> byte list \<Rightarrow> byte list \<times> cfile" where
  "c_fread f n buf =
     (let got = take n (drop (fpos f) (fdata f))
      in (got @ drop (length got) buf, f\<lparr>fpos := fpos f + length got\<rparr>))"

fun c_memcmp :: "byte list \<Rightarrow> byte list \<Rightarrow> nat \<Rightarrow> int" where
  "c_memcmp _ _ 0 = 0"
| "c_memcmp (a # as) (b # bs) (Suc n) =
     (if a = b then c_memcmp as bs n else if a < b then -1 else 1)"
| "c_memcmp _ _ (Suc n) = 0"

lemma c_memcmp_zero_iff:
  "n \<le> length a \<Longrightarrow> n \<le> length b \<Longrightarrow> c_memcmp a b n = 0 \<longleftrightarrow> take n a = take n b"
proof (induction a b n rule: c_memcmp.induct)
  case (2 a as b bs n)
  then show ?case by simp
qed auto

lemma c_fopen_Some:
  "c_fopen fs name s = (Some f, s') \<longleftrightarrow>
     (\<exists>d. fs name = Some d \<and> f = \<lparr>fdata = d, fpos = 0\<rparr> \<and> s' = s\<lparr>open_files := Suc (open_files s)\<rparr>)"
  by (auto simp: c_fopen_def split: option.splits)

lemma c_fopen_None:
  "c_fopen fs name s = (None, s') \<longleftrightarrow> fs name = None \<and> s' = s"
  by (auto simp: c_fopen_def split: option.splits)

lemma c_fclose_fopen [simp]:
  "c_fclose (s\<lparr>open_files := Suc (open_files s)\<rparr>) = s"
  by (simp add: c_fclose_def)

lemma c_fseek_end_Some:
  "c_fseek_end f off = Some f' \<longleftrightarrow>
     0 \<le> int (length (fdata f)) + off \<and> f' = f\<lparr>fpos := nat (int (length (fdata f)) + off)\<rparr>"
  by (auto simp: c_fseek_end_def Let_def)

lemma c_fread_buffer:
  assumes "fpos f + n \<le> length (fdata f)"
  shows "fst (c_fread f n buf) = take n (drop (fpos f) (fdata f)) @ drop n buf"
proof -
  have "length (take n (drop (fpos f) (fdata f))) = n" using assms by simp
  then show ?thesis by (simp add: c_fread_def Let_def)
qed

end
