(* ===== verification/Archive.thy ===== *)
theory Archive
  imports LibC
begin

text \<open>
  The archive detector: the first half of \<open>setup_zvfs\<close> in
  \<open>src/Modules/tkappinit.c\<close> (lines 33--61). It opens the running executable, seeks
  22 bytes (the size of a zip end-of-central-directory record without comment) back
  from the end, reads 4 bytes into a zeroed buffer, closes the file and compares the
  buffer with the signature \<open>PK\005\006\<close>. \<open>probe_zip_sig\<close> is that code over the
  C library model of \<open>LibC\<close>; it works on any state that extends \<open>cstate\<close>, so the
  process theory uses it unchanged. \<open>has_end_archive_sig\<close> is what the
  specification (section 4.1) promises: a pure sniff of the image's bytes.
  The lemmas show that the code implements the promise for every file, that it leaves
  the state (the open streams in particular) as it found it, that files shorter than
  22 bytes are never archives, and that appending an end record to any image makes it
  one.
\<close>

definition END_CENTRAL_DIR_SIZE :: int where
  "END_CENTRAL_DIR_SIZE = 22"

definition STRING_END_ARCHIVE :: "byte list" where
  "STRING_END_ARCHIVE = [0x50, 0x4B, 0x05, 0x06]"

definition probe_zip_sig :: "file_system \<Rightarrow> string \<Rightarrow> 'a cstate_scheme \<Rightarrow> bool \<times> 'a cstate_scheme" where
  "probe_zip_sig fs prog_name s =
     (case c_fopen fs prog_name s of
        (None, s1) \<Rightarrow> (False, s1)
      | (Some fp, s1) \<Rightarrow>
          (case c_fseek_end fp (- END_CENTRAL_DIR_SIZE) of
             None \<Rightarrow> (False, c_fclose s1)
           | Some fp1 \<Rightarrow>
               (let buf = fst (c_fread fp1 4 [0, 0, 0, 0]);
                    s2 = c_fclose s1
                in (c_memcmp buf STRING_END_ARCHIVE 4 = 0, s2))))"

definition has_end_archive_sig :: "byte list \<Rightarrow> bool" where
  "has_end_archive_sig d \<longleftrightarrow> 22 \<le> length d \<and> tail_window 22 4 d = STRING_END_ARCHIVE"

definition image_has_sig :: "file_system \<Rightarrow> string \<Rightarrow> bool" where
  "image_has_sig fs name = (case fs name of None \<Rightarrow> False | Some d \<Rightarrow> has_end_archive_sig d)"

lemma probe_read_window:
  assumes "22 \<le> length d"
  shows "fst (c_fread \<lparr>fdata = d, fpos = nat (int (length d) - 22)\<rparr> 4 [0, 0, 0, 0]) =
         tail_window 22 4 d"
proof -
  have "nat (int (length d) - 22) + 4 \<le> length d" using assms by simp
  then have "fst (c_fread \<lparr>fdata = d, fpos = nat (int (length d) - 22)\<rparr> 4 [0, 0, 0, 0]) =
      take 4 (drop (nat (int (length d) - 22)) d)"
    by (simp add: c_fread_buffer)
  moreover have "nat (int (length d) - 22) = length d - 22" using assms by simp
  ultimately show ?thesis by (simp add: tail_window_def)
qed

lemma memcmp_sig_iff:
  "length buf = 4 \<Longrightarrow> c_memcmp buf STRING_END_ARCHIVE 4 = 0 \<longleftrightarrow> buf = STRING_END_ARCHIVE"
  by (simp add: c_memcmp_zero_iff STRING_END_ARCHIVE_def)

text \<open>The detector implements the specification's sniff, and it hands the state back
  unchanged on every path (the stream it opens is closed again).\<close>

lemma probe_zip_sig_correct:
  "probe_zip_sig fs name s = (image_has_sig fs name, s)"
proof (cases "fs name")
  case None
  then show ?thesis
    by (simp add: probe_zip_sig_def c_fopen_def image_has_sig_def)
next
  case (Some d)
  show ?thesis
  proof (cases "22 \<le> length d")
    case False
    with Some show ?thesis
      by (simp add: probe_zip_sig_def c_fopen_def c_fseek_end_def END_CENTRAL_DIR_SIZE_def
          image_has_sig_def has_end_archive_sig_def)
  next
    case True
    have len: "length (tail_window 22 4 d) = 4"
      using True by (simp add: tail_window_length)
    have seek: "c_fseek_end \<lparr>fdata = d, fpos = 0\<rparr> (- END_CENTRAL_DIR_SIZE) =
        Some \<lparr>fdata = d, fpos = nat (int (length d) - 22)\<rparr>"
      using True by (simp add: c_fseek_end_def END_CENTRAL_DIR_SIZE_def)
    show ?thesis
      using Some True len seek
      by (simp add: probe_zip_sig_def c_fopen_def probe_read_window memcmp_sig_iff
          image_has_sig_def has_end_archive_sig_def)
  qed
qed

text \<open>C4 (refinement). For every file system, executable name and state, the detector
  of \<open>setup_zvfs\<close> answers true exactly when the executable can be opened, is at least
  22 bytes long, and the 4 bytes starting 22 bytes before its end are
  \<open>'P', 'K', 0x05, 0x06\<close>; and it returns the state it was given, so no stream is
  left open on any path.\<close>

theorem probe_zip_sig_refines:
  "probe_zip_sig fs name s =
     ((case fs name of
         None \<Rightarrow> False
       | Some d \<Rightarrow> 22 \<le> length d \<and> take 4 (drop (length d - 22) d) = [0x50, 0x4B, 0x05, 0x06]), s)"
  by (simp add: probe_zip_sig_correct image_has_sig_def has_end_archive_sig_def tail_window_def
      STRING_END_ARCHIVE_def split: option.split)

text \<open>C5 (bounds). An executable image shorter than 22 bytes is never taken for an
  archive: the backward seek fails and the detector answers false without reading.\<close>

theorem probe_short_image_rejected:
  assumes "fs name = Some d" and "length d < 22"
  shows "probe_zip_sig fs name s = (False, s)"
proof -
  have "c_fseek_end \<lparr>fdata = d, fpos = 0\<rparr> (- END_CENTRAL_DIR_SIZE) = None"
    using assms(2) by (simp add: c_fseek_end_def END_CENTRAL_DIR_SIZE_def)
  then show ?thesis
    using assms(1) by (simp add: probe_zip_sig_def c_fopen_def)
qed

text \<open>C6 (round trip). Appending an end-of-central-directory record (the signature and
  18 further bytes, no comment) to any image makes the detector recognise it.\<close>

theorem probe_detects_appended_record:
  assumes "fs name = Some (pre @ STRING_END_ARCHIVE @ rest)" and "length rest = 18"
  shows "probe_zip_sig fs name s = (True, s)"
proof -
  have "length STRING_END_ARCHIVE = 4" by (simp add: STRING_END_ARCHIVE_def)
  then have "has_end_archive_sig (pre @ STRING_END_ARCHIVE @ rest)"
    using assms(2) by (simp add: has_end_archive_sig_def tail_window_append)
  then show ?thesis
    using assms(1) by (simp add: probe_zip_sig_correct image_has_sig_def)
qed

text \<open>C19 (bounds). The edge case of the specification: for an image of exactly 22
  bytes the seek lands on offset 0 and the detector compares the first four bytes.\<close>

theorem probe_exact_22_bytes:
  assumes "fs name = Some d" and "length d = 22"
  shows "probe_zip_sig fs name s = (take 4 d = STRING_END_ARCHIVE, s)"
  using assms
  by (simp add: probe_zip_sig_correct image_has_sig_def has_end_archive_sig_def tail_window_def)

end
