(* ===== verification/Tcl_Api.thy ===== *)
theory Tcl_Api
  imports LibC
begin

text \<open>
  The collaborators \<open>src/Modules/tkappinit.c\<close> calls but does not implement: the Tcl
  interpreter's variable table and result, the Tcl and Tk library initialisers, the
  Zvfs archive driver, Tcl's static-package registry and library path, and the macOS
  bundle lookup. None of them is code of the repository; they are modelled at the
  interface the specification (section 6) gives them.

  \<^item> \<open>interp\<close> is one Tcl interpreter: its global scalar variables, its global
    \<open>env\<close> array (which Tcl mirrors into the process environment) and its result.
  \<^item> \<open>proc\<close> is the process: the \<open>static int tk_load_failed\<close> of the source
    (line 24), the process environment, the Zvfs driver's mount table, Tcl's
    library path and static-package list, the open \<open>FILE\<close> streams (inherited
    from \<open>cstate\<close>), and a log of the external calls in the order they were made.
  \<^item> \<open>host\<close> is everything the code cannot influence: the executable's name as
    \<open>Tcl_GetNameOfExecutable\<close> returns it, the files, whether the Zvfs driver can
    mount an archive, and the behaviour of \<open>Tcl_Init\<close>, \<open>Tk_Init\<close> and of the
    bundle lookup. Every theorem quantifies over it.
  The log records each call to \<open>Tcl_Init\<close> and \<open>Tk_Init\<close> with the interpreter as
  it was at the call, so that the ordering of the variable writes before those calls
  is a statement about the log.
\<close>

datatype tcl_code = TCL_OK | TCL_ERROR | TCL_RETURN | TCL_BREAK | TCL_CONTINUE

record interp =
  globals :: "string \<rightharpoonup> string"
  env_arr :: "string \<rightharpoonup> string"
  result :: string

datatype call =
    Zvfs_Init_call
  | Zvfs_Mount_call string string
  | Tcl_Init_call interp tcl_code
  | Tk_Init_call interp tcl_code
  | Tk_MainWindow_call
  | OpenBundle_call string
  | InitAppleEvents_call
  | InitMenus_call
  | TkImaging_Init_call

record proc = cstate +
  tk_load_failed :: bool
  environ :: "string \<rightharpoonup> string"
  zvfs_inited :: bool
  zvfs_mounts :: "string \<rightharpoonup> string"
  tcl_lib_path :: "string list option"
  static_pkgs :: "string list"
  calls :: "call list"

record st =
  pr :: proc
  ip :: interp

record host =
  exe_name :: "string option"
  files :: file_system
  mount_ok :: "string \<Rightarrow> string \<Rightarrow> bool"
  tcl_init :: "interp \<Rightarrow> tcl_code \<times> interp"
  tk_init :: "interp \<Rightarrow> tcl_code \<times> interp"
  bundle_path :: "string \<Rightarrow> string"

definition log_call :: "call \<Rightarrow> st \<Rightarrow> st" where
  "log_call c s = s\<lparr>pr := (pr s)\<lparr>calls := calls (pr s) @ [c]\<rparr>\<rparr>"

definition Tcl_SetVar :: "string \<Rightarrow> string \<Rightarrow> st \<Rightarrow> st" where
  "Tcl_SetVar name v s = s\<lparr>ip := (ip s)\<lparr>globals := (globals (ip s))(name \<mapsto> v)\<rparr>\<rparr>"

text \<open>\<open>Tcl_SetVar2(interp, "env", name, v, TCL_GLOBAL_ONLY)\<close>: Tcl's trace on the
  \<open>env\<close> array writes the process environment too.\<close>

definition Tcl_SetVar2_env :: "string \<Rightarrow> string \<Rightarrow> st \<Rightarrow> st" where
  "Tcl_SetVar2_env name v s =
     s\<lparr>ip := (ip s)\<lparr>env_arr := (env_arr (ip s))(name \<mapsto> v)\<rparr>,
       pr := (pr s)\<lparr>environ := (environ (pr s))(name \<mapsto> v)\<rparr>\<rparr>"

definition Tcl_GetVar :: "string \<Rightarrow> st \<Rightarrow> string option" where
  "Tcl_GetVar name s = globals (ip s) name"

definition Tcl_SetResult :: "string \<Rightarrow> st \<Rightarrow> st" where
  "Tcl_SetResult msg s = s\<lparr>ip := (ip s)\<lparr>result := msg\<rparr>\<rparr>"

definition Tcl_Init :: "host \<Rightarrow> st \<Rightarrow> tcl_code \<times> st" where
  "Tcl_Init h s =
     (let (rc, i') = tcl_init h (ip s)
      in (rc, (log_call (Tcl_Init_call (ip s) rc) s)\<lparr>ip := i'\<rparr>))"

definition Tk_Init :: "host \<Rightarrow> st \<Rightarrow> tcl_code \<times> st" where
  "Tk_Init h s =
     (let (rc, i') = tk_init h (ip s)
      in (rc, (log_call (Tk_Init_call (ip s) rc) s)\<lparr>ip := i'\<rparr>))"

definition Tk_MainWindow :: "st \<Rightarrow> st" where
  "Tk_MainWindow s = log_call Tk_MainWindow_call s"

text \<open>The Zvfs driver: \<open>Zvfs_Init\<close> registers the driver (once per process is
  enough, repeating it is harmless); \<open>Zvfs_Mount\<close> reports whether the driver could
  index the archive and, if so, records the mount point.\<close>

definition Zvfs_Init :: "st \<Rightarrow> st" where
  "Zvfs_Init s = (let s' = log_call Zvfs_Init_call s in s'\<lparr>pr := (pr s')\<lparr>zvfs_inited := True\<rparr>\<rparr>)"

definition Zvfs_Mount :: "host \<Rightarrow> string \<Rightarrow> string \<Rightarrow> st \<Rightarrow> tcl_code \<times> st" where
  "Zvfs_Mount h archive mnt s =
     (let s' = log_call (Zvfs_Mount_call archive mnt) s
      in if mount_ok h archive mnt
         then (TCL_OK, s'\<lparr>pr := (pr s')\<lparr>zvfs_mounts := (zvfs_mounts (pr s'))(mnt \<mapsto> archive)\<rparr>\<rparr>)
         else (TCL_ERROR, s'))"

text \<open>\<open>Tcl_StaticPackage(NULL, name, init, safeInit)\<close> adds the package to the
  process-wide list unless an identical entry is already there.\<close>

definition Tcl_StaticPackage :: "string \<Rightarrow> st \<Rightarrow> st" where
  "Tcl_StaticPackage name s =
     (if name \<in> set (static_pkgs (pr s)) then s
      else s\<lparr>pr := (pr s)\<lparr>static_pkgs := static_pkgs (pr s) @ [name]\<rparr>\<rparr>)"

definition TclSetLibraryPath :: "string list \<Rightarrow> st \<Rightarrow> st" where
  "TclSetLibraryPath l s = s\<lparr>pr := (pr s)\<lparr>tcl_lib_path := Some l\<rparr>\<rparr>"

text \<open>Converting a string object to a Tcl list splits it at white space. \<open>tcl_split\<close>
  is that conversion for strings in which no character is one Tcl's list syntax treats
  specially (braces, double quote, backslash): \<open>tcl_list_plain\<close> says which characters
  these are, and every theorem about the conversion assumes it of its input.\<close>

definition tcl_space :: "char \<Rightarrow> bool" where
  "tcl_space c \<longleftrightarrow> of_char c \<in> {9, 10, 11, 12, 13, 32::nat}"

fun tcl_split :: "string \<Rightarrow> string \<Rightarrow> string list" where
  "tcl_split cur [] = (if cur = [] then [] else [rev cur])"
| "tcl_split cur (c # cs) =
     (if tcl_space c
      then (if cur = [] then tcl_split [] cs else rev cur # tcl_split [] cs)
      else tcl_split (c # cur) cs)"

definition tcl_list_plain :: "char \<Rightarrow> bool" where
  "tcl_list_plain c \<longleftrightarrow> \<not> tcl_space c \<and> of_char c \<notin> {34, 92, 123, 125::nat}"

definition Tk_MacOSXOpenBundleResources :: "host \<Rightarrow> string \<Rightarrow> st \<Rightarrow> string \<times> st" where
  "Tk_MacOSXOpenBundleResources h name s = (bundle_path h name, log_call (OpenBundle_call name) s)"

definition TkMacOSXInitAppleEvents :: "st \<Rightarrow> st" where
  "TkMacOSXInitAppleEvents s = log_call InitAppleEvents_call s"

definition TkMacOSXInitMenus :: "st \<Rightarrow> st" where
  "TkMacOSXInitMenus s = log_call InitMenus_call s"

definition TkImaging_Init :: "st \<Rightarrow> st" where
  "TkImaging_Init s = log_call TkImaging_Init_call s"

text \<open>The message \<open>tkinter.h\<close> defines for a refused second \<open>Tk_Init\<close>.\<close>

definition TKINTER_LOADTK_ERRMSG :: string where
  "TKINTER_LOADTK_ERRMSG = ''Calling Tk_Init again after a previous call failed might deadlock''"

lemmas tcl_api_defs [model_unfold] =
  log_call_def Tcl_SetVar_def Tcl_SetVar2_env_def Tcl_GetVar_def Tcl_SetResult_def
  Tk_MainWindow_def Zvfs_Init_def Tcl_StaticPackage_def TclSetLibraryPath_def
  Tk_MacOSXOpenBundleResources_def TkMacOSXInitAppleEvents_def TkMacOSXInitMenus_def
  TkImaging_Init_def

lemma Tcl_Init_eq:
  "Tcl_Init h s = (fst (tcl_init h (ip s)),
     s\<lparr>ip := snd (tcl_init h (ip s)),
       pr := (pr s)\<lparr>calls := calls (pr s) @ [Tcl_Init_call (ip s) (fst (tcl_init h (ip s)))]\<rparr>\<rparr>)"
  by (simp add: Tcl_Init_def log_call_def split: prod.splits)

lemma Tk_Init_eq:
  "Tk_Init h s = (fst (tk_init h (ip s)),
     s\<lparr>ip := snd (tk_init h (ip s)),
       pr := (pr s)\<lparr>calls := calls (pr s) @ [Tk_Init_call (ip s) (fst (tk_init h (ip s)))]\<rparr>\<rparr>)"
  by (simp add: Tk_Init_def log_call_def split: prod.splits)

lemma Zvfs_Mount_eq:
  "Zvfs_Mount h archive mnt s =
     (if mount_ok h archive mnt then TCL_OK else TCL_ERROR,
      s\<lparr>pr := (pr s)\<lparr>calls := calls (pr s) @ [Zvfs_Mount_call archive mnt],
         zvfs_mounts := (if mount_ok h archive mnt then (zvfs_mounts (pr s))(mnt \<mapsto> archive)
                         else zvfs_mounts (pr s))\<rparr>\<rparr>)"
  by (simp add: Zvfs_Mount_def log_call_def Let_def)

lemmas tcl_call_eqs [model_unfold] = Tcl_Init_eq Tk_Init_eq Zvfs_Mount_eq

lemma tcl_split_word:
  "\<not> list_ex tcl_space w \<Longrightarrow> tcl_split cur w = (if cur = [] \<and> w = [] then [] else [rev cur @ w])"
  by (induction w arbitrary: cur) auto

lemma tcl_split_space:
  assumes c: "tcl_space c" and a: "\<not> list_ex tcl_space a" and ne: "a \<noteq> []"
  shows "tcl_split [] (a @ c # b) = a # tcl_split [] b"
proof -
  have "tcl_split cur (a @ c # b) = (rev cur @ a) # tcl_split [] b" if "rev cur @ a \<noteq> []" for cur
    using a that by (induction a arbitrary: cur) (auto simp: c)
  from this [of "[]"] ne show ?thesis by simp
qed

lemma tcl_plain_no_space: "list_all tcl_list_plain w \<Longrightarrow> \<not> list_ex tcl_space w"
  by (induction w) (auto simp: tcl_list_plain_def)

end
