(* ===== verification/Zvfs.thy ===== *)
theory Zvfs
  imports Archive Tcl_Api
begin

text \<open>
  The virtual-file-system mount and the library-path resolver: \<open>setup_zvfs\<close>
  (\<open>src/Modules/tkappinit.c\<close>, lines 32--70) and the Tk half of the path
  redirection in \<open>Tcl_AppInit\<close> (lines 155--158). \<open>setup_zvfs\<close> asserts that
  \<open>Tcl_GetNameOfExecutable()\<close> is not \<open>NULL\<close>, runs the detector of \<open>Archive\<close>,
  and when the signature is there calls \<open>Zvfs_Init\<close> and \<open>Zvfs_Mount\<close>, ignoring
  both results, then points \<open>env(TCL_LIBRARY)\<close> and \<open>tcl_library\<close> at
  \<open>/zvfs/tcl8.6\<close> and returns 1. The argument \<open>ndebug\<close> says whether the build
  defines \<open>NDEBUG\<close>: then the \<open>assert\<close> is gone and \<open>fopen(NULL, "rb")\<close> is
  undefined behaviour.
  The lemmas give the outcome on each branch: no archive means no write at all; an
  archive means both Tcl variables point into the mount, whatever the driver answered.
\<close>

definition ZVFS_MOUNT :: string where
  "ZVFS_MOUNT = ''/zvfs''"

definition ZVFS_TCL_DIR :: string where
  "ZVFS_TCL_DIR = ZVFS_MOUNT @ ''/tcl8.6''"

definition ZVFS_TK_DIR :: string where
  "ZVFS_TK_DIR = ZVFS_MOUNT @ ''/tk8.6''"

definition setup_zvfs :: "bool \<Rightarrow> host \<Rightarrow> st \<Rightarrow> error + bool \<times> st" where
  "setup_zvfs ndebug h s =
     (case exe_name h of
        None \<Rightarrow>
          (if ndebug then Inl (Undefined_behaviour ''fopen(NULL) after the elided assert'')
           else Inl (Assertion_failed ''prog_name != NULL''))
      | Some prog_name \<Rightarrow>
          (let (found, p1) = probe_zip_sig (files h) prog_name (pr s);
               s1 = s\<lparr>pr := p1\<rparr>
           in if \<not> found then Inr (False, s1)
              else
                (let s2 = Zvfs_Init s1;
                     s3 = snd (Zvfs_Mount h prog_name ZVFS_MOUNT s2);
                     s4 = Tcl_SetVar2_env ''TCL_LIBRARY'' ZVFS_TCL_DIR s3;
                     s5 = Tcl_SetVar ''tcl_library'' ZVFS_TCL_DIR s4
                 in Inr (True, s5))))"

definition set_tk_library :: "bool \<Rightarrow> st \<Rightarrow> st" where
  "set_tk_library zvfs_mounted s =
     (if zvfs_mounted
      then Tcl_SetVar ''tk_library'' ZVFS_TK_DIR (Tcl_SetVar2_env ''TK_LIBRARY'' ZVFS_TK_DIR s)
      else s)"

text \<open>The state \<open>setup_zvfs\<close> leaves behind when it finds the signature, written out
  field by field: the two calls to the driver logged, the mount recorded only when the
  driver succeeded, and both Tcl variables set.\<close>

definition zvfs_found_state :: "host \<Rightarrow> string \<Rightarrow> st \<Rightarrow> st" where
  "zvfs_found_state h prog_name s =
     s\<lparr>pr := (pr s)\<lparr>zvfs_inited := True,
          calls := calls (pr s) @ [Zvfs_Init_call, Zvfs_Mount_call prog_name ZVFS_MOUNT],
          zvfs_mounts := (if mount_ok h prog_name ZVFS_MOUNT
                          then (zvfs_mounts (pr s))(ZVFS_MOUNT \<mapsto> prog_name)
                          else zvfs_mounts (pr s)),
          environ := (environ (pr s))(''TCL_LIBRARY'' \<mapsto> ZVFS_TCL_DIR)\<rparr>,
       ip := (ip s)\<lparr>globals := (globals (ip s))(''tcl_library'' \<mapsto> ZVFS_TCL_DIR),
          env_arr := (env_arr (ip s))(''TCL_LIBRARY'' \<mapsto> ZVFS_TCL_DIR)\<rparr>\<rparr>"

text \<open>Whether \<open>setup_zvfs\<close> finds the archive on a host: its return value.\<close>

definition zvfs_found :: "host \<Rightarrow> bool" where
  "zvfs_found h = (case exe_name h of None \<Rightarrow> False | Some n \<Rightarrow> image_has_sig (files h) n)"

lemma setup_zvfs_no_exe:
  "exe_name h = None \<Longrightarrow> \<exists>e. setup_zvfs nd h s = Inl e"
  by (simp add: setup_zvfs_def)

lemma setup_zvfs_Some:
  assumes "exe_name h = Some n"
  shows "setup_zvfs nd h s =
     (if image_has_sig (files h) n then Inr (True, zvfs_found_state h n s) else Inr (False, s))"
  using assms
  by (simp add: setup_zvfs_def probe_zip_sig_correct zvfs_found_state_def Zvfs_Mount_eq
      tcl_api_defs Let_def)

lemma setup_zvfs_Inr:
  "setup_zvfs nd h s = Inr (m, s') \<longleftrightarrow>
     (\<exists>n. exe_name h = Some n \<and> m = image_has_sig (files h) n \<and>
          s' = (if m then zvfs_found_state h n s else s))"
proof (cases "exe_name h")
  case None
  then show ?thesis by (simp add: setup_zvfs_def)
next
  case (Some n)
  then show ?thesis by (auto simp: setup_zvfs_Some)
qed

lemma zvfs_found_state_frame [state_frame]:
  "tk_load_failed (pr (zvfs_found_state h n s)) = tk_load_failed (pr s)"
  "static_pkgs (pr (zvfs_found_state h n s)) = static_pkgs (pr s)"
  "tcl_lib_path (pr (zvfs_found_state h n s)) = tcl_lib_path (pr s)"
  "open_files (pr (zvfs_found_state h n s)) = open_files (pr s)"
  "result (ip (zvfs_found_state h n s)) = result (ip s)"
  "globals (ip (zvfs_found_state h n s)) x = (if x = ''tcl_library'' then Some ZVFS_TCL_DIR else globals (ip s) x)"
  by (simp_all add: zvfs_found_state_def)

lemma setup_zvfs_frame:
  assumes "setup_zvfs nd h s = Inr (m, s')"
  shows "tk_load_failed (pr s') = tk_load_failed (pr s)" and "static_pkgs (pr s') = static_pkgs (pr s)"
    and "tcl_lib_path (pr s') = tcl_lib_path (pr s)" and "open_files (pr s') = open_files (pr s)"
    and "result (ip s') = result (ip s)"
  using assms by (auto simp: setup_zvfs_Inr state_frame)

text \<open>C7 (functional). When the executable carries no archive signature,
  \<open>setup_zvfs\<close> returns 0 and changes nothing: no Tcl variable, no environment
  variable, no mount, no call of the driver, no stream left open.\<close>

theorem setup_zvfs_no_archive_no_writes:
  assumes "exe_name h = Some n" and "\<not> image_has_sig (files h) n"
  shows "setup_zvfs nd h s = Inr (False, s)"
  using assms by (simp add: setup_zvfs_def probe_zip_sig_correct)

text \<open>C8 (functional). When the signature is there but the Zvfs driver cannot mount
  the archive, \<open>setup_zvfs\<close> still returns 1 and still points \<open>tcl_library\<close> and
  \<open>env(TCL_LIBRARY)\<close> (hence the process environment) at \<open>/zvfs/tcl8.6\<close>, although
  nothing is mounted at \<open>/zvfs\<close>: the results of \<open>Zvfs_Init\<close> and \<open>Zvfs_Mount\<close>
  are ignored (lines 65--69).\<close>

theorem setup_zvfs_mount_failure_still_redirects:
  assumes "exe_name h = Some n" and "image_has_sig (files h) n" and "\<not> mount_ok h n ZVFS_MOUNT"
  shows "\<exists>s'. setup_zvfs nd h s = Inr (True, s') \<and> zvfs_mounts (pr s') = zvfs_mounts (pr s) \<and>
           globals (ip s') ''tcl_library'' = Some ''/zvfs/tcl8.6'' \<and>
           env_arr (ip s') ''TCL_LIBRARY'' = Some ''/zvfs/tcl8.6'' \<and>
           environ (pr s') ''TCL_LIBRARY'' = Some ''/zvfs/tcl8.6''"
  using assms
  by (simp add: setup_zvfs_def probe_zip_sig_correct Zvfs_Mount_eq tcl_api_defs Let_def
      ZVFS_TCL_DIR_def ZVFS_MOUNT_def)

lemma setup_zvfs_flag: "setup_zvfs nd h s = Inr (m, s') \<Longrightarrow> m = zvfs_found h"
  by (auto simp: setup_zvfs_Inr zvfs_found_def)

end
