(* ===== verification/AppInit.thy ===== *)
theory AppInit
  imports Zvfs
begin

text \<open>
  The initialisation sequence: \<open>Tcl_AppInit\<close> of \<open>src/Modules/tkappinit.c\<close>
  (lines 72--220), run once for each interpreter \<open>_tkinter.create()\<close> makes.
  The preprocessor switches of the file are the fields of \<open>config\<close>; each block of
  the function is one definition, composed in \<open>Tcl_AppInit\<close> in the order of the
  source:
  \<^enum> \<open>aqua_pre_tcl_init\<close> (lines 85--102, \<open>TK_AQUA\<close> only): bundle lookup of the
    Tcl library, written three times into Tcl variables, twice (the source repeats the
    block);
  \<^enum> \<open>setup_zvfs\<close> (theory \<open>Zvfs\<close>);
  \<^enum> \<open>Tcl_Init\<close>, whose \<open>TCL_ERROR\<close> ends the sequence (lines 106--107);
  \<^enum> \<open>aqua_pre_tk_init\<close> (lines 110--128, \<open>TK_AQUA\<close> only), where line 117
    declares a second \<open>pathPtr\<close> that shadows the outer one, so that the outer
    pointer is used uninitialised whenever the Tcl bundle was not found: undefined
    behaviour, an error of the model;
  \<^enum> \<open>tk_stage\<close> (lines 135--219): the skip flag, the failure latch
    (\<open>TKINTER_PROTECT_LOADTK\<close> only), the Tk library paths, \<open>Tk_Init\<close> and, on its
    failure, the latch and the per-interpreter flag; on success \<open>post_tk_init\<close>
    (lines 167--218).
  The block under \<open>WITH_PIL_OLD\<close> (lines 183--189) only declares a function, so it
  has no counterpart.
  The lemmas after the definitions are a library on the call log: what each operation
  appends (\<open>appends_without\<close>, \<open>tk_quiet\<close>), what one Tk stage appends
  (\<open>tk_log_step\<close>), and the two shapes of a completed run (\<open>Tcl_AppInit_phases\<close>).
  The properties of a run built on them are in \<open>Runs\<close>.
\<close>

record config =
  NDEBUG :: bool
  TKINTER_PROTECT_LOADTK :: bool
  TK_AQUA :: bool
  WITH_PIL :: bool
  WITH_TIX :: bool
  WITH_BLT :: bool
  WITH_TOGL :: bool

definition set_tcl_bundle_vars :: "string \<Rightarrow> st \<Rightarrow> st" where
  "set_tcl_bundle_vars tclLibPath s =
     Tcl_SetVar ''tcl_pkgPath'' tclLibPath
       (Tcl_SetVar ''tclDefaultLibrary'' tclLibPath (Tcl_SetVar ''tcl_library'' tclLibPath s))"

definition aqua_pre_tcl_init :: "host \<Rightarrow> st \<Rightarrow> string \<times> st" where
  "aqua_pre_tcl_init h s =
     (let (tclLibPath, s1) = Tk_MacOSXOpenBundleResources h ''com.tcltk.tcllibrary'' s;
          s2 = (if tclLibPath \<noteq> [] then set_tcl_bundle_vars tclLibPath s1 else s1);
          s3 = (if tclLibPath \<noteq> [] then set_tcl_bundle_vars tclLibPath s2 else s2)
      in (tclLibPath, s3))"

definition aqua_pre_tk_init :: "host \<Rightarrow> string \<Rightarrow> st \<Rightarrow> error + st" where
  "aqua_pre_tk_init h tclLibPath s =
     (let (tkLibPath, s1) = Tk_MacOSXOpenBundleResources h ''com.tcltk.tklibrary'' s;
          pathPtr = (if tclLibPath \<noteq> [] then Some (tcl_split [] tclLibPath) else None)
      in if tkLibPath \<noteq> []
         then (let s2 = Tcl_SetVar ''tk_library'' tkLibPath s1
               in case pathPtr of
                    None \<Rightarrow> Inl (Undefined_behaviour ''Tcl_ListObjAppendElement on an uninitialized pathPtr'')
                  | Some l \<Rightarrow> Inr (TclSetLibraryPath (l @ [tkLibPath]) s2))
         else (case pathPtr of
                 None \<Rightarrow> Inl (Undefined_behaviour ''TclSetLibraryPath of an uninitialized pathPtr'')
               | Some l \<Rightarrow> Inr (TclSetLibraryPath l s1)))"

definition tk_skip_requested :: "st \<Rightarrow> bool" where
  "tk_skip_requested s \<longleftrightarrow> Tcl_GetVar ''_tkinter_skip_tk_init'' s = Some ''1''"

definition tk_load_blocked :: "st \<Rightarrow> bool" where
  "tk_load_blocked s \<longleftrightarrow> tk_load_failed (pr s) \<or> Tcl_GetVar ''_tkinter_tk_failed'' s = Some ''1''"

definition record_tk_failure :: "st \<Rightarrow> st" where
  "record_tk_failure s =
     Tcl_SetVar ''_tkinter_tk_failed'' ''1'' (s\<lparr>pr := (pr s)\<lparr>tk_load_failed := True\<rparr>\<rparr>)"

definition post_tk_init :: "config \<Rightarrow> st \<Rightarrow> st" where
  "post_tk_init cfg s =
     (let s1 = Tk_MainWindow s;
          s2 = (if TK_AQUA cfg then TkMacOSXInitMenus (TkMacOSXInitAppleEvents s1) else s1);
          s3 = (if WITH_PIL cfg then TkImaging_Init s2 else s2);
          s4 = (if WITH_TIX cfg then Tcl_StaticPackage ''Tix'' s3 else s3);
          s5 = (if WITH_BLT cfg then Tcl_StaticPackage ''Blt'' s4 else s4);
          s6 = (if WITH_TOGL cfg then Tcl_StaticPackage ''Togl'' s5 else s5)
      in s6)"

definition tk_stage :: "config \<Rightarrow> host \<Rightarrow> bool \<Rightarrow> st \<Rightarrow> tcl_code \<times> st" where
  "tk_stage cfg h zvfs_mounted s =
     (if tk_skip_requested s then (TCL_OK, s)
      else if TKINTER_PROTECT_LOADTK cfg \<and> tk_load_blocked s
      then (TCL_ERROR, Tcl_SetResult TKINTER_LOADTK_ERRMSG s)
      else
        (let s1 = set_tk_library zvfs_mounted s;
             (rc, s2) = Tk_Init h s1
         in if rc = TCL_ERROR
            then (TCL_ERROR, if TKINTER_PROTECT_LOADTK cfg then record_tk_failure s2 else s2)
            else (TCL_OK, post_tk_init cfg s2)))"

definition Tcl_AppInit :: "config \<Rightarrow> host \<Rightarrow> st \<Rightarrow> error + tcl_code \<times> st" where
  "Tcl_AppInit cfg h s0 =
     (let (tclLibPath, s1) = (if TK_AQUA cfg then aqua_pre_tcl_init h s0 else ([], s0))
      in case setup_zvfs (NDEBUG cfg) h s1 of
           Inl e \<Rightarrow> Inl e
         | Inr (zvfs_mounted, s2) \<Rightarrow>
             (let (rc, s3) = Tcl_Init h s2
              in if rc = TCL_ERROR then Inr (TCL_ERROR, s3)
                 else
                   (case (if TK_AQUA cfg then aqua_pre_tk_init h tclLibPath s3 else Inr s3) of
                      Inl e \<Rightarrow> Inl e
                    | Inr s4 \<Rightarrow> Inr (tk_stage cfg h zvfs_mounted s4))))"

text \<open>Proof vocabulary over the call log: which logged calls are calls of \<open>Tk_Init\<close>
  or \<open>Tcl_Init\<close>, and the relation "the second state only appends calls that are not
  of a given kind to the log". \<open>tk_quiet\<close> adds that the latch is unchanged: every
  operation of the sequence except \<open>Tk_Init\<close> and the latch update itself is quiet.\<close>

fun is_tk_init :: "call \<Rightarrow> bool" where
  "is_tk_init (Tk_Init_call _ _) = True"
| "is_tk_init _ = False"

fun is_failed_tk_init :: "call \<Rightarrow> bool" where
  "is_failed_tk_init (Tk_Init_call _ rc) = (rc = TCL_ERROR)"
| "is_failed_tk_init _ = False"

fun is_tcl_init :: "call \<Rightarrow> bool" where
  "is_tcl_init (Tcl_Init_call _ _) = True"
| "is_tcl_init _ = False"

fun is_failed_tcl_init :: "call \<Rightarrow> bool" where
  "is_failed_tcl_init (Tcl_Init_call _ rc) = (rc = TCL_ERROR)"
| "is_failed_tcl_init _ = False"

definition appends_without :: "(call \<Rightarrow> bool) \<Rightarrow> st \<Rightarrow> st \<Rightarrow> bool" where
  "appends_without P s s' \<longleftrightarrow> (\<exists>ys. calls (pr s') = calls (pr s) @ ys \<and> \<not> list_ex P ys)"

definition tk_quiet :: "st \<Rightarrow> st \<Rightarrow> bool" where
  "tk_quiet s s' \<longleftrightarrow> appends_without is_tk_init s s' \<and> tk_load_failed (pr s') = tk_load_failed (pr s)"

lemma Tcl_AppInit_Inr:
  "Tcl_AppInit cfg h s0 = Inr (rc, s') \<longleftrightarrow>
    (\<exists>lp s1 m s2 rc3 s3. (if TK_AQUA cfg then aqua_pre_tcl_init h s0 else ([], s0)) = (lp, s1) \<and>
       setup_zvfs (NDEBUG cfg) h s1 = Inr (m, s2) \<and> Tcl_Init h s2 = (rc3, s3) \<and>
       (if rc3 = TCL_ERROR then rc = TCL_ERROR \<and> s' = s3
        else \<exists>s4. (if TK_AQUA cfg then aqua_pre_tk_init h lp s3 else Inr s3) = Inr s4 \<and>
                  tk_stage cfg h m s4 = (rc, s')))"
  by (auto simp: Tcl_AppInit_def split: prod.splits sum.splits if_splits)

subsection \<open>The log only grows\<close>

lemma appends_without_refl [simp]: "appends_without P s s"
  by (simp add: appends_without_def)

lemma appends_without_trans [trans]:
  "appends_without P s1 s2 \<Longrightarrow> appends_without P s2 s3 \<Longrightarrow> appends_without P s1 s3"
  by (auto simp: appends_without_def)

lemma tk_quiet_refl [simp]: "tk_quiet s s"
  by (simp add: tk_quiet_def)

lemma tk_quiet_trans [trans]: "tk_quiet s1 s2 \<Longrightarrow> tk_quiet s2 s3 \<Longrightarrow> tk_quiet s1 s3"
  by (auto simp: tk_quiet_def intro: appends_without_trans)

lemma appends_without_log_call:
  "appends_without P s (log_call c s) \<longleftrightarrow> \<not> P c"
  by (simp add: appends_without_def log_call_def)

lemma appends_without_same_calls:
  "calls (pr s') = calls (pr s) \<Longrightarrow> appends_without P s s'"
  by (simp add: appends_without_def)

lemma appends_without_ops [intro, simp]:
  "appends_without P s (Tcl_SetVar n v s)"
  "appends_without P s (Tcl_SetVar2_env n v s)"
  "appends_without P s (Tcl_SetResult msg s)"
  "appends_without P s (Tcl_StaticPackage n s)"
  "appends_without P s (TclSetLibraryPath l s)"
  "appends_without P s (s\<lparr>pr := (pr s)\<lparr>tk_load_failed := b\<rparr>\<rparr>)"
  by (simp_all add: appends_without_same_calls tcl_api_defs)

lemma appends_without_logged_ops:
  "\<not> P Zvfs_Init_call \<Longrightarrow> appends_without P s (Zvfs_Init s)"
  "\<not> P (Zvfs_Mount_call a mnt) \<Longrightarrow> appends_without P s (snd (Zvfs_Mount h a mnt s))"
  "\<not> P (Tcl_Init_call (ip s) (fst (tcl_init h (ip s)))) \<Longrightarrow> appends_without P s (snd (Tcl_Init h s))"
  "\<not> P Tk_MainWindow_call \<Longrightarrow> appends_without P s (Tk_MainWindow s)"
  "\<not> P (OpenBundle_call n) \<Longrightarrow> appends_without P s (snd (Tk_MacOSXOpenBundleResources h n s))"
  "\<not> P InitAppleEvents_call \<Longrightarrow> appends_without P s (TkMacOSXInitAppleEvents s)"
  "\<not> P InitMenus_call \<Longrightarrow> appends_without P s (TkMacOSXInitMenus s)"
  "\<not> P TkImaging_Init_call \<Longrightarrow> appends_without P s (TkImaging_Init s)"
  by (auto simp: appends_without_def tcl_api_defs tcl_call_eqs Let_def)

lemma tk_quiet_ops [intro, simp]:
  "tk_quiet s (Tcl_SetVar n v s)"
  "tk_quiet s (Tcl_SetVar2_env n v s)"
  "tk_quiet s (Tcl_SetResult msg s)"
  "tk_quiet s (Tcl_StaticPackage n s)"
  "tk_quiet s (TclSetLibraryPath l s)"
  "tk_quiet s (Zvfs_Init s)"
  "tk_quiet s (snd (Zvfs_Mount h a mnt s))"
  "tk_quiet s (snd (Tcl_Init h s))"
  "tk_quiet s (Tk_MainWindow s)"
  "tk_quiet s (snd (Tk_MacOSXOpenBundleResources h n s))"
  "tk_quiet s (TkMacOSXInitAppleEvents s)"
  "tk_quiet s (TkMacOSXInitMenus s)"
  "tk_quiet s (TkImaging_Init s)"
  by (simp_all add: tk_quiet_def appends_without_logged_ops)
     (simp_all add: tcl_api_defs tcl_call_eqs Let_def)

lemma appends_without_record_tk_failure [intro, simp]:
  "appends_without P s (record_tk_failure s)"
  by (simp add: appends_without_def record_tk_failure_def tcl_api_defs)

lemma tk_quiet_set_tk_library [intro, simp]: "tk_quiet s (set_tk_library m s)"
  by (simp add: set_tk_library_def tk_quiet_def appends_without_def tcl_api_defs)

lemma tk_quiet_post_tk_init [intro, simp]: "tk_quiet s (post_tk_init cfg s)"
  by (simp add: post_tk_init_def tk_quiet_def appends_without_def tcl_api_defs Let_def split: if_split)

lemma tk_quiet_aqua_pre_tcl_init [intro, simp]: "tk_quiet s (snd (aqua_pre_tcl_init h s))"
  by (simp add: aqua_pre_tcl_init_def set_tcl_bundle_vars_def tk_quiet_def appends_without_def
      tcl_api_defs Let_def split: if_split)

lemma tk_quiet_aqua_pre_tk_init:
  "aqua_pre_tk_init h lp s = Inr s' \<Longrightarrow> tk_quiet s s'"
  by (auto simp: aqua_pre_tk_init_def tk_quiet_def appends_without_def tcl_api_defs Let_def
      split: if_splits option.splits)

lemma tk_quiet_setup_zvfs:
  "setup_zvfs nd h s = Inr (m, s') \<Longrightarrow> tk_quiet s s'"
  by (auto simp: setup_zvfs_Inr tk_quiet_def appends_without_def zvfs_found_state_def)

subsection \<open>The Tk stage\<close>

lemma tk_stage_skip:
  "tk_skip_requested s \<Longrightarrow> tk_stage cfg h m s = (TCL_OK, s)"
  by (simp add: tk_stage_def)

lemma tk_stage_blocked:
  "\<not> tk_skip_requested s \<Longrightarrow> TKINTER_PROTECT_LOADTK cfg \<Longrightarrow> tk_load_blocked s \<Longrightarrow>
   tk_stage cfg h m s = (TCL_ERROR, Tcl_SetResult TKINTER_LOADTK_ERRMSG s)"
  by (simp add: tk_stage_def)

lemma tk_stage_runs_tk_init:
  assumes "\<not> tk_skip_requested s" and "\<not> (TKINTER_PROTECT_LOADTK cfg \<and> tk_load_blocked s)"
  shows "tk_stage cfg h m s =
     (let (rc, s2) = Tk_Init h (set_tk_library m s)
      in if rc = TCL_ERROR
         then (TCL_ERROR, if TKINTER_PROTECT_LOADTK cfg then record_tk_failure s2 else s2)
         else (TCL_OK, post_tk_init cfg s2))"
  by (simp only: tk_stage_def if_not_P [OF assms(1)] if_not_P [OF assms(2)] Let_def)

text \<open>What one run of the Tk stage appends to the log: nothing that calls
  \<open>Tk_Init\<close>, or exactly one call of it, made only when the latch did not block it,
  after which the latch records its failure (with the protection compiled in).\<close>

definition tk_log_step :: "config \<Rightarrow> st \<Rightarrow> st \<Rightarrow> bool" where
  "tk_log_step cfg s s' \<longleftrightarrow>
     tk_quiet s s' \<or>
     (\<not> (TKINTER_PROTECT_LOADTK cfg \<and> tk_load_failed (pr s)) \<and>
      (\<exists>xs i c ys. calls (pr s') = calls (pr s) @ xs @ [Tk_Init_call i c] @ ys \<and>
         \<not> list_ex is_tk_init xs \<and> \<not> list_ex is_tk_init ys \<and>
         tk_load_failed (pr s') = (tk_load_failed (pr s) \<or> TKINTER_PROTECT_LOADTK cfg \<and> c = TCL_ERROR)))"

lemma tk_log_step_quiet_before:
  "tk_quiet s0 s \<Longrightarrow> tk_log_step cfg s s' \<Longrightarrow> tk_log_step cfg s0 s'"
proof -
  assume q: "tk_quiet s0 s" and l: "tk_log_step cfg s s'"
  from q obtain zs where zs: "calls (pr s) = calls (pr s0) @ zs" "\<not> list_ex is_tk_init zs"
      and lf: "tk_load_failed (pr s) = tk_load_failed (pr s0)"
    by (auto simp: tk_quiet_def appends_without_def)
  show ?thesis
  proof (cases "tk_quiet s s'")
    case True
    with q show ?thesis by (auto simp: tk_log_step_def intro: tk_quiet_trans)
  next
    case False
    with l obtain xs i c ys where
        "\<not> (TKINTER_PROTECT_LOADTK cfg \<and> tk_load_failed (pr s))"
        "calls (pr s') = calls (pr s) @ xs @ [Tk_Init_call i c] @ ys"
        "\<not> list_ex is_tk_init xs" "\<not> list_ex is_tk_init ys"
        "tk_load_failed (pr s') = (tk_load_failed (pr s) \<or> TKINTER_PROTECT_LOADTK cfg \<and> c = TCL_ERROR)"
      by (auto simp: tk_log_step_def)
    with zs lf show ?thesis
      unfolding tk_log_step_def
      by (intro disjI2 conjI exI [of _ "zs @ xs"] exI [of _ i] exI [of _ c] exI [of _ ys]) auto
  qed
qed

lemma tk_stage_run:
  assumes "\<not> tk_skip_requested s" and "\<not> (TKINTER_PROTECT_LOADTK cfg \<and> tk_load_blocked s)"
    and tk: "tk_init h (ip (set_tk_library m s)) = (c, i')"
  shows "tk_stage cfg h m s =
     (if c = TCL_ERROR
      then (TCL_ERROR, if TKINTER_PROTECT_LOADTK cfg then record_tk_failure (snd (Tk_Init h (set_tk_library m s)))
                       else snd (Tk_Init h (set_tk_library m s)))
      else (TCL_OK, post_tk_init cfg (snd (Tk_Init h (set_tk_library m s)))))"
  using tk by (simp add: tk_stage_runs_tk_init [OF assms(1,2)] Tk_Init_eq)

lemma tk_stage_run_log:
  assumes nskip: "\<not> tk_skip_requested s" and nblk: "\<not> (TKINTER_PROTECT_LOADTK cfg \<and> tk_load_blocked s)"
    and st: "tk_stage cfg h m s = (rc, s')"
  shows "\<exists>c zs. calls (pr s') = calls (pr s) @ [Tk_Init_call (ip (set_tk_library m s)) c] @ zs \<and>
           \<not> list_ex is_tk_init zs \<and>
           tk_load_failed (pr s') = (tk_load_failed (pr s) \<or> TKINTER_PROTECT_LOADTK cfg \<and> c = TCL_ERROR) \<and>
           rc = (if c = TCL_ERROR then TCL_ERROR else TCL_OK)"
proof -
  let ?s1 = "set_tk_library m s"
  let ?s2 = "snd (Tk_Init h ?s1)"
  obtain c i' where tk: "tk_init h (ip ?s1) = (c, i')" by fastforce
  have c2: "calls (pr ?s2) = calls (pr s) @ [Tk_Init_call (ip ?s1) c]"
    using tk by (simp add: Tk_Init_eq set_tk_library_def tcl_api_defs)
  have l2: "tk_load_failed (pr ?s2) = tk_load_failed (pr s)"
    by (simp add: Tk_Init_eq set_tk_library_def tcl_api_defs)
  note run = st [unfolded tk_stage_run [OF nskip nblk tk]]
  show ?thesis
  proof (cases "c = TCL_ERROR")
    case True
    with run have "rc = TCL_ERROR"
      and "s' = (if TKINTER_PROTECT_LOADTK cfg then record_tk_failure ?s2 else ?s2)"
      by auto
    with c2 l2 True show ?thesis
      by (intro exI [of _ c] exI [of _ "[]"]) (auto simp: record_tk_failure_def tcl_api_defs)
  next
    case False
    with run have rc: "rc = TCL_OK" and s': "s' = post_tk_init cfg ?s2" by auto
    have "tk_quiet ?s2 s'" unfolding s' by (rule tk_quiet_post_tk_init)
    then obtain zs where "calls (pr s') = calls (pr ?s2) @ zs" "\<not> list_ex is_tk_init zs"
        "tk_load_failed (pr s') = tk_load_failed (pr ?s2)"
      by (auto simp: tk_quiet_def appends_without_def)
    with c2 l2 rc False show ?thesis
      by (intro exI [of _ c] exI [of _ zs]) auto
  qed
qed

lemma tk_stage_log:
  assumes "tk_stage cfg h m s = (rc, s')"
  shows "tk_log_step cfg s s'"
proof (cases "tk_skip_requested s \<or> (TKINTER_PROTECT_LOADTK cfg \<and> tk_load_blocked s)")
  case True
  then have "s' = s \<or> s' = Tcl_SetResult TKINTER_LOADTK_ERRMSG s"
    using assms tk_stage_skip tk_stage_blocked by (metis prod.inject)
  then show ?thesis by (auto simp: tk_log_step_def)
next
  case False
  then have nb: "\<not> (TKINTER_PROTECT_LOADTK cfg \<and> tk_load_failed (pr s))"
    by (auto simp: tk_load_blocked_def)
  from False tk_stage_run_log [OF _ _ assms] obtain c zs where
      "calls (pr s') = calls (pr s) @ [Tk_Init_call (ip (set_tk_library m s)) c] @ zs"
      "\<not> list_ex is_tk_init zs"
      "tk_load_failed (pr s') = (tk_load_failed (pr s) \<or> TKINTER_PROTECT_LOADTK cfg \<and> c = TCL_ERROR)"
    by blast
  with nb show ?thesis
    unfolding tk_log_step_def by (intro disjI2 conjI exI [of _ "[]"]) auto
qed

lemma Tcl_AppInit_stage:
  assumes "Tcl_AppInit cfg h s0 = Inr (rc, s')"
  shows "(\<exists>s2. tk_quiet s0 s2 \<and> rc = TCL_ERROR \<and> fst (tcl_init h (ip s2)) = TCL_ERROR \<and>
              s' = snd (Tcl_Init h s2)) \<or>
         (\<exists>m s4. tk_quiet s0 s4 \<and> tk_stage cfg h m s4 = (rc, s'))"
proof -
  from assms obtain lp s1 m s2 rc3 s3 where
      pre: "(if TK_AQUA cfg then aqua_pre_tcl_init h s0 else ([], s0)) = (lp, s1)" and
      z: "setup_zvfs (NDEBUG cfg) h s1 = Inr (m, s2)" and t: "Tcl_Init h s2 = (rc3, s3)" and
      rest: "if rc3 = TCL_ERROR then rc = TCL_ERROR \<and> s' = s3
             else \<exists>s4. (if TK_AQUA cfg then aqua_pre_tk_init h lp s3 else Inr s3) = Inr s4 \<and>
                       tk_stage cfg h m s4 = (rc, s')"
    unfolding Tcl_AppInit_Inr by blast
  have q1: "tk_quiet s0 s1"
    using pre tk_quiet_aqua_pre_tcl_init [of s0 h] by (cases "TK_AQUA cfg") simp_all
  have q2: "tk_quiet s0 s2"
    using q1 tk_quiet_setup_zvfs [OF z] by (rule tk_quiet_trans)
  have q3: "tk_quiet s0 s3"
    using q2 tk_quiet_ops(8) [of s2 h] t by (auto intro: tk_quiet_trans)
  show ?thesis
  proof (cases "rc3 = TCL_ERROR")
    case True
    with rest t q2 show ?thesis by (auto simp: Tcl_Init_eq)
  next
    case False
    with rest obtain s4 where a: "(if TK_AQUA cfg then aqua_pre_tk_init h lp s3 else Inr s3) = Inr s4"
        and st: "tk_stage cfg h m s4 = (rc, s')"
      by auto
    have "tk_quiet s0 s4"
      using q3 a tk_quiet_aqua_pre_tk_init by (auto split: if_splits intro: tk_quiet_trans)
    with st show ?thesis by blast
  qed
qed

lemma Tcl_AppInit_log:
  assumes "Tcl_AppInit cfg h s0 = Inr (rc, s')"
  shows "tk_log_step cfg s0 s'"
  using Tcl_AppInit_stage [OF assms]
proof
  assume "\<exists>s2. tk_quiet s0 s2 \<and> rc = TCL_ERROR \<and> fst (tcl_init h (ip s2)) = TCL_ERROR \<and>
              s' = snd (Tcl_Init h s2)"
  then show ?thesis
    by (auto simp: tk_log_step_def intro: tk_quiet_trans)
next
  assume "\<exists>m s4. tk_quiet s0 s4 \<and> tk_stage cfg h m s4 = (rc, s')"
  then show ?thesis
    by (blast intro: tk_log_step_quiet_before tk_stage_log)
qed

subsection \<open>Calls of \<open>Tcl_Init\<close> in the log\<close>

lemma tcl_free_setup_zvfs:
  "setup_zvfs nd h s = Inr (m, s') \<Longrightarrow> appends_without is_tcl_init s s'"
  by (auto simp: setup_zvfs_Inr appends_without_def zvfs_found_state_def)

lemma tcl_free_aqua_pre_tcl_init: "appends_without is_tcl_init s (snd (aqua_pre_tcl_init h s))"
  by (simp add: aqua_pre_tcl_init_def set_tcl_bundle_vars_def appends_without_def tcl_api_defs
      Let_def split: if_split)

lemma tcl_free_aqua_pre_tk_init:
  "aqua_pre_tk_init h lp s = Inr s' \<Longrightarrow> appends_without is_tcl_init s s'"
  by (auto simp: aqua_pre_tk_init_def appends_without_def tcl_api_defs Let_def
      split: if_splits option.splits)

lemma tcl_free_post_tk_init: "appends_without is_tcl_init s (post_tk_init cfg s)"
  by (simp add: post_tk_init_def appends_without_def tcl_api_defs Let_def split: if_split)

lemma tcl_free_tk_stage:
  assumes "tk_stage cfg h m s = (rc, s')"
  shows "appends_without is_tcl_init s s'"
proof (cases "tk_skip_requested s \<or> (TKINTER_PROTECT_LOADTK cfg \<and> tk_load_blocked s)")
  case True
  then have "s' = s \<or> s' = Tcl_SetResult TKINTER_LOADTK_ERRMSG s"
    using assms tk_stage_skip tk_stage_blocked by (metis prod.inject)
  then show ?thesis by auto
next
  case False
  obtain c i' where tk: "tk_init h (ip (set_tk_library m s)) = (c, i')" by fastforce
  let ?s2 = "snd (Tk_Init h (set_tk_library m s))"
  have a2: "appends_without is_tcl_init s ?s2"
    by (simp add: appends_without_def Tk_Init_eq set_tk_library_def tcl_api_defs)
  have "s' = ?s2 \<or> s' = record_tk_failure ?s2 \<or> s' = post_tk_init cfg ?s2"
    using assms tk_stage_run [OF _ _ tk] False by (auto split: if_splits)
  then show ?thesis
    using a2 tcl_free_post_tk_init [of ?s2 cfg] appends_without_record_tk_failure [of is_tcl_init ?s2]
    by (auto intro: appends_without_trans)
qed

lemma tk_stage_code: "fst (tk_stage cfg h m s) = TCL_OK \<or> fst (tk_stage cfg h m s) = TCL_ERROR"
  by (simp add: tk_stage_def Let_def split: prod.split)

lemma aqua_pre_tcl_init_no_bundle:
  "bundle_path h ''com.tcltk.tcllibrary'' = [] \<Longrightarrow> fst (aqua_pre_tcl_init h s) = []"
  by (simp add: aqua_pre_tcl_init_def Tk_MacOSXOpenBundleResources_def Let_def)

lemma aqua_pre_tk_init_uninit:
  "\<exists>msg. aqua_pre_tk_init h [] s = Inl (Undefined_behaviour msg)"
  by (simp add: aqua_pre_tk_init_def Tk_MacOSXOpenBundleResources_def Let_def)

lemma failed_tcl_init_is_tcl_init: "is_failed_tcl_init c \<Longrightarrow> is_tcl_init c"
  by (cases c) auto

lemma appends_without_mono:
  "appends_without P s s' \<Longrightarrow> (\<And>c. Q c \<Longrightarrow> P c) \<Longrightarrow> appends_without Q s s'"
  by (auto simp: appends_without_def list_ex_iff)

lemma appends_without_disj:
  "appends_without P s s' \<Longrightarrow> appends_without Q s s' \<Longrightarrow> appends_without (\<lambda>c. P c \<or> Q c) s s'"
  by (auto simp: appends_without_def list_ex_iff)

text \<open>The two ways a completed run goes: \<open>Tcl_Init\<close> fails and is the last call, after
  no call of \<open>Tcl_Init\<close> or \<open>Tk_Init\<close>; or \<open>Tcl_Init\<close> succeeds and the run ends in
  the Tk stage, entered from a state reached quietly.\<close>

lemma Tcl_AppInit_phases:
  assumes "Tcl_AppInit cfg h s0 = Inr (rc, s')"
  shows "(rc = TCL_ERROR \<and> tk_load_failed (pr s') = tk_load_failed (pr s0) \<and>
          (\<exists>ys i. calls (pr s') = calls (pr s0) @ ys @ [Tcl_Init_call i TCL_ERROR] \<and>
                  \<not> list_ex is_tcl_init ys \<and> \<not> list_ex is_tk_init ys)) \<or>
         (\<exists>m s4. tk_quiet s0 s4 \<and> appends_without is_failed_tcl_init s0 s4 \<and>
                 tk_stage cfg h m s4 = (rc, s'))"
proof -
  from assms obtain lp s1 m s2 rc3 s3 where
      pre: "(if TK_AQUA cfg then aqua_pre_tcl_init h s0 else ([], s0)) = (lp, s1)" and
      z: "setup_zvfs (NDEBUG cfg) h s1 = Inr (m, s2)" and t: "Tcl_Init h s2 = (rc3, s3)" and
      rest: "if rc3 = TCL_ERROR then rc = TCL_ERROR \<and> s' = s3
             else \<exists>s4. (if TK_AQUA cfg then aqua_pre_tk_init h lp s3 else Inr s3) = Inr s4 \<and>
                       tk_stage cfg h m s4 = (rc, s')"
    unfolding Tcl_AppInit_Inr by blast
  have q2: "tk_quiet s0 s2"
    using pre tk_quiet_aqua_pre_tcl_init [of s0 h] tk_quiet_setup_zvfs [OF z]
    by (cases "TK_AQUA cfg") (auto intro: tk_quiet_trans)
  have a2: "appends_without is_tcl_init s0 s2"
    using pre tcl_free_aqua_pre_tcl_init [of s0 h] tcl_free_setup_zvfs [OF z]
    by (cases "TK_AQUA cfg") (auto intro: appends_without_trans)
  have c3: "calls (pr s3) = calls (pr s2) @ [Tcl_Init_call (ip s2) rc3]"
    and l3: "tk_load_failed (pr s3) = tk_load_failed (pr s2)"
    and r3: "fst (tcl_init h (ip s2)) = rc3"
    using t by (auto simp: Tcl_Init_eq)
  show ?thesis
  proof (cases "rc3 = TCL_ERROR")
    case True
    with rest have rc: "rc = TCL_ERROR" and s': "s' = s3" by auto
    from appends_without_disj [OF a2 conjunct1 [OF q2 [unfolded tk_quiet_def]]]
    obtain ys where "calls (pr s2) = calls (pr s0) @ ys" "\<not> list_ex is_tcl_init ys" "\<not> list_ex is_tk_init ys"
      by (auto simp: appends_without_def list_ex_iff)
    with c3 l3 q2 rc s' True show ?thesis
      by (auto simp: tk_quiet_def)
  next
    case False
    with rest obtain s4 where a: "(if TK_AQUA cfg then aqua_pre_tk_init h lp s3 else Inr s3) = Inr s4"
        and st: "tk_stage cfg h m s4 = (rc, s')"
      by auto
    have q3: "tk_quiet s0 s3"
      using q2 tk_quiet_ops(8) [of s2 h] t by (auto intro: tk_quiet_trans)
    have q4: "tk_quiet s0 s4"
      using q3 a tk_quiet_aqua_pre_tk_init by (auto split: if_splits intro: tk_quiet_trans)
    have f3: "appends_without is_failed_tcl_init s0 s3"
    proof -
      have "appends_without is_failed_tcl_init s0 s2"
        using a2 by (rule appends_without_mono) (rule failed_tcl_init_is_tcl_init)
      moreover have "appends_without is_failed_tcl_init s2 s3"
        using appends_without_logged_ops(3) [of is_failed_tcl_init s2 h] t r3 False by simp
      ultimately show ?thesis by (rule appends_without_trans)
    qed
    have "appends_without is_failed_tcl_init s3 s4"
    proof (cases "TK_AQUA cfg")
      case True
      with a have "aqua_pre_tk_init h lp s3 = Inr s4" by simp
      then have "appends_without is_tcl_init s3 s4" by (rule tcl_free_aqua_pre_tk_init)
      then show ?thesis by (rule appends_without_mono) (rule failed_tcl_init_is_tcl_init)
    next
      case False
      with a show ?thesis by simp
    qed
    with f3 have "appends_without is_failed_tcl_init s0 s4" by (rule appends_without_trans)
    with q4 st show ?thesis by blast
  qed
qed

subsection \<open>Relations kept by every stage\<close>

text \<open>A reflexive and transitive relation between states that every stage of a run
  keeps holds between the state a run starts from and the one it ends in. The Tk stage
  is split by its outcome, so that a relation need only be kept by \<open>post_tk_init\<close>
  when the stage succeeds; the run is split around \<open>setup_zvfs\<close>, whose flag is
  \<open>zvfs_found\<close>.\<close>

lemma tk_stage_rel:
  assumes st: "tk_stage cfg h m s = (rc, s')" and R: "reflp R" "transp R"
    and res: "\<And>s. R s (Tcl_SetResult TKINTER_LOADTK_ERRMSG s)"
    and lib: "\<And>s. R s (set_tk_library m s)" and tk: "\<And>s. R s (snd (Tk_Init h s))"
    and fail: "\<And>s. R s (record_tk_failure s)" and ok: "\<And>s. rc = TCL_OK \<Longrightarrow> R s (post_tk_init cfg s)"
  shows "R s s'"
proof (cases "tk_skip_requested s \<or> (TKINTER_PROTECT_LOADTK cfg \<and> tk_load_blocked s)")
  case True
  then have "s' = s \<or> s' = Tcl_SetResult TKINTER_LOADTK_ERRMSG s"
    using st tk_stage_skip tk_stage_blocked by (metis prod.inject)
  then show ?thesis using reflpD [OF R(1)] res by auto
next
  case False
  let ?s2 = "snd (Tk_Init h (set_tk_library m s))"
  have q: "R s ?s2" using transpD [OF R(2) lib tk] .
  from False st have "(s' = record_tk_failure ?s2 \<or> s' = ?s2) \<or> (rc = TCL_OK \<and> s' = post_tk_init cfg ?s2)"
    by (auto simp: tk_stage_runs_tk_init split: prod.splits if_splits)
  then show ?thesis using q transpD [OF R(2) q] fail ok by auto
qed

lemma Tcl_AppInit_split:
  assumes run: "Tcl_AppInit cfg h s0 = Inr (rc, s')" and R: "reflp R" "transp R"
    and pre: "\<And>s. TK_AQUA cfg \<Longrightarrow> R s (snd (aqua_pre_tcl_init h s))"
    and tcl: "\<And>s. R s (snd (Tcl_Init h s))"
    and aqua: "\<And>lp s s2. TK_AQUA cfg \<Longrightarrow> aqua_pre_tk_init h lp s = Inr s2 \<Longrightarrow> R s s2"
    and tk: "\<And>s. tk_stage cfg h (zvfs_found h) s = (rc, s') \<Longrightarrow> R s s'"
  shows "\<exists>s1 s2. R s0 s1 \<and> setup_zvfs (NDEBUG cfg) h s1 = Inr (zvfs_found h, s2) \<and> R s2 s'"
proof -
  from run obtain lp s1 m s2 rc3 s3 where
      p: "(if TK_AQUA cfg then aqua_pre_tcl_init h s0 else ([], s0)) = (lp, s1)" and
      z: "setup_zvfs (NDEBUG cfg) h s1 = Inr (m, s2)" and t: "Tcl_Init h s2 = (rc3, s3)" and
      rest: "if rc3 = TCL_ERROR then rc = TCL_ERROR \<and> s' = s3
             else \<exists>s4. (if TK_AQUA cfg then aqua_pre_tk_init h lp s3 else Inr s3) = Inr s4 \<and>
                       tk_stage cfg h m s4 = (rc, s')"
    unfolding Tcl_AppInit_Inr by blast
  have m: "m = zvfs_found h" using z by (rule setup_zvfs_flag)
  have r1: "R s0 s1" using p pre [of s0] reflpD [OF R(1)] by (cases "TK_AQUA cfg") auto
  have r3: "R s2 s3" using tcl [of s2] t by simp
  have "R s2 s'"
  proof (cases "rc3 = TCL_ERROR")
    case True
    with rest r3 show ?thesis by simp
  next
    case False
    with rest obtain s4 where a: "(if TK_AQUA cfg then aqua_pre_tk_init h lp s3 else Inr s3) = Inr s4"
        and st: "tk_stage cfg h m s4 = (rc, s')"
      by auto
    have "R s3 s4" using a aqua reflpD [OF R(1)] by (cases "TK_AQUA cfg") auto
    with r3 tk [OF st [unfolded m]] show ?thesis by (blast intro: transpD [OF R(2)])
  qed
  with r1 z m show ?thesis by blast
qed

lemma Tcl_AppInit_rel:
  assumes run: "Tcl_AppInit cfg h s0 = Inr (rc, s')" and R: "reflp R" "transp R"
    and pre: "\<And>s. TK_AQUA cfg \<Longrightarrow> R s (snd (aqua_pre_tcl_init h s))"
    and zv: "\<And>s m s2. setup_zvfs (NDEBUG cfg) h s = Inr (m, s2) \<Longrightarrow> R s s2"
    and tcl: "\<And>s. R s (snd (Tcl_Init h s))"
    and aqua: "\<And>lp s s2. TK_AQUA cfg \<Longrightarrow> aqua_pre_tk_init h lp s = Inr s2 \<Longrightarrow> R s s2"
    and tk: "\<And>s. tk_stage cfg h (zvfs_found h) s = (rc, s') \<Longrightarrow> R s s'"
  shows "R s0 s'"
proof -
  have "\<exists>s1 s2. R s0 s1 \<and> setup_zvfs (NDEBUG cfg) h s1 = Inr (zvfs_found h, s2) \<and> R s2 s'"
    using run R pre tcl aqua tk by (rule Tcl_AppInit_split)
  then obtain s1 s2 where
      "R s0 s1" "setup_zvfs (NDEBUG cfg) h s1 = Inr (zvfs_found h, s2)" "R s2 s'"
    by blast
  then show ?thesis by (blast intro: transpD [OF R(2)] zv)
qed

end
