(* ===== verification/Process.thy ===== *)
theory Process
  imports AppInit
begin

text \<open>
  The process over its lifetime: \<open>_tkinter\<close> creates interpreters one after the other,
  and \<open>Tcl_AppInit\<close> runs for each (specification, section 5: strictly serial). The
  only state that one run hands to the next is the process record \<open>proc\<close>: the latch
  \<open>tk_load_failed\<close> (\<open>static int\<close>, line 24 of \<open>src/Modules/tkappinit.c\<close>), the
  environment, the Zvfs mounts, Tcl's registries and the call log. The interpreter of
  each run is fresh and chosen by the embedding application (it may carry
  \<open>_tkinter_skip_tk_init\<close> or \<open>_tkinter_tk_failed\<close>), and the host may behave
  differently in each run; both are arbitrary in the step rule.

  \<open>appinit_reach cfg\<close> holds of the process states some sequence of completed runs
  reaches from a fresh process. The latch invariant \<open>latch_inv\<close> says the latch is set
  exactly when a call of \<open>Tk_Init\<close> has failed and that no call of \<open>Tk_Init\<close> follows a
  failed one in the log; it holds in every reachable state when
  \<open>TKINTER_PROTECT_LOADTK\<close> is compiled in, and fails without it.
\<close>

fun no_tk_after_failure :: "call list \<Rightarrow> bool" where
  "no_tk_after_failure [] = True"
| "no_tk_after_failure (c # cs) =
     (if is_failed_tk_init c then \<not> list_ex is_tk_init cs else no_tk_after_failure cs)"

definition latch_inv :: "proc \<Rightarrow> bool" where
  "latch_inv p \<longleftrightarrow>
     (tk_load_failed p \<longleftrightarrow> list_ex is_failed_tk_init (calls p)) \<and> no_tk_after_failure (calls p)"

definition fresh_proc :: "(string \<rightharpoonup> string) \<Rightarrow> proc" where
  "fresh_proc env =
     \<lparr>open_files = 0, tk_load_failed = False, environ = env, zvfs_inited = False,
      zvfs_mounts = Map.empty, tcl_lib_path = None, static_pkgs = [], calls = []\<rparr>"

inductive appinit_reach :: "config \<Rightarrow> proc \<Rightarrow> bool" for cfg :: config where
  start: "appinit_reach cfg (fresh_proc env)"
| step: "appinit_reach cfg p \<Longrightarrow> Tcl_AppInit cfg h \<lparr>pr = p, ip = i\<rparr> = Inr (rc, s') \<Longrightarrow>
         appinit_reach cfg (pr s')"

inductive_cases appinit_reach_stepE: "appinit_reach cfg p'"

lemma failed_tk_init_is_tk_init: "is_failed_tk_init c \<Longrightarrow> is_tk_init c"
  by (cases c) auto

lemma no_failed_if_no_tk: "\<not> list_ex is_tk_init ys \<Longrightarrow> \<not> list_ex is_failed_tk_init ys"
  by (induction ys) (auto dest: failed_tk_init_is_tk_init)

lemma no_tk_after_failure_no_tk: "\<not> list_ex is_tk_init ys \<Longrightarrow> no_tk_after_failure ys"
  by (induction ys) (auto dest: failed_tk_init_is_tk_init)

lemma no_tk_after_failure_append:
  "no_tk_after_failure (xs @ ys) \<longleftrightarrow>
     no_tk_after_failure xs \<and> no_tk_after_failure ys \<and>
     (list_ex is_failed_tk_init xs \<longrightarrow> \<not> list_ex is_tk_init ys)"
  by (induction xs) (auto dest: failed_tk_init_is_tk_init intro: no_tk_after_failure_no_tk)

lemma no_tk_after_failure_split:
  "no_tk_after_failure (xs @ c # ys) \<Longrightarrow> is_failed_tk_init c \<Longrightarrow> \<not> list_ex is_tk_init ys"
  by (simp add: no_tk_after_failure_append)

lemma latch_inv_fresh: "latch_inv (fresh_proc env)"
  by (simp add: latch_inv_def fresh_proc_def)

lemma latch_inv_tk_log_step:
  assumes prot: "TKINTER_PROTECT_LOADTK cfg" and inv: "latch_inv (pr s)"
    and step: "tk_log_step cfg s s'"
  shows "latch_inv (pr s')"
proof (cases "tk_quiet s s'")
  case True
  then obtain ys where "calls (pr s') = calls (pr s) @ ys" "\<not> list_ex is_tk_init ys"
      "tk_load_failed (pr s') = tk_load_failed (pr s)"
    by (auto simp: tk_quiet_def appends_without_def)
  with inv show ?thesis
    by (auto simp: latch_inv_def no_tk_after_failure_append no_failed_if_no_tk
        no_tk_after_failure_no_tk)
next
  case False
  with step prot obtain xs i c ys where nf: "\<not> tk_load_failed (pr s)" and
      cs: "calls (pr s') = calls (pr s) @ xs @ [Tk_Init_call i c] @ ys" and
      xs: "\<not> list_ex is_tk_init xs" and ys: "\<not> list_ex is_tk_init ys" and
      lf: "tk_load_failed (pr s') = (c = TCL_ERROR)"
    by (auto simp: tk_log_step_def)
  from inv nf have old: "\<not> list_ex is_failed_tk_init (calls (pr s))" "no_tk_after_failure (calls (pr s))"
    by (auto simp: latch_inv_def)
  show ?thesis
    using old cs xs ys lf
    by (simp add: latch_inv_def no_tk_after_failure_append no_failed_if_no_tk
        no_tk_after_failure_no_tk)
qed

lemma latch_inv_Tcl_AppInit:
  "TKINTER_PROTECT_LOADTK cfg \<Longrightarrow> latch_inv (pr s) \<Longrightarrow> Tcl_AppInit cfg h s = Inr (rc, s') \<Longrightarrow>
   latch_inv (pr s')"
  by (blast intro: latch_inv_tk_log_step Tcl_AppInit_log)

lemma appinit_reach_latch_inv:
  assumes "appinit_reach cfg p" and "TKINTER_PROTECT_LOADTK cfg"
  shows "latch_inv p"
  using assms(1)
proof (induction rule: appinit_reach.induct)
  case (start env)
  show ?case by (rule latch_inv_fresh)
next
  case (step p h i rc s')
  then show ?case
    using latch_inv_Tcl_AppInit [OF assms(2), of "\<lparr>pr = p, ip = i\<rparr>"] by simp
qed

text \<open>C1 (invariant). With \<open>TKINTER_PROTECT_LOADTK\<close> compiled in, in every process
  state reachable by creating interpreters one after the other, the latch
  \<open>tk_load_failed\<close> is set exactly when some call of \<open>Tk_Init\<close> has failed, and no
  call of \<open>Tk_Init\<close> follows a failed one.\<close>

theorem reachable_latch_consistent:
  assumes "TKINTER_PROTECT_LOADTK cfg" and "appinit_reach cfg p"
  shows "(tk_load_failed p \<longleftrightarrow> list_ex is_failed_tk_init (calls p)) \<and> no_tk_after_failure (calls p)"
  using appinit_reach_latch_inv [OF assms(2,1)] by (simp add: latch_inv_def)

end
