(* ===== verification/Aqua.thy ===== *)
theory Aqua
  imports AppInit
begin

text \<open>
  The macOS blocks of \<open>Tcl_AppInit\<close> (\<open>TK_AQUA\<close>, \<open>src/Modules/tkappinit.c\<close>
  lines 81--102 and 109--129), modelled in \<open>AppInit\<close> as \<open>aqua_pre_tcl_init\<close> and
  \<open>aqua_pre_tk_init\<close>, and what they mean for the whole run.
  \<^item> \<open>aqua_pre_tcl_init_state\<close> gives the pre-\<open>Tcl_Init\<close> block in closed form: the
    bundle path it returns, and the three variables set once although the source
    repeats the block (lines 92--96 and 98--102).
  \<^item> When both bundles are found, Tcl's library path becomes the Tcl bundle path
    followed by the Tk bundle path, provided the Tcl path holds no white space or
    list-syntax character: \<open>pathPtr\<close> is a string object that
    \<open>Tcl_ListObjAppendElement\<close> (line 125) converts to a list, so a path with a
    space becomes several directories.
  \<^item> Together with \<open>setup_zvfs\<close>, this decides exactly when \<open>Tcl_AppInit\<close> returns
    to its caller at all: only a missing executable name (the \<open>assert\<close>) and a
    missing Tcl bundle on macOS (the shadowed \<open>pathPtr\<close>, reached only when
    \<open>Tcl_Init\<close> succeeds) prevent it.
\<close>

lemma set_tcl_bundle_vars_idem [simp]:
  "set_tcl_bundle_vars p (set_tcl_bundle_vars p s) = set_tcl_bundle_vars p s"
  by (simp add: set_tcl_bundle_vars_def Tcl_SetVar_def fun_upd_twist)

lemma aqua_pre_tk_init_found:
  assumes "tclLibPath \<noteq> []" and "bundle_path h ''com.tcltk.tklibrary'' = tkLibPath" and "tkLibPath \<noteq> []"
  shows "aqua_pre_tk_init h tclLibPath s =
    Inr (TclSetLibraryPath (tcl_split [] tclLibPath @ [tkLibPath])
           (Tcl_SetVar ''tk_library'' tkLibPath (log_call (OpenBundle_call ''com.tcltk.tklibrary'') s)))"
  using assms by (simp add: aqua_pre_tk_init_def Tk_MacOSXOpenBundleResources_def)

lemma aqua_pre_tk_init_Inr_iff: "(\<exists>s'. aqua_pre_tk_init h lp s = Inr s') \<longleftrightarrow> lp \<noteq> []"
  by (simp add: aqua_pre_tk_init_def Tk_MacOSXOpenBundleResources_def Let_def split: option.split)

lemma zvfs_found_state_ip_log:
  "ip (zvfs_found_state h n (log_call c s)) = ip (zvfs_found_state h n s)"
  by (simp add: zvfs_found_state_def log_call_def)

lemma aqua_pre_tcl_init_state:
  "aqua_pre_tcl_init h s =
     (bundle_path h ''com.tcltk.tcllibrary'',
      (if bundle_path h ''com.tcltk.tcllibrary'' \<noteq> []
       then set_tcl_bundle_vars (bundle_path h ''com.tcltk.tcllibrary'')
       else id) (log_call (OpenBundle_call ''com.tcltk.tcllibrary'') s))"
  by (simp add: aqua_pre_tcl_init_def Tk_MacOSXOpenBundleResources_def split: prod.split)

text \<open>C21 (functional). On macOS, when the Tcl bundle path is found and holds no white
  space or list-syntax character and the Tk bundle is found, the pre-\<open>Tk_Init\<close> block
  sets \<open>tk_library\<close> to the Tk bundle path and Tcl's library path to exactly the
  two bundle paths, Tcl's first.\<close>

theorem aqua_bundle_library_path:
  assumes "tclLibPath \<noteq> []" and "list_all tcl_list_plain tclLibPath"
    and "bundle_path h ''com.tcltk.tklibrary'' = tkLibPath" and "tkLibPath \<noteq> []"
  shows "\<exists>s'. aqua_pre_tk_init h tclLibPath s = Inr s' \<and>
           tcl_lib_path (pr s') = Some [tclLibPath, tkLibPath] \<and>
           Tcl_GetVar ''tk_library'' s' = Some tkLibPath"
  using assms by (simp add: aqua_pre_tk_init_found tcl_split_word tcl_plain_no_space tcl_api_defs)

text \<open>C22 (error). A Tcl bundle path with a space in it, \<open>a b\<close>, does not reach
  Tcl's library path as one directory: the list conversion of \<open>pathPtr\<close> at line 125
  splits it, and the library path becomes \<open>a\<close>, \<open>b\<close> and the Tk bundle path.\<close>

theorem aqua_bundle_path_with_space_split:
  assumes "a \<noteq> []" and "b \<noteq> []" and "list_all tcl_list_plain a" and "list_all tcl_list_plain b"
    and "bundle_path h ''com.tcltk.tklibrary'' = tkLibPath" and "tkLibPath \<noteq> []"
  shows "\<exists>s'. aqua_pre_tk_init h (a @ '' '' @ b) s = Inr s' \<and>
           tcl_lib_path (pr s') = Some [a, b, tkLibPath]"
  using assms
  by (simp add: aqua_pre_tk_init_found tcl_split_space tcl_split_word tcl_plain_no_space
      tcl_space_def tcl_api_defs)

lemma Tcl_AppInit_returns_step:
  assumes pre: "(if TK_AQUA cfg then aqua_pre_tcl_init h s else ([], s)) = (lp, s1)"
    and z: "setup_zvfs (NDEBUG cfg) h s1 = Inr (m, s2)"
  shows "(\<exists>r. Tcl_AppInit cfg h s = Inr r) \<longleftrightarrow>
           (TK_AQUA cfg \<and> lp = [] \<longrightarrow> fst (tcl_init h (ip s2)) = TCL_ERROR)"
proof -
  have run: "Tcl_AppInit cfg h s =
      (if fst (tcl_init h (ip s2)) = TCL_ERROR then Inr (TCL_ERROR, snd (Tcl_Init h s2))
       else case (if TK_AQUA cfg then aqua_pre_tk_init h lp (snd (Tcl_Init h s2))
                  else Inr (snd (Tcl_Init h s2))) of
              Inl e \<Rightarrow> Inl e
            | Inr s4 \<Rightarrow> Inr (tk_stage cfg h m s4))"
    using pre z by (simp add: Tcl_AppInit_def Tcl_Init_eq)
  show ?thesis
    using aqua_pre_tk_init_Inr_iff [of h lp "snd (Tcl_Init h s2)"]
    by (auto simp: run split: sum.split)
qed

text \<open>C23 (termination). \<open>Tcl_AppInit\<close> returns to its caller (with some code and
  state) exactly when the executable's name is known and, on macOS builds with no
  Tcl bundle, \<open>Tcl_Init\<close> fails on the interpreter as \<open>setup_zvfs\<close> left it; in every
  other case it aborts on the \<open>assert\<close> or reaches undefined behaviour.\<close>

theorem Tcl_AppInit_returns_iff:
  "(\<exists>r. Tcl_AppInit cfg h s = Inr r) \<longleftrightarrow>
     (\<exists>n. exe_name h = Some n \<and>
        (TK_AQUA cfg \<and> bundle_path h ''com.tcltk.tcllibrary'' = [] \<longrightarrow>
           fst (tcl_init h (ip (if image_has_sig (files h) n then zvfs_found_state h n s else s))) = TCL_ERROR))"
proof (cases "exe_name h")
  case None
  then show ?thesis by (simp add: Tcl_AppInit_def setup_zvfs_def split: prod.split)
next
  case (Some n)
  let ?lp = "if TK_AQUA cfg then bundle_path h ''com.tcltk.tcllibrary'' else []"
  let ?s1 = "snd (if TK_AQUA cfg then aqua_pre_tcl_init h s else ([], s))"
  have pre: "(if TK_AQUA cfg then aqua_pre_tcl_init h s else ([], s)) = (?lp, ?s1)"
    by (cases "TK_AQUA cfg") (simp_all add: aqua_pre_tcl_init_state)
  let ?s2 = "if image_has_sig (files h) n then zvfs_found_state h n ?s1 else ?s1"
  have z: "setup_zvfs (NDEBUG cfg) h ?s1 = Inr (image_has_sig (files h) n, ?s2)"
    using Some by (simp add: setup_zvfs_Some)
  have ip: "TK_AQUA cfg \<and> ?lp = [] \<Longrightarrow>
      ip ?s2 = ip (if image_has_sig (files h) n then zvfs_found_state h n s else s)"
    by (auto simp: aqua_pre_tcl_init_state zvfs_found_state_def log_call_def)
  show ?thesis
    using Tcl_AppInit_returns_step [OF pre z] Some ip by auto
qed

end
