(* ===== verification/Lifetime.thy ===== *)
theory Lifetime
  imports Process Aqua
begin

text \<open>
  Resources and progress over the lifetime of a process (\<open>appinit_reach\<close> of
  \<open>Process\<close>): what every run of \<open>Tcl_AppInit\<close> leaves behind for the next one.
  \<^item> \<open>configured_pkgs\<close> lists the static packages the build registers (the
    \<open>WITH_TIX\<close>, \<open>WITH_BLT\<close>, \<open>WITH_TOGL\<close> blocks, lines 191--214).
  \<^item> \<open>res_inv\<close> is the resource invariant: no \<open>FILE\<close> stream open, Zvfs mounts only at
    \<open>/zvfs\<close>, and the static-package list free of repetitions and holding only
    configured packages. \<open>res_keep\<close> says a step keeps it; every operation and stage
    of the run is shown to, and rule induction lifts it to reachable states.
  \<^item> Progress: from any reachable state whose latch is clear, a host on which
    \<open>Tcl_Init\<close> and \<open>Tk_Init\<close> succeed (and, on macOS, the Tcl bundle is found)
    makes the next interpreter initialise. \<open>tk_flags\<close> are the two values the latch
    check reads; every stage before \<open>Tk_Init\<close> leaves them alone.
\<close>

definition configured_pkgs :: "config \<Rightarrow> string list" where
  "configured_pkgs cfg =
     (if WITH_TIX cfg then [''Tix''] else []) @ (if WITH_BLT cfg then [''Blt''] else []) @
     (if WITH_TOGL cfg then [''Togl''] else [])"

definition tk_flags :: "st \<Rightarrow> bool \<times> string option" where
  "tk_flags s = (tk_load_failed (pr s), globals (ip s) ''_tkinter_tk_failed'')"

definition res_inv :: "config \<Rightarrow> proc \<Rightarrow> bool" where
  "res_inv cfg p \<longleftrightarrow>
     open_files p = 0 \<and> (\<forall>mnt. zvfs_mounts p mnt \<noteq> None \<longrightarrow> mnt = ZVFS_MOUNT) \<and>
     distinct (static_pkgs p) \<and> set (static_pkgs p) \<subseteq> set (configured_pkgs cfg)"

definition res_keep :: "config \<Rightarrow> st \<Rightarrow> st \<Rightarrow> bool" where
  "res_keep cfg s s' \<longleftrightarrow> (res_inv cfg (pr s) \<longrightarrow> res_inv cfg (pr s'))"

lemma res_keep_refl [simp]: "res_keep cfg s s"
  by (simp add: res_keep_def)

lemma res_keep_trans [trans]: "res_keep cfg s1 s2 \<Longrightarrow> res_keep cfg s2 s3 \<Longrightarrow> res_keep cfg s1 s3"
  by (simp add: res_keep_def)

lemma res_keep_frame:
  "open_files (pr s') = open_files (pr s) \<Longrightarrow> zvfs_mounts (pr s') = zvfs_mounts (pr s) \<Longrightarrow>
   static_pkgs (pr s') = static_pkgs (pr s) \<Longrightarrow> res_keep cfg s s'"
  by (simp add: res_keep_def res_inv_def)

lemma res_keep_ops [intro, simp]:
  "res_keep cfg s (Tcl_SetVar n v s)"
  "res_keep cfg s (Tcl_SetVar2_env n v s)"
  "res_keep cfg s (Tcl_SetResult msg s)"
  "res_keep cfg s (TclSetLibraryPath l s)"
  "res_keep cfg s (log_call c s)"
  "res_keep cfg s (Zvfs_Init s)"
  "res_keep cfg s (snd (Tcl_Init h s))"
  "res_keep cfg s (snd (Tk_Init h s))"
  "res_keep cfg s (snd (Tk_MacOSXOpenBundleResources h n s))"
  "res_keep cfg s (record_tk_failure s)"
  "res_keep cfg s (set_tk_library m s)"
  by (rule res_keep_frame;
      simp add: tcl_api_defs tcl_call_eqs record_tk_failure_def set_tk_library_def Let_def)+

lemma res_keep_mount [intro, simp]: "res_keep cfg s (snd (Zvfs_Mount h a ZVFS_MOUNT s))"
  by (auto simp: res_keep_def res_inv_def Zvfs_Mount_eq)

lemma res_keep_static_package:
  "n \<in> set (configured_pkgs cfg) \<Longrightarrow> res_keep cfg s (Tcl_StaticPackage n s)"
  by (auto simp: res_keep_def res_inv_def Tcl_StaticPackage_def)

lemma res_keep_post_tk_init [intro, simp]: "res_keep cfg s (post_tk_init cfg s)"
proof -
  let ?s1 = "Tk_MainWindow s"
  let ?s2 = "if TK_AQUA cfg then TkMacOSXInitMenus (TkMacOSXInitAppleEvents ?s1) else ?s1"
  let ?s3 = "if WITH_PIL cfg then TkImaging_Init ?s2 else ?s2"
  let ?s4 = "if WITH_TIX cfg then Tcl_StaticPackage ''Tix'' ?s3 else ?s3"
  let ?s5 = "if WITH_BLT cfg then Tcl_StaticPackage ''Blt'' ?s4 else ?s4"
  have "res_keep cfg s ?s3"
    by (rule res_keep_frame; simp add: tcl_api_defs)
  also have "res_keep cfg ?s3 ?s4"
    by (simp add: res_keep_static_package configured_pkgs_def)
  also have "res_keep cfg ?s4 ?s5"
    by (simp add: res_keep_static_package configured_pkgs_def)
  also have "res_keep cfg ?s5 (post_tk_init cfg s)"
    by (simp add: post_tk_init_def Let_def res_keep_static_package configured_pkgs_def)
  finally show ?thesis .
qed

lemma res_keep_aqua_pre_tcl_init [intro, simp]: "res_keep cfg s (snd (aqua_pre_tcl_init h s))"
  by (rule res_keep_frame;
      simp add: aqua_pre_tcl_init_def set_tcl_bundle_vars_def tcl_api_defs Let_def split: prod.split)

lemma res_keep_aqua_pre_tk_init:
  "aqua_pre_tk_init h lp s = Inr s' \<Longrightarrow> res_keep cfg s s'"
  by (rule res_keep_frame;
      auto simp: aqua_pre_tk_init_def tcl_api_defs Let_def split: if_splits option.splits)

lemma res_keep_setup_zvfs:
  "setup_zvfs nd h s = Inr (m, s') \<Longrightarrow> res_keep cfg s s'"
  by (auto simp: setup_zvfs_Inr zvfs_found_state_def res_keep_def res_inv_def split: if_splits)

lemma res_keep_order: "reflp (res_keep cfg)" "transp (res_keep cfg)"
  by (auto simp: reflp_def transp_def intro: res_keep_trans)

lemma res_keep_tk_stage:
  "tk_stage cfg h m s = (rc, s') \<Longrightarrow> res_keep cfg s s'"
  by (erule tk_stage_rel [OF _ res_keep_order]) simp_all

lemma res_keep_Tcl_AppInit:
  "Tcl_AppInit cfg h s0 = Inr (rc, s') \<Longrightarrow> res_keep cfg s0 s'"
  by (erule Tcl_AppInit_rel [OF _ res_keep_order])
     (auto intro: res_keep_setup_zvfs res_keep_aqua_pre_tk_init res_keep_tk_stage)

lemma res_inv_fresh: "res_inv cfg (fresh_proc env)"
  by (simp add: res_inv_def fresh_proc_def)

lemma appinit_reach_res_inv:
  assumes "appinit_reach cfg p"
  shows "res_inv cfg p"
  using assms
proof (induction rule: appinit_reach.induct)
  case (start env)
  show ?case by (rule res_inv_fresh)
next
  case (step p h i rc s')
  then show ?case
    using res_keep_Tcl_AppInit [of cfg h "\<lparr>pr = p, ip = i\<rparr>" rc s'] by (simp add: res_keep_def)
qed

lemma tk_stage_ok:
  assumes "\<not> (TKINTER_PROTECT_LOADTK cfg \<and> tk_load_blocked s)"
    and "fst (tk_init h (ip (set_tk_library m s))) \<noteq> TCL_ERROR"
  shows "fst (tk_stage cfg h m s) = TCL_OK"
proof (cases "tk_skip_requested s")
  case True
  then show ?thesis by (simp add: tk_stage_skip)
next
  case False
  obtain c i' where "tk_init h (ip (set_tk_library m s)) = (c, i')" by fastforce
  with assms(2) show ?thesis by (simp add: tk_stage_run [OF False assms(1)])
qed

text \<open>C24 (invariant). In every process state reachable by creating interpreters one
  after the other, no \<open>FILE\<close> stream of the archive probe is left open and nothing is
  mounted anywhere but \<open>/zvfs\<close>.\<close>

theorem reachable_no_leaked_resources:
  assumes "appinit_reach cfg p"
  shows "open_files p = 0 \<and> (\<forall>mnt. zvfs_mounts p mnt \<noteq> None \<longrightarrow> mnt = ZVFS_MOUNT)"
  using appinit_reach_res_inv [OF assms] by (simp add: res_inv_def)

text \<open>C25 (invariant). In every reachable process state, Tcl's static-package list
  holds no package twice, and only packages the build configures with
  \<open>WITH_TIX\<close>, \<open>WITH_BLT\<close> or \<open>WITH_TOGL\<close>.\<close>

theorem reachable_static_pkgs_configured:
  assumes "appinit_reach cfg p"
  shows "distinct (static_pkgs p) \<and> set (static_pkgs p) \<subseteq> set (configured_pkgs cfg)"
  using appinit_reach_res_inv [OF assms] by (simp add: res_inv_def)

lemma tk_flags_stages:
  "tk_flags (snd (aqua_pre_tcl_init h s)) = tk_flags s"
  "setup_zvfs nd h s = Inr (m, s') \<Longrightarrow> tk_flags s' = tk_flags s"
  "aqua_pre_tk_init h lp s = Inr s' \<Longrightarrow> tk_flags s' = tk_flags s"
  "tcl_init h (ip s) = (c, ip s) \<Longrightarrow> tk_flags (snd (Tcl_Init h s)) = tk_flags s"
  by (auto simp: tk_flags_def aqua_pre_tcl_init_def set_tcl_bundle_vars_def setup_zvfs_Inr
      zvfs_found_state_def aqua_pre_tk_init_def Tcl_Init_eq tcl_api_defs Let_def
      split: prod.splits if_splits option.splits)

lemma tk_load_blocked_flags: "tk_load_blocked s \<longleftrightarrow> fst (tk_flags s) \<or> snd (tk_flags s) = Some ''1''"
  by (simp add: tk_load_blocked_def tk_flags_def Tcl_GetVar_def)

text \<open>C26 (liveness). The process never gets stuck while its latch is clear: from every
  reachable state with the latch clear, a host whose executable is known, on which
  \<open>Tcl_Init\<close> and \<open>Tk_Init\<close> succeed and, on macOS builds, the Tcl bundle is found,
  makes the next interpreter (not flagged as failed) return \<open>TCL_OK\<close>, and the
  process reaches another reachable state.\<close>

theorem working_host_initialises:
  assumes "appinit_reach cfg p" and "\<not> TK_AQUA cfg \<or> bundle_path h ''com.tcltk.tcllibrary'' \<noteq> []"
    and "exe_name h = Some n"
    and "\<forall>i. tcl_init h i = (TCL_OK, i)" and "\<forall>i. fst (tk_init h i) = TCL_OK"
    and "\<not> tk_load_failed p" and "globals i ''_tkinter_tk_failed'' = None"
  shows "\<exists>s'. Tcl_AppInit cfg h \<lparr>pr = p, ip = i\<rparr> = Inr (TCL_OK, s') \<and> appinit_reach cfg (pr s')"
proof -
  let ?s0 = "\<lparr>pr = p, ip = i\<rparr>"
  let ?lp = "if TK_AQUA cfg then bundle_path h ''com.tcltk.tcllibrary'' else []"
  obtain s1 where pre: "(if TK_AQUA cfg then aqua_pre_tcl_init h ?s0 else ([], ?s0)) = (?lp, s1)"
    by (cases "TK_AQUA cfg") (simp_all add: aqua_pre_tcl_init_state)
  have "s1 = snd (if TK_AQUA cfg then aqua_pre_tcl_init h ?s0 else ([], ?s0))"
    using pre by simp
  then have f1: "tk_flags s1 = tk_flags ?s0"
    by (cases "TK_AQUA cfg") (simp_all add: tk_flags_stages(1))
  obtain m s2 where z: "setup_zvfs (NDEBUG cfg) h s1 = Inr (m, s2)"
    using assms(3) by (cases "image_has_sig (files h) n") (auto simp: setup_zvfs_Some)
  obtain s3 where t: "Tcl_Init h s2 = (TCL_OK, s3)"
    using assms(4) by (simp add: Tcl_Init_eq)
  have f3: "tk_flags s3 = tk_flags ?s0"
    using f1 tk_flags_stages(2) [OF z] tk_flags_stages(4) [of h s2 TCL_OK] assms(4) t by simp
  obtain s4 where a: "(if TK_AQUA cfg then aqua_pre_tk_init h ?lp s3 else Inr s3) = Inr s4"
    using assms(2) aqua_pre_tk_init_Inr_iff [of h ?lp s3] by (cases "TK_AQUA cfg") auto
  have "tk_flags s4 = tk_flags ?s0"
    using a f3 tk_flags_stages(3) by (cases "TK_AQUA cfg") auto
  then have nb: "\<not> tk_load_blocked s4"
    using assms(6,7) by (simp add: tk_load_blocked_flags tk_flags_def)
  have ok: "fst (tk_stage cfg h m s4) = TCL_OK"
    using nb assms(5) by (simp add: tk_stage_ok)
  have "Tcl_AppInit cfg h ?s0 = Inr (tk_stage cfg h m s4)"
    using pre z t a by (simp add: Tcl_AppInit_def)
  then have "Tcl_AppInit cfg h ?s0 = Inr (TCL_OK, snd (tk_stage cfg h m s4))"
    using ok by (metis prod.collapse)
  then show ?thesis using assms(1) by (blast intro: appinit_reach.step)
qed

end
