(* ===== verification/Scenarios.thy ===== *)
theory Scenarios
  imports Lifetime Aqua
begin

text \<open>
  Concrete instances for the witnesses and for the end-to-end scenarios of the
  specification (section 8): an executable name, an image with an appended
  end-of-central-directory record and one without, a host built from an image, whether
  the Zvfs driver can mount it and whether \<open>Tk_Init\<close> succeeds (\<open>Tcl_Init\<close> always
  succeeds, the bundle lookup finds nothing), a configuration of the common Linux and
  Windows build with or without \<open>TKINTER_PROTECT_LOADTK\<close>, an empty interpreter and a
  fresh process. Every definition here is executable, so that the runs evaluate by
  \<open>simp\<close>.
\<close>

definition ex_exe :: string where
  "ex_exe = ''/usr/bin/python3''"

definition ex_zip_image :: "byte list" where
  "ex_zip_image = replicate 10 0 @ STRING_END_ARCHIVE @ replicate 18 0"

definition ex_plain_image :: "byte list" where
  "ex_plain_image = replicate 40 7"

definition ex_tk_error :: string where
  "ex_tk_error = ''no display name and no $DISPLAY environment variable''"

definition ex_host :: "byte list \<Rightarrow> bool \<Rightarrow> bool \<Rightarrow> host" where
  "ex_host img mnt tk_ok =
     \<lparr>exe_name = Some ex_exe, files = [ex_exe \<mapsto> img], mount_ok = (\<lambda>_ _. mnt),
      tcl_init = (\<lambda>i. (TCL_OK, i)),
      tk_init = (\<lambda>i. if tk_ok then (TCL_OK, i) else (TCL_ERROR, i\<lparr>result := ex_tk_error\<rparr>)),
      bundle_path = (\<lambda>_. [])\<rparr>"

definition ex_cfg :: "bool \<Rightarrow> config" where
  "ex_cfg prot =
     \<lparr>NDEBUG = False, TKINTER_PROTECT_LOADTK = prot, TK_AQUA = False, WITH_PIL = False,
      WITH_TIX = False, WITH_BLT = False, WITH_TOGL = False\<rparr>"

definition ex_interp :: interp where
  "ex_interp = \<lparr>globals = Map.empty, env_arr = Map.empty, result = []\<rparr>"

definition ex_st0 :: st where
  "ex_st0 = \<lparr>pr = fresh_proc Map.empty, ip = ex_interp\<rparr>"

definition ex_tix_cfg :: config where
  "ex_tix_cfg = (ex_cfg True)\<lparr>WITH_TIX := True\<rparr>"

definition ex_aqua_cfg :: config where
  "ex_aqua_cfg = (ex_cfg True)\<lparr>TK_AQUA := True\<rparr>"

definition ex_aqua_host :: "string \<Rightarrow> string \<Rightarrow> host" where
  "ex_aqua_host tcl tk =
     (ex_host ex_plain_image True True)\<lparr>bundle_path := (\<lambda>b.
        if b = ''com.tcltk.tcllibrary'' then tcl else if b = ''com.tcltk.tklibrary'' then tk else [])\<rparr>"

lemmas scenario_defs =
  ex_exe_def ex_zip_image_def ex_plain_image_def ex_host_def ex_cfg_def ex_interp_def ex_st0_def
  fresh_proc_def STRING_END_ARCHIVE_def

lemmas run_defs =
  Tcl_AppInit_def setup_zvfs_def probe_zip_sig_correct Zvfs_Mount_eq Tcl_Init_eq Tk_Init_eq tk_stage_def tk_skip_requested_def
  tk_load_blocked_def set_tk_library_def record_tk_failure_def post_tk_init_def tcl_api_defs
  ZVFS_TCL_DIR_def ZVFS_TK_DIR_def ZVFS_MOUNT_def

lemma ex_zip_image_sig: "image_has_sig [ex_exe \<mapsto> ex_zip_image] ex_exe"
  by (simp add: scenario_defs image_has_sig_def has_end_archive_sig_def tail_window_def)

lemma ex_plain_image_no_sig: "\<not> image_has_sig [ex_exe \<mapsto> ex_plain_image] ex_exe"
  by (simp add: scenario_defs image_has_sig_def has_end_archive_sig_def tail_window_def numeral_eq_Suc)

lemma ex_interp_fields: "globals ex_interp = Map.empty" "env_arr ex_interp = Map.empty"
  "result ex_interp = []"
  by (simp_all add: ex_interp_def)

lemmas ex_run_defs = run_defs ex_host_def ex_cfg_def ex_st0_def fresh_proc_def ex_interp_fields

text \<open>Two interpreters in one process whose display is missing (\<open>Tk_Init\<close> fails), no
  archive: with the protection, the second run is refused without a call of
  \<open>Tk_Init\<close>; without it, \<open>Tk_Init\<close> is called and fails again.\<close>

lemma ex_protected_runs:
  "\<exists>s1 s2. Tcl_AppInit (ex_cfg True) (ex_host ex_plain_image True False) ex_st0 = Inr (TCL_ERROR, s1) \<and>
     Tcl_AppInit (ex_cfg True) (ex_host ex_plain_image True False) \<lparr>pr = pr s1, ip = ex_interp\<rparr> =
       Inr (TCL_ERROR, s2) \<and>
     tk_load_failed (pr s1) \<and> tk_load_failed (pr s2) \<and> result (ip s1) = ex_tk_error \<and>
     result (ip s2) = TKINTER_LOADTK_ERRMSG \<and>
     calls (pr s1) = [Tcl_Init_call ex_interp TCL_OK, Tk_Init_call ex_interp TCL_ERROR] \<and>
     calls (pr s2) = [Tcl_Init_call ex_interp TCL_OK, Tk_Init_call ex_interp TCL_ERROR,
                      Tcl_Init_call ex_interp TCL_OK]"
  by (simp add: ex_run_defs ex_plain_image_no_sig)

lemma ex_unprotected_runs:
  "\<exists>s1 s2. Tcl_AppInit (ex_cfg False) (ex_host ex_plain_image True False) ex_st0 = Inr (TCL_ERROR, s1) \<and>
     Tcl_AppInit (ex_cfg False) (ex_host ex_plain_image True False) \<lparr>pr = pr s1, ip = ex_interp\<rparr> =
       Inr (TCL_ERROR, s2) \<and>
     calls (pr s2) = [Tcl_Init_call ex_interp TCL_OK, Tk_Init_call ex_interp TCL_ERROR,
                      Tcl_Init_call ex_interp TCL_OK, Tk_Init_call ex_interp TCL_ERROR]"
  by (simp add: ex_run_defs ex_plain_image_no_sig)

lemma scenario_run_zip:
  "\<exists>s'. Tcl_AppInit (ex_cfg True) (ex_host ex_zip_image True True) ex_st0 = Inr (TCL_OK, s')"
  by (simp add: ex_run_defs ex_zip_image_sig)

text \<open>A build with \<open>WITH_TIX\<close> and an archive appended: the run mounts \<open>/zvfs\<close> and
  registers Tix.\<close>

lemma ex_tix_run:
  "\<exists>s'. Tcl_AppInit ex_tix_cfg (ex_host ex_zip_image True True) ex_st0 = Inr (TCL_OK, s') \<and>
     static_pkgs (pr s') = [''Tix''] \<and> zvfs_mounts (pr s') ZVFS_MOUNT = Some ex_exe"
  by (simp add: ex_run_defs ex_tix_cfg_def ex_zip_image_sig)

lemma ex_tix_reach:
  "\<exists>p. appinit_reach ex_tix_cfg p \<and> static_pkgs p = [''Tix''] \<and> zvfs_mounts p ZVFS_MOUNT = Some ex_exe"
proof -
  obtain s' :: st where r: "Tcl_AppInit ex_tix_cfg (ex_host ex_zip_image True True) ex_st0 = Inr (TCL_OK, s')"
      and f: "static_pkgs (pr s') = [''Tix'']" "zvfs_mounts (pr s') ZVFS_MOUNT = Some ex_exe"
    using ex_tix_run by blast
  have "appinit_reach ex_tix_cfg (pr s')"
    using appinit_reach.start r unfolding ex_st0_def by (rule appinit_reach.step)
  with f show ?thesis by blast
qed

text \<open>Two interpreters in a process whose executable carries an archive: the second run
  finds the driver registered by the first.\<close>

lemma ex_zip_two_runs:
  "\<exists>s1 s2. Tcl_AppInit (ex_cfg True) (ex_host ex_zip_image True True) ex_st0 = Inr (TCL_OK, s1) \<and>
     Tcl_AppInit (ex_cfg True) (ex_host ex_zip_image True True) \<lparr>pr = pr s1, ip = ex_interp\<rparr> =
       Inr (TCL_OK, s2) \<and> zvfs_inited (pr s1)"
  by (simp add: ex_run_defs ex_zip_image_sig)

lemma ex_zip_run_env:
  "\<exists>s'. Tcl_AppInit (ex_cfg True) (ex_host ex_zip_image True True) ex_st0 = Inr (TCL_OK, s') \<and>
     environ (pr s') ''TK_LIBRARY'' = Some ''/zvfs/tk8.6''"
  by (simp add: ex_run_defs ex_zip_image_sig)

end
