(* ===== verification/Runs.thy ===== *)
theory Runs
  imports AppInit
begin

text \<open>
  Properties of one run of \<open>Tcl_AppInit\<close> (\<open>src/Modules/tkappinit.c\<close>, lines
  72--220), each a few steps over the call-log library of \<open>AppInit\<close>: the latch
  refusing \<open>Tk_Init\<close>, the ordering of the path redirection before \<open>Tcl_Init\<close> and
  \<open>Tk_Init\<close>, the skip flag, the outcome on each error path, the return code, and
  the side effects that survive a failed run.
\<close>

definition env_writes :: "bool \<Rightarrow> st \<Rightarrow> st \<Rightarrow> bool" where
  "env_writes zv s s' \<longleftrightarrow>
     (\<forall>x. environ (pr s') x = environ (pr s) x \<or>
          zv \<and> (x = ''TCL_LIBRARY'' \<and> environ (pr s') x = Some ZVFS_TCL_DIR \<or>
                x = ''TK_LIBRARY'' \<and> environ (pr s') x = Some ZVFS_TK_DIR))"

definition no_gui_effects :: "st \<Rightarrow> st \<Rightarrow> bool" where
  "no_gui_effects s s' \<longleftrightarrow>
     static_pkgs (pr s') = static_pkgs (pr s) \<and> appends_without (\<lambda>c. c = Tk_MainWindow_call) s s'"

text \<open>C2 (safety). With \<open>TKINTER_PROTECT_LOADTK\<close> compiled in, once the process-wide
  latch \<open>tk_load_failed\<close> is set, a run of \<open>Tcl_AppInit\<close> for a new interpreter
  never calls \<open>Tk_Init\<close> (no call of it is appended to the log) and leaves the latch
  set.\<close>

theorem latched_run_never_calls_tk_init:
  assumes "TKINTER_PROTECT_LOADTK cfg" and "tk_load_failed (pr s0)"
    and "Tcl_AppInit cfg h s0 = Inr (rc, s')"
  shows "appends_without is_tk_init s0 s' \<and> tk_load_failed (pr s')"
proof -
  have "tk_log_step cfg s0 s'" using assms(3) by (rule Tcl_AppInit_log)
  then have "tk_quiet s0 s'" using assms(1,2) by (simp add: tk_log_step_def)
  then show ?thesis using assms(2) by (simp add: tk_quiet_def)
qed

text \<open>C3 (error). With the protection compiled in and the latch set, a run ends in one
  of three ways only: success because the interpreter asked to skip Tk; failure with
  the fixed message \<open>TKINTER_LOADTK_ERRMSG\<close> as the interpreter's result; or failure
  of \<open>Tcl_Init\<close> itself, which is then the last call made.\<close>

theorem latched_run_outcome:
  assumes "TKINTER_PROTECT_LOADTK cfg" and "tk_load_failed (pr s0)"
    and "Tcl_AppInit cfg h s0 = Inr (rc, s')"
  shows "(rc = TCL_OK \<and> tk_skip_requested s') \<or>
         (rc = TCL_ERROR \<and> result (ip s') = TKINTER_LOADTK_ERRMSG) \<or>
         (rc = TCL_ERROR \<and> (\<exists>i. last (calls (pr s')) = Tcl_Init_call i TCL_ERROR \<and> fst (tcl_init h i) = TCL_ERROR))"
  using Tcl_AppInit_stage [OF assms(3)]
proof
  assume "\<exists>s2. tk_quiet s0 s2 \<and> rc = TCL_ERROR \<and> fst (tcl_init h (ip s2)) = TCL_ERROR \<and>
              s' = snd (Tcl_Init h s2)"
  then show ?thesis by (auto simp: Tcl_Init_eq)
next
  assume "\<exists>m s4. tk_quiet s0 s4 \<and> tk_stage cfg h m s4 = (rc, s')"
  then obtain m s4 where q: "tk_quiet s0 s4" and st: "tk_stage cfg h m s4 = (rc, s')" by blast
  have "tk_load_blocked s4"
    using q assms(2) by (simp add: tk_quiet_def tk_load_blocked_def)
  then show ?thesis
    using st assms(1) by (auto simp: tk_stage_def tcl_api_defs split: if_splits)
qed

text \<open>C9 (safety). Ordering of the path redirection before the Tcl bootstrap: when the
  executable carries the archive signature, the run calls \<open>Tcl_Init\<close> exactly once,
  and at that call the interpreter's \<open>tcl_library\<close> and \<open>env(TCL_LIBRARY)\<close> already
  name \<open>/zvfs/tcl8.6\<close> (on macOS builds too: the Zvfs write comes after the bundle
  lookup).\<close>

theorem tcl_init_sees_zvfs_paths:
  assumes run: "Tcl_AppInit cfg h s0 = Inr (rc, s')"
    and exe: "exe_name h = Some n" and sig: "image_has_sig (files h) n"
  shows "\<exists>xs i c ys. calls (pr s') = calls (pr s0) @ xs @ [Tcl_Init_call i c] @ ys \<and>
           \<not> list_ex is_tcl_init xs \<and> \<not> list_ex is_tcl_init ys \<and>
           globals i ''tcl_library'' = Some ZVFS_TCL_DIR \<and> env_arr i ''TCL_LIBRARY'' = Some ZVFS_TCL_DIR"
proof -
  from run obtain lp s1 m s2 rc3 s3 where
      pre: "(if TK_AQUA cfg then aqua_pre_tcl_init h s0 else ([], s0)) = (lp, s1)" and
      z: "setup_zvfs (NDEBUG cfg) h s1 = Inr (m, s2)" and t: "Tcl_Init h s2 = (rc3, s3)" and
      rest: "if rc3 = TCL_ERROR then rc = TCL_ERROR \<and> s' = s3
             else \<exists>s4. (if TK_AQUA cfg then aqua_pre_tk_init h lp s3 else Inr s3) = Inr s4 \<and>
                       tk_stage cfg h m s4 = (rc, s')"
    unfolding Tcl_AppInit_Inr by blast
  have s2: "s2 = zvfs_found_state h n s1"
    using z exe sig by (simp add: setup_zvfs_Some)
  have a1: "appends_without is_tcl_init s0 s1"
    using pre tcl_free_aqua_pre_tcl_init [of s0 h] by (cases "TK_AQUA cfg") simp_all
  then obtain xs where xs: "calls (pr s1) = calls (pr s0) @ xs" "\<not> list_ex is_tcl_init xs"
    by (auto simp: appends_without_def)
  have c3: "calls (pr s3) = calls (pr s1) @ [Zvfs_Init_call, Zvfs_Mount_call n ZVFS_MOUNT, Tcl_Init_call (ip s2) rc3]"
    using t s2 by (auto simp: Tcl_Init_eq zvfs_found_state_def)
  have a3: "appends_without is_tcl_init s3 s'"
  proof (cases "rc3 = TCL_ERROR")
    case True
    with rest show ?thesis by simp
  next
    case False
    with rest obtain s4 where a: "(if TK_AQUA cfg then aqua_pre_tk_init h lp s3 else Inr s3) = Inr s4"
        and st: "tk_stage cfg h m s4 = (rc, s')"
      by auto
    have "appends_without is_tcl_init s3 s4"
      using a tcl_free_aqua_pre_tk_init by (auto split: if_splits)
    then show ?thesis using tcl_free_tk_stage [OF st] by (rule appends_without_trans)
  qed
  then obtain ys where ys: "calls (pr s') = calls (pr s3) @ ys" "\<not> list_ex is_tcl_init ys"
    by (auto simp: appends_without_def)
  have vars: "globals (ip s2) ''tcl_library'' = Some ZVFS_TCL_DIR"
    "env_arr (ip s2) ''TCL_LIBRARY'' = Some ZVFS_TCL_DIR"
    using s2 by (simp_all add: zvfs_found_state_def)
  show ?thesis
    using xs c3 ys vars
    by (intro exI [of _ "xs @ [Zvfs_Init_call, Zvfs_Mount_call n ZVFS_MOUNT]"] exI [of _ "ip s2"] exI [of _ rc3] exI [of _ ys])
       auto
qed

text \<open>C10 (safety). Ordering of the Tk path redirection: when the archive was mounted,
  the interpreter handed to the \<open>Tk_Init\<close> call of the Tk stage already has
  \<open>env(TK_LIBRARY)\<close> and \<open>tk_library\<close> set to \<open>/zvfs/tk8.6\<close>.\<close>

theorem tk_init_sees_zvfs_paths:
  assumes st: "tk_stage cfg h True s = (rc, s')"
    and log: "calls (pr s') = calls (pr s) @ xs @ [Tk_Init_call i c] @ ys"
  shows "env_arr i ''TK_LIBRARY'' = Some ZVFS_TK_DIR \<and> globals i ''tk_library'' = Some ZVFS_TK_DIR"
proof (cases "tk_skip_requested s \<or> (TKINTER_PROTECT_LOADTK cfg \<and> tk_load_blocked s)")
  case True
  then have "calls (pr s') = calls (pr s)"
    using st by (auto simp: tk_stage_def tcl_api_defs split: if_splits)
  with log show ?thesis by simp
next
  case False
  with tk_stage_run_log [OF _ _ st] obtain c' zs where
      c: "calls (pr s') = calls (pr s) @ [Tk_Init_call (ip (set_tk_library True s)) c'] @ zs"
      and zs: "\<not> list_ex is_tk_init zs"
    by blast
  from log c have "xs @ [Tk_Init_call i c] @ ys = [Tk_Init_call (ip (set_tk_library True s)) c'] @ zs"
    by simp
  then have "i = ip (set_tk_library True s)"
    using single_marker_split [where P = is_tk_init] zs by fastforce
  then show ?thesis by (simp add: set_tk_library_def tcl_api_defs)
qed

text \<open>C11 (functional). When the embedding application has set the interpreter's
  \<open>_tkinter_skip_tk_init\<close> to the string \<open>"1"\<close>, the Tk stage returns \<open>TCL_OK\<close>
  at once and changes nothing: no Tk path, no latch, no call.\<close>

theorem skip_flag_skips_gui:
  assumes "Tcl_GetVar ''_tkinter_skip_tk_init'' s = Some ''1''"
  shows "tk_stage cfg h m s = (TCL_OK, s)"
  using assms by (simp add: tk_stage_def tk_skip_requested_def)

text \<open>C12 (functional). Any other value of \<open>_tkinter_skip_tk_init\<close>, or none, does not
  skip: unless the latch refuses, the Tk stage calls \<open>Tk_Init\<close>, first of all its
  calls, on the interpreter with the Tk paths resolved.\<close>

theorem other_skip_values_run_tk_init:
  assumes "Tcl_GetVar ''_tkinter_skip_tk_init'' s \<noteq> Some ''1''"
    and "\<not> (TKINTER_PROTECT_LOADTK cfg \<and> tk_load_blocked s)"
  shows "\<exists>c zs. calls (pr (snd (tk_stage cfg h m s))) =
                 calls (pr s) @ Tk_Init_call (ip (set_tk_library m s)) c # zs"
proof -
  have "\<not> tk_skip_requested s" using assms(1) by (simp add: tk_skip_requested_def)
  from tk_stage_run_log [OF this assms(2), of h m "fst (tk_stage cfg h m s)" "snd (tk_stage cfg h m s)"]
  show ?thesis by auto
qed

text \<open>C13 (error). The first failure of \<open>Tk_Init\<close> (protection compiled in, latch not
  yet set) sets the latch and the interpreter's \<open>_tkinter_tk_failed\<close> to \<open>"1"\<close>
  and returns \<open>TCL_ERROR\<close> with the result \<open>Tk_Init\<close> left, not with
  \<open>TKINTER_LOADTK_ERRMSG\<close>: the first failing interpreter and the later, latched ones
  report different messages.\<close>

theorem first_tk_failure_reports_tk_message:
  assumes "\<not> tk_skip_requested s" and "TKINTER_PROTECT_LOADTK cfg" and "\<not> tk_load_blocked s"
    and tk: "tk_init h (ip (set_tk_library m s)) = (TCL_ERROR, i')"
  shows "\<exists>s'. tk_stage cfg h m s = (TCL_ERROR, s') \<and> result (ip s') = result i' \<and>
           tk_load_failed (pr s') \<and> Tcl_GetVar ''_tkinter_tk_failed'' s' = Some ''1''"
proof -
  have nb: "\<not> (TKINTER_PROTECT_LOADTK cfg \<and> tk_load_blocked s)" using assms(3) by simp
  show ?thesis
    using tk assms(2)
    by (simp add: tk_stage_run [OF assms(1) nb tk] Tk_Init_eq record_tk_failure_def tcl_api_defs)
qed

text \<open>C14 (error). A failure of \<open>Tcl_Init\<close> ends the run at once with
  \<open>TCL_ERROR\<close>: nothing after the call of \<open>Tcl_Init\<close> is done (on builds without
  \<open>TK_AQUA\<close>, where nothing else precedes the Zvfs setup).\<close>

theorem tcl_init_failure_fails_fast:
  assumes "\<not> TK_AQUA cfg" and "setup_zvfs (NDEBUG cfg) h s0 = Inr (m, s2)"
    and "fst (tcl_init h (ip s2)) = TCL_ERROR"
  shows "Tcl_AppInit cfg h s0 = Inr (TCL_ERROR, snd (Tcl_Init h s2))"
  using assms by (simp add: Tcl_AppInit_def Tcl_Init_eq)

text \<open>C15 (type). Whatever \<open>Tcl_Init\<close> and \<open>Tk_Init\<close> return (including
  \<open>TCL_RETURN\<close>, \<open>TCL_BREAK\<close> and \<open>TCL_CONTINUE\<close>, which the code treats as
  success), a completed run of \<open>Tcl_AppInit\<close> returns \<open>TCL_OK\<close> or
  \<open>TCL_ERROR\<close>.\<close>

theorem Tcl_AppInit_result_code:
  assumes "Tcl_AppInit cfg h s0 = Inr (rc, s')"
  shows "rc = TCL_OK \<or> rc = TCL_ERROR"
  using Tcl_AppInit_stage [OF assms] tk_stage_code by (metis fst_conv)

text \<open>C16 (error). On macOS builds (\<open>TK_AQUA\<close>), when the bundle lookup finds no Tcl
  library, line 117 declares a new \<open>pathPtr\<close> that shadows the outer one, and the
  outer, uninitialised pointer is then passed on (line 125 or 128): once the
  executable's name is known and \<open>Tcl_Init\<close> succeeds, every run reaches undefined
  behaviour.\<close>

theorem aqua_missing_tcl_bundle_is_undefined:
  assumes "TK_AQUA cfg" and "bundle_path h ''com.tcltk.tcllibrary'' = []"
    and "exe_name h = Some n" and "\<forall>i. fst (tcl_init h i) \<noteq> TCL_ERROR"
  shows "\<exists>msg. Tcl_AppInit cfg h s0 = Inl (Undefined_behaviour msg)"
proof -
  obtain s1 where pre: "aqua_pre_tcl_init h s0 = ([], s1)"
    using aqua_pre_tcl_init_no_bundle [OF assms(2), of s0] by (metis prod.collapse)
  obtain m s2 where z: "setup_zvfs (NDEBUG cfg) h s1 = Inr (m, s2)"
    using assms(3) by (cases "image_has_sig (files h) n") (auto simp: setup_zvfs_Some)
  obtain msg where u: "aqua_pre_tk_init h [] (snd (Tcl_Init h s2)) = Inl (Undefined_behaviour msg)"
    using aqua_pre_tk_init_uninit by blast
  have ok: "fst (Tcl_Init h s2) \<noteq> TCL_ERROR"
    using assms(4) by (simp add: Tcl_Init_eq)
  show ?thesis
    using assms(1) pre z u ok by (simp add: Tcl_AppInit_def split_def)
qed

text \<open>C17 (error). When \<open>Tcl_GetNameOfExecutable()\<close> returns \<open>NULL\<close>, the run does not
  degrade to "no archive": the \<open>assert\<close> aborts the process, and in an \<open>NDEBUG\<close>
  build \<open>fopen\<close> is called with a null name.\<close>

theorem no_executable_name_aborts:
  assumes "exe_name h = None"
  shows "Tcl_AppInit cfg h s0 =
           Inl (if NDEBUG cfg then Undefined_behaviour ''fopen(NULL) after the elided assert''
                else Assertion_failed ''prog_name != NULL'')"
  using assms by (simp add: Tcl_AppInit_def setup_zvfs_def split_def)

subsection \<open>Side effects of a run\<close>

lemma env_writes_trans:
  assumes "env_writes zv s1 s2" and "env_writes zv s2 s3"
  shows "env_writes zv s1 s3"
  unfolding env_writes_def
proof
  fix x
  from assms show "environ (pr s3) x = environ (pr s1) x \<or>
      zv \<and> (x = ''TCL_LIBRARY'' \<and> environ (pr s3) x = Some ZVFS_TCL_DIR \<or>
            x = ''TK_LIBRARY'' \<and> environ (pr s3) x = Some ZVFS_TK_DIR)"
    unfolding env_writes_def by (metis (full_types))
qed

lemma env_writes_order: "reflp (env_writes zv)" "transp (env_writes zv)"
  by (simp add: reflp_def env_writes_def) (blast intro: transpI env_writes_trans)

lemma env_writes_frame: "environ (pr s') = environ (pr s) \<Longrightarrow> env_writes zv s s'"
  by (simp add: env_writes_def)

lemma env_writes_ops [intro, simp]:
  "env_writes zv s (Tcl_SetResult msg s)"
  "env_writes zv s (snd (Tcl_Init h s))"
  "env_writes zv s (snd (Tk_Init h s))"
  "env_writes zv s (record_tk_failure s)"
  "env_writes zv s (post_tk_init cfg s)"
  "env_writes zv s (snd (aqua_pre_tcl_init h s))"
  "env_writes zv s (set_tk_library zv s)"
  by (rule env_writes_frame; simp add: tcl_api_defs tcl_call_eqs record_tk_failure_def post_tk_init_def
      aqua_pre_tcl_init_def set_tcl_bundle_vars_def Let_def split: prod.split)+
     (auto simp: env_writes_def set_tk_library_def tcl_api_defs)

lemma env_writes_setup_zvfs:
  "setup_zvfs nd h s = Inr (m, s') \<Longrightarrow> env_writes (zvfs_found h) s s'"
  by (auto simp: setup_zvfs_Inr zvfs_found_def env_writes_def zvfs_found_state_def split: if_splits)

lemma env_writes_aqua_pre_tk_init:
  "aqua_pre_tk_init h lp s = Inr s' \<Longrightarrow> env_writes zv s s'"
  by (rule env_writes_frame)
     (auto simp: aqua_pre_tk_init_def tcl_api_defs Let_def split: if_splits option.splits)

lemma no_gui_effects_order: "reflp no_gui_effects" "transp no_gui_effects"
  by (auto simp: reflp_def transp_def no_gui_effects_def intro: appends_without_trans)

lemma no_gui_effects_stages:
  "no_gui_effects s (Tcl_SetResult msg s)"
  "no_gui_effects s (snd (Tcl_Init h s))"
  "no_gui_effects s (snd (Tk_Init h s))"
  "no_gui_effects s (record_tk_failure s)"
  "no_gui_effects s (set_tk_library m s)"
  "no_gui_effects s (snd (aqua_pre_tcl_init h s))"
  "setup_zvfs nd h s = Inr (m, s') \<Longrightarrow> no_gui_effects s s'"
  "aqua_pre_tk_init h lp s = Inr s' \<Longrightarrow> no_gui_effects s s'"
  by (auto simp: no_gui_effects_def appends_without_def tcl_api_defs tcl_call_eqs record_tk_failure_def
      set_tk_library_def aqua_pre_tcl_init_def set_tcl_bundle_vars_def setup_zvfs_Inr zvfs_found_state_def
      aqua_pre_tk_init_def Let_def split: prod.split if_splits option.splits)

lemma appends_only_quiet: "tk_quiet s s' \<Longrightarrow> appends_without (\<lambda>_. False) s s'"
  by (auto simp: tk_quiet_def intro: appends_without_mono)

lemma appends_only_stages:
  "appends_without (\<lambda>_. False) s (snd (Tcl_Init h s))"
  "appends_without (\<lambda>_. False) s (snd (Tk_Init h s))"
  by (simp_all add: appends_without_def Tcl_Init_eq Tk_Init_eq)

lemma appends_only_aqua:
  "appends_without (\<lambda>_. False) s (snd (aqua_pre_tcl_init h s))"
  "aqua_pre_tk_init h lp s = Inr s' \<Longrightarrow> appends_without (\<lambda>_. False) s s'"
  by (auto intro: appends_only_quiet tk_quiet_aqua_pre_tk_init)

lemma appends_only_order: "reflp (appends_without P)" "transp (appends_without P)"
  by (auto simp: reflp_def transp_def intro: appends_without_trans)

lemma appends_only_tk_stage:
  "tk_stage cfg h m s = (rc, s') \<Longrightarrow> appends_without (\<lambda>_. False) s s'"
  by (erule tk_stage_rel [OF _ appends_only_order])
     (auto intro: appends_only_quiet appends_only_stages(2))

lemma appends_without_drop:
  "appends_without P s s' \<Longrightarrow> \<not> list_ex P (drop (length (calls (pr s))) (calls (pr s')))"
  by (auto simp: appends_without_def)

text \<open>C28 (safety). The only writes a run makes to the process environment are
  \<open>TCL_LIBRARY\<close> and \<open>TK_LIBRARY\<close>, each set to its directory under \<open>/zvfs\<close>, and only
  when the executable carries the archive signature; every other variable, and all of
  them when there is no signature, are left as they were.\<close>

theorem run_environment_writes:
  assumes "Tcl_AppInit cfg h s = Inr (rc, s')"
  shows "environ (pr s') x = environ (pr s) x \<or>
         zvfs_found h \<and> (x = ''TCL_LIBRARY'' \<and> environ (pr s') x = Some ''/zvfs/tcl8.6'' \<or>
                          x = ''TK_LIBRARY'' \<and> environ (pr s') x = Some ''/zvfs/tk8.6'')"
proof -
  have "env_writes (zvfs_found h) s s'"
    using assms env_writes_order
    by (rule Tcl_AppInit_rel)
       (auto intro: env_writes_setup_zvfs env_writes_aqua_pre_tk_init
        tk_stage_rel [OF _ env_writes_order])
  then show ?thesis by (simp add: env_writes_def ZVFS_TCL_DIR_def ZVFS_TK_DIR_def ZVFS_MOUNT_def)
qed

text \<open>C29 (error). The redirection outlives a failed bootstrap: when the archive is
  found but \<open>Tcl_Init\<close> then fails, the run returns \<open>TCL_ERROR\<close> with the Zvfs driver
  registered and \<open>TCL_LIBRARY\<close> still pointing at \<open>/zvfs/tcl8.6\<close> in the process
  environment, where every later interpreter and child process sees it.\<close>

theorem failed_tcl_init_keeps_redirect:
  assumes "\<not> TK_AQUA cfg" and "exe_name h = Some n" and "image_has_sig (files h) n"
    and "fst (tcl_init h (ip (zvfs_found_state h n s))) = TCL_ERROR"
  shows "\<exists>s'. Tcl_AppInit cfg h s = Inr (TCL_ERROR, s') \<and>
           environ (pr s') ''TCL_LIBRARY'' = Some ''/zvfs/tcl8.6'' \<and> zvfs_inited (pr s')"
  using assms
  by (simp add: Tcl_AppInit_def setup_zvfs_Some Tcl_Init_eq zvfs_found_state_def
      ZVFS_TCL_DIR_def ZVFS_MOUNT_def)

text \<open>C30 (error). A run that fails creates no main window and registers no static
  package: the optional packages of lines 174--214 are reached only after a
  successful \<open>Tk_Init\<close>.\<close>

theorem failed_run_no_gui_effects:
  assumes "Tcl_AppInit cfg h s = Inr (TCL_ERROR, s')"
  shows "static_pkgs (pr s') = static_pkgs (pr s) \<and>
         Tk_MainWindow_call \<notin> set (drop (length (calls (pr s))) (calls (pr s')))"
proof -
  have "no_gui_effects s s'"
    using assms no_gui_effects_order
    by (rule Tcl_AppInit_rel)
       (auto intro: no_gui_effects_stages tk_stage_rel [OF _ no_gui_effects_order])
  then show ?thesis
    by (auto simp: no_gui_effects_def list_ex_iff dest: appends_without_drop)
qed

text \<open>C31 (error). \<open>Zvfs_Init\<close> is called for every interpreter whose executable
  carries the signature, also when the driver was registered by an earlier one; the
  specification (section 4.2) initialises it once.\<close>

theorem zvfs_init_every_interpreter:
  assumes "zvfs_inited (pr s)" and "zvfs_found h" and "Tcl_AppInit cfg h s = Inr (rc, s')"
  shows "Zvfs_Init_call \<in> set (drop (length (calls (pr s))) (calls (pr s')))"
proof -
  have "\<exists>s1 s2. appends_without (\<lambda>_. False) s s1 \<and>
          setup_zvfs (NDEBUG cfg) h s1 = Inr (zvfs_found h, s2) \<and> appends_without (\<lambda>_. False) s2 s'"
    using assms(3) appends_only_order
    by (rule Tcl_AppInit_split) (auto intro: appends_only_stages appends_only_aqua appends_only_tk_stage)
  then obtain s1 s2 xs ys where
      z: "setup_zvfs (NDEBUG cfg) h s1 = Inr (True, s2)" and
      c1: "calls (pr s1) = calls (pr s) @ xs" and c2: "calls (pr s') = calls (pr s2) @ ys"
    using assms(2) by (auto simp: appends_without_def)
  then obtain n where "s2 = zvfs_found_state h n s1"
    by (auto simp: setup_zvfs_Inr)
  then have "calls (pr s2) = calls (pr s1) @ [Zvfs_Init_call, Zvfs_Mount_call n ZVFS_MOUNT]"
    by (simp add: zvfs_found_state_def)
  with c1 c2 show ?thesis by simp
qed

end
