(* ===== verification/Refinement.thy ===== *)
theory Refinement
  imports Process
begin

text \<open>
  The specification's sequencer (section 4.4 of the specification) as an abstract
  state machine, and the refinement of it by the code. \<open>spec_step\<close> is one
  interpreter: from the latch and the environment's four decisions it gives the
  outcome and the new latch; \<open>spec_run\<close> is a process, the latch carried from one
  interpreter to the next. On the code side \<open>run_outcome\<close> reads the outcome of a run
  of \<open>Tcl_AppInit\<close> off its return code and the calls it logged, and
  \<open>appinit_trace\<close> is a sequence of runs labelled with those outcomes. One run refines
  one step (\<open>Tcl_AppInit_spec_step\<close>), a sequence of runs refines a run of the
  machine (\<open>appinit_trace_spec\<close>, by rule induction), and the specification's own
  lemma that the latch allows one GUI failure (\<open>spec_run_gui_failures\<close>) then holds
  of the code.
\<close>

datatype spec_outcome =
    Initialised
  | Gui_skipped
  | Script_engine_failed
  | Gui_init_failed
  | Gui_previously_failed

text \<open>The specification's sequencer for one interpreter (section 4.4), given the
  latch and the four decisions the environment makes: whether the scripting engine
  initialises, whether the skip flag is set, whether this interpreter is flagged as
  failed, and whether the GUI toolkit initialises. It returns the outcome and the new
  latch.\<close>

definition spec_step :: "bool \<Rightarrow> bool \<times> bool \<times> bool \<times> bool \<Rightarrow> spec_outcome \<times> bool" where
  "spec_step latched d =
     (case d of (tcl_ok, skip, flagged, tk_ok) \<Rightarrow>
        if \<not> tcl_ok then (Script_engine_failed, latched)
        else if skip then (Gui_skipped, latched)
        else if latched \<or> flagged then (Gui_previously_failed, latched)
        else if \<not> tk_ok then (Gui_init_failed, True)
        else (Initialised, latched))"

definition spec_code :: "spec_outcome \<Rightarrow> tcl_code" where
  "spec_code o' = (if o' = Initialised \<or> o' = Gui_skipped then TCL_OK else TCL_ERROR)"

text \<open>The outcome of a concrete run, read off its return code and the calls it
  appended to the log.\<close>

definition run_outcome :: "st \<Rightarrow> st \<Rightarrow> tcl_code \<Rightarrow> spec_outcome" where
  "run_outcome s0 s' rc =
     (let new = drop (length (calls (pr s0))) (calls (pr s'))
      in if list_ex is_failed_tcl_init new then Script_engine_failed
         else if rc = TCL_OK then (if list_ex is_tk_init new then Initialised else Gui_skipped)
         else if list_ex is_tk_init new then Gui_init_failed else Gui_previously_failed)"

text \<open>The decisions of the environment in a run, read off the run itself: whether the
  logged call of \<open>Tcl_Init\<close> succeeded; whether, in the interpreter \<open>Tcl_Init\<close> left
  behind (the host's answer on the logged interpreter), \<open>_tkinter_skip_tk_init\<close> and
  \<open>_tkinter_tk_failed\<close> are \<open>"1"\<close>; and whether no logged call of \<open>Tk_Init\<close>
  failed. \<open>new\<close> is the part of the log the run appended.\<close>

definition observed_decisions :: "host \<Rightarrow> call list \<Rightarrow> bool \<times> bool \<times> bool \<times> bool" where
  "observed_decisions h new =
     (case find is_tcl_init new of
        Some (Tcl_Init_call i c) \<Rightarrow>
          (let i' = snd (tcl_init h i)
           in (c \<noteq> TCL_ERROR, globals i' ''_tkinter_skip_tk_init'' = Some ''1'',
               globals i' ''_tkinter_tk_failed'' = Some ''1'', \<not> list_ex is_failed_tk_init new))
      | _ \<Rightarrow> (False, False, False, False))"

text \<open>The specification's sequencer over the lifetime of a process: interpreters
  created one after the other, each with its own decisions of the environment, the
  latch carried from one to the next. The outcomes are read off in creation order.\<close>

fun spec_run :: "bool \<Rightarrow> (bool \<times> bool \<times> bool \<times> bool) list \<Rightarrow> spec_outcome list \<times> bool" where
  "spec_run latched [] = ([], latched)"
| "spec_run latched (d # ds) =
     (let (o', latched') = spec_step latched d;
          (os, latched'') = spec_run latched' ds
      in (o' # os, latched''))"

text \<open>The concrete side: a sequence of completed runs of \<open>Tcl_AppInit\<close> from process
  state \<open>p\<close> to \<open>p'\<close>, each on an interpreter and host of the environment's choice,
  labelled with its return code and the outcome it shows.\<close>

inductive appinit_trace :: "config \<Rightarrow> proc \<Rightarrow> (tcl_code \<times> spec_outcome) list \<Rightarrow> proc \<Rightarrow> bool"
  for cfg :: config where
  nil: "appinit_trace cfg p [] p"
| step: "Tcl_AppInit cfg h \<lparr>pr = p, ip = i\<rparr> = Inr (rc, s') \<Longrightarrow> appinit_trace cfg (pr s') os p' \<Longrightarrow>
         appinit_trace cfg p ((rc, run_outcome \<lparr>pr = p, ip = i\<rparr> s' rc) # os) p'"

lemma run_outcome_new:
  "calls (pr s') = calls (pr s0) @ new \<Longrightarrow>
   run_outcome s0 s' rc =
     (if list_ex is_failed_tcl_init new then Script_engine_failed
      else if rc = TCL_OK then (if list_ex is_tk_init new then Initialised else Gui_skipped)
      else if list_ex is_tk_init new then Gui_init_failed else Gui_previously_failed)"
  by (simp add: run_outcome_def)

lemma find_tcl_init:
  "\<not> list_ex is_tcl_init ys \<Longrightarrow> find is_tcl_init (ys @ Tcl_Init_call i c # zs) = Some (Tcl_Init_call i c)"
  by (induction ys) auto

lemma aqua_pre_tk_init_globals:
  "aqua_pre_tk_init h lp s = Inr s' \<Longrightarrow> x \<noteq> ''tk_library'' \<Longrightarrow> globals (ip s') x = globals (ip s) x"
  by (auto simp: aqua_pre_tk_init_def tcl_api_defs Let_def split: if_splits option.splits)

lemma tk_stage_refines_spec:
  assumes prot: "TKINTER_PROTECT_LOADTK cfg" and q: "tk_quiet s0 s4"
    and f: "appends_without is_failed_tcl_init s0 s4" and st: "tk_stage cfg h m s4 = (rc, s')"
  shows "spec_step (tk_load_failed (pr s0))
           (True, tk_skip_requested s4, Tcl_GetVar ''_tkinter_tk_failed'' s4 = Some ''1'',
            \<not> list_ex is_failed_tk_init (drop (length (calls (pr s0))) (calls (pr s')))) =
           (run_outcome s0 s' rc, tk_load_failed (pr s')) \<and>
         rc = spec_code (run_outcome s0 s' rc)"
proof -
  from q f obtain xs where xs: "calls (pr s4) = calls (pr s0) @ xs" "\<not> list_ex is_tk_init xs"
      "\<not> list_ex is_failed_tcl_init xs" and l4: "tk_load_failed (pr s4) = tk_load_failed (pr s0)"
    by (auto simp: tk_quiet_def appends_without_def)
  have xf: "\<not> list_ex is_failed_tk_init xs" using xs(2) by (rule no_failed_if_no_tk)
  consider (skip) "tk_skip_requested s4" | (blocked) "\<not> tk_skip_requested s4" "tk_load_blocked s4"
    | (run) "\<not> tk_skip_requested s4" "\<not> tk_load_blocked s4"
    by blast
  then show ?thesis
  proof cases
    case skip
    then have "rc = TCL_OK" "s' = s4" using st by (simp_all add: tk_stage_def)
    with xs xf l4 skip show ?thesis
      by (simp add: spec_step_def spec_code_def run_outcome_new)
  next
    case blocked
    then have "rc = TCL_ERROR" "s' = Tcl_SetResult TKINTER_LOADTK_ERRMSG s4"
      using st prot by (simp_all add: tk_stage_def)
    with xs xf l4 blocked show ?thesis
      by (auto simp: spec_step_def spec_code_def run_outcome_new tcl_api_defs tk_load_blocked_def)
  next
    case run
    then have nb: "\<not> (TKINTER_PROTECT_LOADTK cfg \<and> tk_load_blocked s4)" by simp
    from tk_stage_run_log [OF run(1) nb st] obtain c zs where
        c: "calls (pr s') = calls (pr s4) @ [Tk_Init_call (ip (set_tk_library m s4)) c] @ zs" and
        zt: "\<not> list_ex is_tk_init zs" and
        lf: "tk_load_failed (pr s') = (tk_load_failed (pr s4) \<or> c = TCL_ERROR)" and
        rc: "rc = (if c = TCL_ERROR then TCL_ERROR else TCL_OK)"
      using prot by auto
    have "\<not> list_ex is_tcl_init zs"
      using tcl_free_tk_stage [OF st] c by (auto simp: appends_without_def)
    then have zs: "\<not> list_ex is_failed_tcl_init zs"
      by (auto simp: list_ex_iff dest: failed_tcl_init_is_tcl_init)
    have zf: "\<not> list_ex is_failed_tk_init zs" using zt by (rule no_failed_if_no_tk)
    have nl: "\<not> tk_load_failed (pr s0)" "Tcl_GetVar ''_tkinter_tk_failed'' s4 \<noteq> Some ''1''"
      using run l4 by (simp_all add: tk_load_blocked_def)
    show ?thesis
      using xs xf c zs zf lf rc nl l4 run(1)
      by (simp add: spec_step_def spec_code_def run_outcome_new)
  qed
qed

lemma Tcl_AppInit_spec_step:
  assumes prot: "TKINTER_PROTECT_LOADTK cfg" and run: "Tcl_AppInit cfg h s0 = Inr (rc, s')"
  shows "spec_step (tk_load_failed (pr s0))
           (observed_decisions h (drop (length (calls (pr s0))) (calls (pr s')))) =
           (run_outcome s0 s' rc, tk_load_failed (pr s')) \<and>
         rc = spec_code (run_outcome s0 s' rc)"
proof -
  from run obtain lp s1 m s2 rc3 s3 where
      pre: "(if TK_AQUA cfg then aqua_pre_tcl_init h s0 else ([], s0)) = (lp, s1)" and
      z: "setup_zvfs (NDEBUG cfg) h s1 = Inr (m, s2)" and t: "Tcl_Init h s2 = (rc3, s3)" and
      rest: "if rc3 = TCL_ERROR then rc = TCL_ERROR \<and> s' = s3
             else \<exists>s4. (if TK_AQUA cfg then aqua_pre_tk_init h lp s3 else Inr s3) = Inr s4 \<and>
                       tk_stage cfg h m s4 = (rc, s')"
    unfolding Tcl_AppInit_Inr by blast
  have q2: "tk_quiet s0 s2"
    using pre tk_quiet_aqua_pre_tcl_init [of s0 h] tk_quiet_setup_zvfs [OF z]
    by (cases "TK_AQUA cfg") (auto intro: tk_quiet_trans)
  have a2: "appends_without is_tcl_init s0 s2"
    using pre tcl_free_aqua_pre_tcl_init [of s0 h] tcl_free_setup_zvfs [OF z]
    by (cases "TK_AQUA cfg") (auto intro: appends_without_trans)
  from appends_without_disj [OF a2 conjunct1 [OF q2 [unfolded tk_quiet_def]]]
  obtain ys where ys: "calls (pr s2) = calls (pr s0) @ ys" "\<not> list_ex is_tcl_init ys"
      "\<not> list_ex is_tk_init ys"
    by (auto simp: appends_without_def list_ex_iff)
  have l2: "tk_load_failed (pr s2) = tk_load_failed (pr s0)" using q2 by (simp add: tk_quiet_def)
  have c3: "calls (pr s3) = calls (pr s2) @ [Tcl_Init_call (ip s2) rc3]"
    and i3: "ip s3 = snd (tcl_init h (ip s2))" and r3: "fst (tcl_init h (ip s2)) = rc3"
    and l3: "tk_load_failed (pr s3) = tk_load_failed (pr s2)"
    using t by (auto simp: Tcl_Init_eq)
  show ?thesis
  proof (cases "rc3 = TCL_ERROR")
    case True
    with rest have "rc = TCL_ERROR" "s' = s3" by auto
    with True ys c3 l2 l3 show ?thesis
      by (simp add: observed_decisions_def find_tcl_init spec_step_def spec_code_def run_outcome_new Let_def)
  next
    case False
    with rest obtain s4 where a: "(if TK_AQUA cfg then aqua_pre_tk_init h lp s3 else Inr s3) = Inr s4"
        and st: "tk_stage cfg h m s4 = (rc, s')"
      by auto
    have q4: "tk_quiet s0 s4"
      using q2 tk_quiet_ops(8) [of s2 h] t a tk_quiet_aqua_pre_tk_init
      by (auto split: if_splits intro: tk_quiet_trans)
    have a34: "appends_without is_tcl_init s3 s4"
      using a tcl_free_aqua_pre_tk_init by (auto split: if_splits)
    then obtain ws where ws: "calls (pr s4) = calls (pr s3) @ ws" "\<not> list_ex is_tcl_init ws"
      by (auto simp: appends_without_def)
    have f4: "appends_without is_failed_tcl_init s0 s4"
      using ys ws c3 False
      by (auto simp: appends_without_def list_ex_iff dest: failed_tcl_init_is_tcl_init)
    have "appends_without is_tcl_init s3 s'"
      using a34 tcl_free_tk_stage [OF st] by (rule appends_without_trans)
    then obtain zs where zs: "calls (pr s') = calls (pr s3) @ zs" "\<not> list_ex is_tcl_init zs"
      by (auto simp: appends_without_def)
    have g: "globals (ip s4) x = globals (snd (tcl_init h (ip s2))) x" if "x \<noteq> ''tk_library''" for x
      using a aqua_pre_tk_init_globals [of h lp s3 s4 x] that i3 by (auto split: if_splits)
    have "observed_decisions h (drop (length (calls (pr s0))) (calls (pr s'))) =
        (True, tk_skip_requested s4, Tcl_GetVar ''_tkinter_tk_failed'' s4 = Some ''1'',
         \<not> list_ex is_failed_tk_init (drop (length (calls (pr s0))) (calls (pr s'))))"
      using ys zs c3 False g [of "''_tkinter_skip_tk_init''"] g [of "''_tkinter_tk_failed''"]
      by (simp add: observed_decisions_def find_tcl_init tk_skip_requested_def Tcl_GetVar_def Let_def)
    with tk_stage_refines_spec [OF prot q4 f4 st] show ?thesis by simp
  qed
qed

lemma spec_step_latch_mono: "spec_step l d = (o', l') \<Longrightarrow> l \<Longrightarrow> l'"
  by (auto simp: spec_step_def split: prod.splits if_splits)

lemma spec_step_gui_failure:
  "spec_step l d = (Gui_init_failed, l') \<Longrightarrow> \<not> l \<and> l'"
  by (auto simp: spec_step_def split: prod.splits if_splits)

lemma spec_run_gui_failures:
  "spec_run l ds = (os, l') \<Longrightarrow> length (filter ((=) Gui_init_failed) os) \<le> (if l then 0 else 1)"
proof (induction ds arbitrary: l os l')
  case Nil
  then show ?case by simp
next
  case (Cons d ds)
  obtain o1 l1 where s1: "spec_step l d = (o1, l1)" by fastforce
  obtain os1 l2 where r1: "spec_run l1 ds = (os1, l2)" by fastforce
  from Cons.prems s1 r1 have os: "os = o1 # os1" by simp
  have ih: "length (filter ((=) Gui_init_failed) os1) \<le> (if l1 then 0 else 1)"
    using Cons.IH [OF r1] .
  show ?case
  proof (cases "o1 = Gui_init_failed")
    case True
    with s1 spec_step_gui_failure have "\<not> l" "l1" by blast+
    with ih os True show ?thesis by simp
  next
    case False
    have "l \<Longrightarrow> l1" using s1 by (rule spec_step_latch_mono)
    with ih os False show ?thesis by (cases l; cases l1) auto
  qed
qed

lemma appinit_trace_spec:
  assumes "TKINTER_PROTECT_LOADTK cfg" and "appinit_trace cfg p os p'"
  shows "\<exists>ds. spec_run (tk_load_failed p) ds = (map snd os, tk_load_failed p') \<and>
              map fst os = map (spec_code \<circ> snd) os"
  using assms(2)
proof (induction rule: appinit_trace.induct)
  case (nil p)
  show ?case by (intro exI [of _ "[]"]) simp
next
  case (step h p i rc s' os p')
  let ?d = "observed_decisions h (drop (length (calls p)) (calls (pr s')))"
  from Tcl_AppInit_spec_step [OF assms(1) step.hyps(1)] have
      d: "spec_step (tk_load_failed p) ?d =
            (run_outcome \<lparr>pr = p, ip = i\<rparr> s' rc, tk_load_failed (pr s'))"
      and rc: "rc = spec_code (run_outcome \<lparr>pr = p, ip = i\<rparr> s' rc)"
    by simp_all
  from step.IH obtain ds where ds: "spec_run (tk_load_failed (pr s')) ds = (map snd os, tk_load_failed p')"
      and c: "map fst os = map (spec_code \<circ> snd) os"
    by blast
  show ?case
    using d ds c rc by (intro exI [of _ "?d # ds"]) simp
qed

text \<open>C20 (refinement). With \<open>TKINTER_PROTECT_LOADTK\<close> compiled in, every completed run
  of \<open>Tcl_AppInit\<close> is the step of the specification's sequencer taken on the decisions
  the environment made in that run (\<open>observed_decisions\<close>: the result of \<open>Tcl_Init\<close>,
  the two interpreter flags it left, the result of \<open>Tk_Init\<close>): the specification
  yields the outcome the run shows in its log and return code and the latch the run
  leaves behind, and the return code is the one the specification assigns.\<close>

theorem Tcl_AppInit_refines_spec:
  assumes "TKINTER_PROTECT_LOADTK cfg" and "Tcl_AppInit cfg h s0 = Inr (rc, s')"
  shows "spec_step (tk_load_failed (pr s0))
           (observed_decisions h (drop (length (calls (pr s0))) (calls (pr s')))) =
           (run_outcome s0 s' rc, tk_load_failed (pr s')) \<and>
         rc = spec_code (run_outcome s0 s' rc)"
  using assms by (rule Tcl_AppInit_spec_step)

text \<open>C27 (safety). With the protection compiled in, at most one interpreter of a
  process ends with a failed initialisation of the GUI toolkit (its \<open>Tk_Init\<close> called
  and failed), and none once the latch is set.\<close>

theorem at_most_one_gui_failure:
  assumes "TKINTER_PROTECT_LOADTK cfg" and "appinit_trace cfg p os p'"
  shows "length (filter (\<lambda>r. snd r = Gui_init_failed) os) \<le> (if tk_load_failed p then 0 else 1)"
proof -
  obtain ds where "spec_run (tk_load_failed p) ds = (map snd os, tk_load_failed p')"
    using appinit_trace_spec [OF assms] by blast
  from spec_run_gui_failures [OF this]
  show ?thesis by (simp add: filter_map comp_def eq_commute [of Gui_init_failed])
qed

end
