(* ===== verification/Spec2Isabelle.thy ===== *)
theory Spec2Isabelle
  imports Scenarios Runs Refinement
begin

text \<open>
  \<^bold>\<open>A verification development of the self-archive bootstrap of tkinter.\<close>

  The program is one C file, \<open>src/Modules/tkappinit.c\<close>: \<open>Tcl_AppInit\<close>, which
  \<open>_tkinter\<close> runs for every Tcl interpreter it creates, and its helper
  \<open>setup_zvfs\<close>. \<open>setup_zvfs\<close> looks for a zip end-of-central-directory signature
  22 bytes before the end of the running executable (the archive detector), mounts the
  executable as a Zvfs file system at \<open>/zvfs\<close> (the mounter) and points Tcl's library
  variables into it (the resolver); \<open>Tcl_AppInit\<close> then runs \<open>Tcl_Init\<close>, the
  optional skip of Tk, the process-wide latch against a second \<open>Tk_Init\<close> after a
  failed one (under \<open>TKINTER_PROTECT_LOADTK\<close>), the Tk library paths, \<open>Tk_Init\<close>
  and the optional packages, with macOS variants under \<open>TK_AQUA\<close> (the sequencer).

  \<^bold>\<open>Theories.\<close>
  \<^item> \<open>Prelude\<close>: bytes (\<open>8 word\<close>), the file system, the \<open>error\<close> type (failed
    \<open>assert\<close>, undefined behaviour), the theorem collections and list facts shared
    by the components.
  \<^item> \<open>LibC\<close>: \<open>fopen\<close>, \<open>fseek(SEEK_END)\<close>, \<open>fread\<close>, \<open>fclose\<close>, \<open>memcmp\<close> over a
    state that counts open streams (\<open>cstate\<close>).
  \<^item> \<open>Tcl_Api\<close>: the collaborators, at the interface of the specification's section 6:
    the interpreter (\<open>interp\<close>: globals, \<open>env\<close> array, result), the process
    (\<open>proc\<close>: the \<open>static int tk_load_failed\<close> of line 24, environment, Zvfs mounts,
    Tcl's library path and static packages, and a log of every external call in
    order, with the interpreter passed to \<open>Tcl_Init\<close> and \<open>Tk_Init\<close> and what they
    returned), and the \<open>host\<close>: executable name, files, and the behaviour of the
    Zvfs driver, \<open>Tcl_Init\<close>, \<open>Tk_Init\<close> and the bundle lookup, over which every
    theorem is universally quantified.
  \<^item> \<open>Archive\<close>: \<open>probe_zip_sig\<close> (lines 38--60) and the specification's sniff
    \<open>has_end_archive_sig\<close>; the detector refines the sniff and leaks no stream.
  \<^item> \<open>Zvfs\<close>: \<open>setup_zvfs\<close> (lines 32--70) and \<open>set_tk_library\<close> (lines 155--158).
  \<^item> \<open>AppInit\<close>: \<open>config\<close> (the preprocessor switches), one definition per block of
    \<open>Tcl_AppInit\<close> (\<open>aqua_pre_tcl_init\<close>, \<open>aqua_pre_tk_init\<close>, \<open>tk_stage\<close>,
    \<open>post_tk_init\<close>, \<open>record_tk_failure\<close>, \<open>tk_skip_requested\<close>,
    \<open>tk_load_blocked\<close>) and \<open>Tcl_AppInit\<close> itself (lines 72--220); a library on the
    call log (\<open>appends_without\<close>, \<open>tk_quiet\<close>, \<open>tk_log_step\<close>), and
    \<open>tk_stage_rel\<close>, \<open>Tcl_AppInit_rel\<close>: a reflexive, transitive relation kept by
    every stage holds across a run.
  \<^item> \<open>Runs\<close>: the properties of one run built on that library: the latch, the
    ordering of the path redirection, the skip flag, each error path, the return
    code, the process environment a run writes (\<open>env_writes\<close>), and the effects
    that a failed run leaves or does not leave (\<open>no_gui_effects\<close>).
  \<^item> \<open>Aqua\<close>: the macOS blocks: the pre-\<open>Tcl_Init\<close> block in closed form (its
    duplicated lines 92--102 set each variable once); the library path Tcl gets from the two bundle
    paths, through the list conversion \<open>tcl_split\<close> of \<open>Tcl_Api\<close>; and the exact
    condition under which \<open>Tcl_AppInit\<close> returns at all.
  \<^item> \<open>Process\<close>: interpreters created one after the other as the inductive
    \<open>appinit_reach\<close>; the latch invariant by rule induction.
  \<^item> \<open>Lifetime\<close>: the resource invariant of a process (\<open>res_inv\<close>: no open stream,
    mounts only at \<open>/zvfs\<close>, static packages distinct and configured by
    \<open>configured_pkgs\<close>), kept by every stage (\<open>res_keep\<close>), progress of a
    process whose latch is clear.
  \<^item> \<open>Refinement\<close>: the specification's sequencer as an abstract machine, for one
    interpreter (\<open>spec_step\<close>, section 4.4) and for a process (\<open>spec_run\<close>); a run of
    \<open>Tcl_AppInit\<close> refines the step taken on the decisions the environment made in
    that run (\<open>observed_decisions\<close>, read off the logged \<open>Tcl_Init\<close> call, the host's
    answer and the logged \<open>Tk_Init\<close> results), and a sequence of runs
    (\<open>appinit_trace\<close>) refines a run of the machine, from which the machine's "one GUI
    failure per process" holds of the code.
  \<^item> \<open>Scenarios\<close>: executable example hosts, images and configurations; runs of
    \<open>Tcl_AppInit\<close> on them evaluate by \<open>simp\<close>.
  \<^item> this theory: the reachable counterexample for builds without the latch, and a
    witness for every claim with a hypothesis, built on the scenarios of section 8.

  \<^bold>\<open>What is shown.\<close> The detector answers exactly the sniff of the specification,
  rejects images shorter than 22 bytes, recognises any image with an appended end
  record and handles the 22-byte edge case; no run leaks a stream. The resolver writes
  nothing when there is no signature, and writes the Tcl paths before \<open>Tcl_Init\<close> and
  the Tk paths before \<open>Tk_Init\<close> when there is. Every completed run is the step of
  the specification's state machine on the decisions the environment made in it:
  same outcome, same latch update, same return code. With the protection compiled in, no reachable process calls
  \<open>Tk_Init\<close> after a failed call, and the latch is set exactly when one has failed.
  Over the whole lifetime no stream stays open, nothing is mounted outside
  \<open>/zvfs\<close> and only configured packages are registered, each once; while the latch
  is clear, a working host always lets the next interpreter initialise (on macOS,
  when the Tcl bundle is found).
  \<open>Tcl_AppInit\<close> returns to its caller exactly unless the executable's name is
  unknown or, on macOS with no Tcl bundle, \<open>Tcl_Init\<close> succeeds. A run writes the process environment only at
  \<open>TCL_LIBRARY\<close> and \<open>TK_LIBRARY\<close>, into \<open>/zvfs\<close>, and only when the archive is
  found; a failed run creates no window and registers no package, but a failed
  \<open>Tcl_Init\<close> leaves \<open>TCL_LIBRARY\<close> redirected. Since every sequence of runs of a
  process is a run of the specification's machine, at most one interpreter per
  process fails in \<open>Tk_Init\<close>.

  \<^bold>\<open>Where the code and the specification part.\<close> A mount failure still redirects
  the library paths into the empty \<open>/zvfs\<close> (the specification promises the
  built-in paths); an unknown executable name aborts (the specification promises "no
  archive"); the first Tk failure reports Tk's own message, later ones the fixed
  message (the specification promises one message); without
  \<open>TKINTER_PROTECT_LOADTK\<close> there is no latch at all; and on macOS builds a missing
  Tcl bundle makes line 117's shadowed \<open>pathPtr\<close> undefined behaviour, and a Tcl
  bundle path with a space in it is split into several library directories by the
  list conversion of line 125; \<open>Zvfs_Init\<close> runs for every interpreter, not once.

  \<^bold>\<open>Bounds and fuel.\<close> The code has no loop: every definition is straight-line or
  structural recursion (\<open>c_memcmp\<close>, \<open>tcl_split\<close>), so every run returns and no fuel
  is needed. The only numeric bounds are the 22-byte seek and the 4-byte read, kept
  as the code has them; file offsets are \<open>int\<close>/\<open>nat\<close> because a file of more than
  \<open>LONG_MAX\<close> bytes is outside the model.

  \<^bold>\<open>Not modelled.\<close> The internals of Tcl, Tk, the Zvfs driver and the macOS bundle
  lookup (only their interface is); threads (the specification fixes serial
  creation of interpreters); the \<open>WITH_PIL_OLD\<close> block, which only declares a
  function; a bundle path longer than \<open>MAX_PATH_LEN\<close>; Tcl's list parsing of strings
  with braces, quotes or backslashes; writes to the \<open>env\<close> array made by the scripts
  \<open>Tcl_Init\<close> and \<open>Tk_Init\<close> run (the host's initialisers return the interpreter only,
  so \<open>run_environment_writes\<close> is about the writes of this file's code). Of the
  file itself only the opening comment, the \<open>#include\<close> lines and blank lines have
  no counterpart; the Tcl/Tk interface and the C library are modelled only as far as
  the file uses them, which is why their components stay "partly" modelled.

  \<^bold>\<open>Open questions.\<close> Every block of \<open>src/Modules/tkappinit.c\<close> is modelled; what
  is left lies in the libraries it calls: Tcl's list syntax with braces and quotes in
  bundle paths (the conversion is modelled for plain characters only,
  \<open>tcl_list_plain\<close>), and the \<open>env\<close> writes of the scripts \<open>Tcl_Init\<close> runs, which
  would widen \<open>run_environment_writes\<close> to whatever those scripts set.
\<close>

text \<open>C18 (safety). Without \<open>TKINTER_PROTECT_LOADTK\<close> the latch does not exist: a
  process reachable by creating two interpreters on a host without a display has
  called \<open>Tk_Init\<close> again after it failed, and failed twice.\<close>

theorem unprotected_build_retries_tk_init:
  "\<exists>p. appinit_reach (ex_cfg False) p \<and> \<not> no_tk_after_failure (calls p) \<and>
       length (filter is_failed_tk_init (calls p)) = 2"
proof -
  obtain s1 s2 where
      r1: "Tcl_AppInit (ex_cfg False) (ex_host ex_plain_image True False) ex_st0 = Inr (TCL_ERROR, s1)" and
      r2: "Tcl_AppInit (ex_cfg False) (ex_host ex_plain_image True False) \<lparr>pr = pr s1, ip = ex_interp\<rparr> =
             Inr (TCL_ERROR, s2)" and
      c2: "calls (pr s2) = [Tcl_Init_call ex_interp TCL_OK, Tk_Init_call ex_interp TCL_ERROR,
                            Tcl_Init_call ex_interp TCL_OK, Tk_Init_call ex_interp TCL_ERROR]"
    using ex_unprotected_runs by blast
  have "appinit_reach (ex_cfg False) (pr s1)"
    using appinit_reach.start r1 unfolding ex_st0_def by (rule appinit_reach.step)
  then have "appinit_reach (ex_cfg False) (pr s2)"
    using r2 by (rule appinit_reach.step)
  with c2 show ?thesis by auto
qed

section \<open>Witnesses\<close>

text \<open>Each claim with a hypothesis applied at a concrete input that satisfies it.\<close>

lemma ex_prot: "TKINTER_PROTECT_LOADTK (ex_cfg True)"
  by (simp add: ex_cfg_def)

lemma ex_host_fields:
  "exe_name (ex_host img mnt tk) = Some ex_exe" "files (ex_host img mnt tk) = [ex_exe \<mapsto> img]"
  "mount_ok (ex_host img mnt tk) a b = mnt" "bundle_path (ex_host img mnt tk) n = []"
  "tcl_init (ex_host img mnt tk) i = (TCL_OK, i)"
  by (simp_all add: ex_host_def)

theorem reachable_latch_consistent_witness:
  "\<exists>p. TKINTER_PROTECT_LOADTK (ex_cfg True) \<and> appinit_reach (ex_cfg True) p \<and> tk_load_failed p \<and>
       list_ex is_failed_tk_init (calls p) \<and> no_tk_after_failure (calls p)"
proof -
  obtain s1 :: st where r1: "Tcl_AppInit (ex_cfg True) (ex_host ex_plain_image True False) ex_st0 = Inr (TCL_ERROR, s1)"
      and l1: "tk_load_failed (pr s1)"
    using ex_protected_runs by blast
  have reach: "appinit_reach (ex_cfg True) (pr s1)"
    using appinit_reach.start r1 unfolding ex_st0_def by (rule appinit_reach.step)
  from Process.reachable_latch_consistent [OF ex_prot reach] l1 reach ex_prot show ?thesis by blast
qed

theorem latched_run_never_calls_tk_init_witness:
  "\<exists>(s1::st) s2. TKINTER_PROTECT_LOADTK (ex_cfg True) \<and> tk_load_failed (pr \<lparr>pr = pr s1, ip = ex_interp\<rparr>) \<and>
     Tcl_AppInit (ex_cfg True) (ex_host ex_plain_image True False) \<lparr>pr = pr s1, ip = ex_interp\<rparr> = Inr (TCL_ERROR, s2) \<and>
     appends_without is_tk_init \<lparr>pr = pr s1, ip = ex_interp\<rparr> s2 \<and> tk_load_failed (pr s2)"
proof -
  obtain s1 s2 :: st where l1: "tk_load_failed (pr s1)" and
      r2: "Tcl_AppInit (ex_cfg True) (ex_host ex_plain_image True False) \<lparr>pr = pr s1, ip = ex_interp\<rparr> = Inr (TCL_ERROR, s2)"
    using ex_protected_runs by blast
  have l1': "tk_load_failed (pr \<lparr>pr = pr s1, ip = ex_interp\<rparr>)" using l1 by simp
  show ?thesis using Runs.latched_run_never_calls_tk_init [OF ex_prot l1' r2] ex_prot l1' r2 by blast
qed

theorem latched_run_outcome_witness:
  "\<exists>(s1::st) s2. TKINTER_PROTECT_LOADTK (ex_cfg True) \<and> tk_load_failed (pr \<lparr>pr = pr s1, ip = ex_interp\<rparr>) \<and>
     Tcl_AppInit (ex_cfg True) (ex_host ex_plain_image True False) \<lparr>pr = pr s1, ip = ex_interp\<rparr> = Inr (TCL_ERROR, s2) \<and>
     ((TCL_ERROR = TCL_OK \<and> tk_skip_requested s2) \<or>
      (TCL_ERROR = TCL_ERROR \<and> result (ip s2) = TKINTER_LOADTK_ERRMSG) \<or>
      (TCL_ERROR = TCL_ERROR \<and> (\<exists>i. last (calls (pr s2)) = Tcl_Init_call i TCL_ERROR \<and>
          fst (tcl_init (ex_host ex_plain_image True False) i) = TCL_ERROR)))"
proof -
  obtain s1 s2 :: st where l1: "tk_load_failed (pr s1)" and
      r2: "Tcl_AppInit (ex_cfg True) (ex_host ex_plain_image True False) \<lparr>pr = pr s1, ip = ex_interp\<rparr> = Inr (TCL_ERROR, s2)"
    using ex_protected_runs by blast
  have l1': "tk_load_failed (pr \<lparr>pr = pr s1, ip = ex_interp\<rparr>)" using l1 by simp
  show ?thesis using Runs.latched_run_outcome [OF ex_prot l1' r2] ex_prot l1' r2 by blast
qed

theorem probe_short_image_rejected_witness:
  "[''a'' \<mapsto> [1, 2, 3 :: byte]] ''a'' = Some [1, 2, 3] \<and> length [1, 2, 3 :: byte] < 22 \<and>
   probe_zip_sig [''a'' \<mapsto> [1, 2, 3]] ''a'' \<lparr>open_files = 5\<rparr> = (False, \<lparr>open_files = 5\<rparr>)"
  using Archive.probe_short_image_rejected [of "[''a'' \<mapsto> [1, 2, 3]]" "''a''" "[1, 2, 3]" "\<lparr>open_files = 5\<rparr>"]
  by simp

theorem probe_detects_appended_record_witness:
  "[''a'' \<mapsto> [9] @ STRING_END_ARCHIVE @ replicate 18 0] ''a'' = Some ([9] @ STRING_END_ARCHIVE @ replicate 18 0) \<and>
   length (replicate 18 (0::byte)) = 18 \<and>
   probe_zip_sig [''a'' \<mapsto> [9] @ STRING_END_ARCHIVE @ replicate 18 0] ''a'' \<lparr>open_files = 0\<rparr> = (True, \<lparr>open_files = 0\<rparr>)"
  using Archive.probe_detects_appended_record
      [of "[''a'' \<mapsto> [9] @ STRING_END_ARCHIVE @ replicate 18 0]" "''a''" "[9]" "replicate 18 0" "\<lparr>open_files = 0\<rparr>"]
  by simp

theorem probe_exact_22_bytes_witness:
  "[''a'' \<mapsto> STRING_END_ARCHIVE @ replicate 18 0] ''a'' = Some (STRING_END_ARCHIVE @ replicate 18 0) \<and>
   length (STRING_END_ARCHIVE @ replicate 18 (0::byte)) = 22 \<and>
   probe_zip_sig [''a'' \<mapsto> STRING_END_ARCHIVE @ replicate 18 0] ''a'' \<lparr>open_files = 0\<rparr> = (True, \<lparr>open_files = 0\<rparr>)"
proof -
  have len: "length (STRING_END_ARCHIVE @ replicate 18 (0::byte)) = 22"
    by (simp add: STRING_END_ARCHIVE_def)
  have "take 4 (STRING_END_ARCHIVE @ replicate 18 (0::byte)) = STRING_END_ARCHIVE"
    by (simp add: STRING_END_ARCHIVE_def)
  then show ?thesis
    using Archive.probe_exact_22_bytes
        [of "[''a'' \<mapsto> STRING_END_ARCHIVE @ replicate 18 0]" "''a''" "STRING_END_ARCHIVE @ replicate 18 0"
          "\<lparr>open_files = 0\<rparr>"] len
    by simp
qed

theorem setup_zvfs_no_archive_no_writes_witness:
  "exe_name (ex_host ex_plain_image True True) = Some ex_exe \<and>
   \<not> image_has_sig (files (ex_host ex_plain_image True True)) ex_exe \<and>
   setup_zvfs False (ex_host ex_plain_image True True) ex_st0 = Inr (False, ex_st0)"
  using Zvfs.setup_zvfs_no_archive_no_writes [of "ex_host ex_plain_image True True" ex_exe False ex_st0]
  by (simp add: ex_host_fields ex_plain_image_no_sig)

theorem setup_zvfs_mount_failure_still_redirects_witness:
  "exe_name (ex_host ex_zip_image False True) = Some ex_exe \<and>
   image_has_sig (files (ex_host ex_zip_image False True)) ex_exe \<and>
   \<not> mount_ok (ex_host ex_zip_image False True) ex_exe ZVFS_MOUNT \<and>
   (\<exists>s'. setup_zvfs False (ex_host ex_zip_image False True) ex_st0 = Inr (True, s') \<and>
        zvfs_mounts (pr s') = zvfs_mounts (pr ex_st0) \<and>
        globals (ip s') ''tcl_library'' = Some ''/zvfs/tcl8.6'' \<and>
        env_arr (ip s') ''TCL_LIBRARY'' = Some ''/zvfs/tcl8.6'' \<and>
        environ (pr s') ''TCL_LIBRARY'' = Some ''/zvfs/tcl8.6'')"
  using Zvfs.setup_zvfs_mount_failure_still_redirects [of "ex_host ex_zip_image False True" ex_exe False ex_st0]
  by (simp add: ex_host_fields ex_zip_image_sig)

theorem tcl_init_sees_zvfs_paths_witness:
  "\<exists>s'. Tcl_AppInit (ex_cfg True) (ex_host ex_zip_image True True) ex_st0 = Inr (TCL_OK, s') \<and>
     exe_name (ex_host ex_zip_image True True) = Some ex_exe \<and>
     image_has_sig (files (ex_host ex_zip_image True True)) ex_exe \<and>
     (\<exists>xs i c ys. calls (pr s') = calls (pr ex_st0) @ xs @ [Tcl_Init_call i c] @ ys \<and>
        \<not> list_ex is_tcl_init xs \<and> \<not> list_ex is_tcl_init ys \<and>
        globals i ''tcl_library'' = Some ZVFS_TCL_DIR \<and> env_arr i ''TCL_LIBRARY'' = Some ZVFS_TCL_DIR)"
proof -
  obtain s' where r: "Tcl_AppInit (ex_cfg True) (ex_host ex_zip_image True True) ex_st0 = Inr (TCL_OK, s')"
    using scenario_run_zip by blast
  have e: "exe_name (ex_host ex_zip_image True True) = Some ex_exe"
    and g: "image_has_sig (files (ex_host ex_zip_image True True)) ex_exe"
    by (simp_all add: ex_host_fields ex_zip_image_sig)
  show ?thesis using Runs.tcl_init_sees_zvfs_paths [OF r e g] r e g by blast
qed

theorem tk_init_sees_zvfs_paths_witness:
  "\<exists>rc s'. tk_stage (ex_cfg True) (ex_host ex_plain_image True True) True ex_st0 = (rc, s') \<and>
     calls (pr s') = calls (pr ex_st0) @ [] @ [Tk_Init_call (ip (set_tk_library True ex_st0)) TCL_OK] @ [Tk_MainWindow_call] \<and>
     env_arr (ip (set_tk_library True ex_st0)) ''TK_LIBRARY'' = Some ZVFS_TK_DIR \<and>
     globals (ip (set_tk_library True ex_st0)) ''tk_library'' = Some ZVFS_TK_DIR"
proof -
  obtain rc s' where st: "tk_stage (ex_cfg True) (ex_host ex_plain_image True True) True ex_st0 = (rc, s')"
    by (cases "tk_stage (ex_cfg True) (ex_host ex_plain_image True True) True ex_st0") blast
  have "calls (pr (snd (tk_stage (ex_cfg True) (ex_host ex_plain_image True True) True ex_st0))) =
      calls (pr ex_st0) @ [] @ [Tk_Init_call (ip (set_tk_library True ex_st0)) TCL_OK] @ [Tk_MainWindow_call]"
    by (simp add: ex_run_defs)
  then have c: "calls (pr s') = calls (pr ex_st0) @ [] @ [Tk_Init_call (ip (set_tk_library True ex_st0)) TCL_OK] @ [Tk_MainWindow_call]"
    using st by simp
  show ?thesis using Runs.tk_init_sees_zvfs_paths [OF st c] st c by blast
qed

theorem skip_flag_skips_gui_witness:
  "Tcl_GetVar ''_tkinter_skip_tk_init'' \<lparr>pr = fresh_proc Map.empty, ip = ex_interp\<lparr>globals := [''_tkinter_skip_tk_init'' \<mapsto> ''1'']\<rparr>\<rparr> = Some ''1'' \<and>
   tk_stage (ex_cfg True) (ex_host ex_plain_image True True) False
     \<lparr>pr = fresh_proc Map.empty, ip = ex_interp\<lparr>globals := [''_tkinter_skip_tk_init'' \<mapsto> ''1'']\<rparr>\<rparr> =
   (TCL_OK, \<lparr>pr = fresh_proc Map.empty, ip = ex_interp\<lparr>globals := [''_tkinter_skip_tk_init'' \<mapsto> ''1'']\<rparr>\<rparr>)"
  using Runs.skip_flag_skips_gui
      [of "\<lparr>pr = fresh_proc Map.empty, ip = ex_interp\<lparr>globals := [''_tkinter_skip_tk_init'' \<mapsto> ''1'']\<rparr>\<rparr>"
        "ex_cfg True" "ex_host ex_plain_image True True" False]
  by (simp add: Tcl_GetVar_def)

theorem other_skip_values_run_tk_init_witness:
  "Tcl_GetVar ''_tkinter_skip_tk_init'' \<lparr>pr = fresh_proc Map.empty, ip = ex_interp\<lparr>globals := [''_tkinter_skip_tk_init'' \<mapsto> ''0'']\<rparr>\<rparr> \<noteq> Some ''1'' \<and>
   \<not> (TKINTER_PROTECT_LOADTK (ex_cfg False) \<and>
      tk_load_blocked \<lparr>pr = fresh_proc Map.empty, ip = ex_interp\<lparr>globals := [''_tkinter_skip_tk_init'' \<mapsto> ''0'']\<rparr>\<rparr>) \<and>
   (\<exists>c zs. calls (pr (snd (tk_stage (ex_cfg False) (ex_host ex_plain_image True True) False
              \<lparr>pr = fresh_proc Map.empty, ip = ex_interp\<lparr>globals := [''_tkinter_skip_tk_init'' \<mapsto> ''0'']\<rparr>\<rparr>))) =
      calls (pr \<lparr>pr = fresh_proc Map.empty, ip = ex_interp\<lparr>globals := [''_tkinter_skip_tk_init'' \<mapsto> ''0'']\<rparr>\<rparr>) @
      Tk_Init_call (ip (set_tk_library False \<lparr>pr = fresh_proc Map.empty, ip = ex_interp\<lparr>globals := [''_tkinter_skip_tk_init'' \<mapsto> ''0'']\<rparr>\<rparr>)) c # zs)"
proof -
  have a: "Tcl_GetVar ''_tkinter_skip_tk_init'' \<lparr>pr = fresh_proc Map.empty, ip = ex_interp\<lparr>globals := [''_tkinter_skip_tk_init'' \<mapsto> ''0'']\<rparr>\<rparr> \<noteq> Some ''1''"
    by (simp add: Tcl_GetVar_def)
  have b: "\<not> (TKINTER_PROTECT_LOADTK (ex_cfg False) \<and>
      tk_load_blocked \<lparr>pr = fresh_proc Map.empty, ip = ex_interp\<lparr>globals := [''_tkinter_skip_tk_init'' \<mapsto> ''0'']\<rparr>\<rparr>)"
    by (simp add: ex_cfg_def)
  show ?thesis using Runs.other_skip_values_run_tk_init [OF a b] a b by blast
qed

theorem first_tk_failure_reports_tk_message_witness:
  "\<not> tk_skip_requested ex_st0 \<and> TKINTER_PROTECT_LOADTK (ex_cfg True) \<and> \<not> tk_load_blocked ex_st0 \<and>
   tk_init (ex_host ex_plain_image True False) (ip (set_tk_library False ex_st0)) =
     (TCL_ERROR, ex_interp\<lparr>result := ex_tk_error\<rparr>) \<and>
   (\<exists>s'. tk_stage (ex_cfg True) (ex_host ex_plain_image True False) False ex_st0 = (TCL_ERROR, s') \<and>
        result (ip s') = ex_tk_error \<and> tk_load_failed (pr s') \<and>
        Tcl_GetVar ''_tkinter_tk_failed'' s' = Some ''1'')"
proof -
  have a: "\<not> tk_skip_requested ex_st0" and c: "\<not> tk_load_blocked ex_st0"
    by (simp_all add: tk_skip_requested_def tk_load_blocked_def Tcl_GetVar_def ex_st0_def
        fresh_proc_def ex_interp_fields)
  have t: "tk_init (ex_host ex_plain_image True False) (ip (set_tk_library False ex_st0)) =
      (TCL_ERROR, ex_interp\<lparr>result := ex_tk_error\<rparr>)"
    by (simp add: ex_host_def set_tk_library_def ex_st0_def)
  show ?thesis
    using Runs.first_tk_failure_reports_tk_message [OF a ex_prot c t] a c t ex_prot by simp
qed

theorem tcl_init_failure_fails_fast_witness:
  "\<not> TK_AQUA (ex_cfg True) \<and>
   setup_zvfs (NDEBUG (ex_cfg True)) ((ex_host ex_plain_image True True)\<lparr>tcl_init := \<lambda>i. (TCL_ERROR, i)\<rparr>) ex_st0 =
     Inr (False, ex_st0) \<and>
   fst (tcl_init ((ex_host ex_plain_image True True)\<lparr>tcl_init := \<lambda>i. (TCL_ERROR, i)\<rparr>) (ip ex_st0)) = TCL_ERROR \<and>
   Tcl_AppInit (ex_cfg True) ((ex_host ex_plain_image True True)\<lparr>tcl_init := \<lambda>i. (TCL_ERROR, i)\<rparr>) ex_st0 =
     Inr (TCL_ERROR, snd (Tcl_Init ((ex_host ex_plain_image True True)\<lparr>tcl_init := \<lambda>i. (TCL_ERROR, i)\<rparr>) ex_st0))"
proof -
  have a: "\<not> TK_AQUA (ex_cfg True)" by (simp add: ex_cfg_def)
  have z: "setup_zvfs (NDEBUG (ex_cfg True)) ((ex_host ex_plain_image True True)\<lparr>tcl_init := \<lambda>i. (TCL_ERROR, i)\<rparr>) ex_st0 =
      Inr (False, ex_st0)"
    by (simp add: setup_zvfs_Some ex_host_def ex_plain_image_no_sig [unfolded ex_host_def])
  have f: "fst (tcl_init ((ex_host ex_plain_image True True)\<lparr>tcl_init := \<lambda>i. (TCL_ERROR, i)\<rparr>) (ip ex_st0)) = TCL_ERROR"
    by simp
  show ?thesis using Runs.tcl_init_failure_fails_fast [OF a z f] a z f by simp
qed

theorem Tcl_AppInit_result_code_witness:
  "\<exists>s'. Tcl_AppInit (ex_cfg True) (ex_host ex_zip_image True True) ex_st0 = Inr (TCL_OK, s') \<and>
        (TCL_OK = TCL_OK \<or> TCL_OK = TCL_ERROR)"
proof -
  obtain s' where r: "Tcl_AppInit (ex_cfg True) (ex_host ex_zip_image True True) ex_st0 = Inr (TCL_OK, s')"
    using scenario_run_zip by blast
  show ?thesis using Runs.Tcl_AppInit_result_code [OF r] r by blast
qed

theorem aqua_missing_tcl_bundle_is_undefined_witness:
  "TK_AQUA ((ex_cfg True)\<lparr>TK_AQUA := True\<rparr>) \<and>
   bundle_path (ex_host ex_plain_image True True) ''com.tcltk.tcllibrary'' = [] \<and>
   exe_name (ex_host ex_plain_image True True) = Some ex_exe \<and>
   (\<forall>i. fst (tcl_init (ex_host ex_plain_image True True) i) \<noteq> TCL_ERROR) \<and>
   (\<exists>msg. Tcl_AppInit ((ex_cfg True)\<lparr>TK_AQUA := True\<rparr>) (ex_host ex_plain_image True True) ex_st0 =
           Inl (Undefined_behaviour msg))"
proof -
  have a: "TK_AQUA ((ex_cfg True)\<lparr>TK_AQUA := True\<rparr>)" by simp
  have b: "bundle_path (ex_host ex_plain_image True True) ''com.tcltk.tcllibrary'' = []"
    and e: "exe_name (ex_host ex_plain_image True True) = Some ex_exe"
    and t: "\<forall>i. fst (tcl_init (ex_host ex_plain_image True True) i) \<noteq> TCL_ERROR"
    by (simp_all add: ex_host_fields)
  show ?thesis using Runs.aqua_missing_tcl_bundle_is_undefined [OF a b e t] a b e t by blast
qed

theorem no_executable_name_aborts_witness:
  "exe_name ((ex_host ex_plain_image True True)\<lparr>exe_name := None\<rparr>) = None \<and>
   Tcl_AppInit (ex_cfg True) ((ex_host ex_plain_image True True)\<lparr>exe_name := None\<rparr>) ex_st0 =
     Inl (Assertion_failed ''prog_name != NULL'')"
  using Runs.no_executable_name_aborts [of "(ex_host ex_plain_image True True)\<lparr>exe_name := None\<rparr>" "ex_cfg True" ex_st0]
  by (simp add: ex_cfg_def)

theorem Tcl_AppInit_refines_spec_witness:
  "\<exists>s1. Tcl_AppInit (ex_cfg True) (ex_host ex_plain_image True False) ex_st0 = Inr (TCL_ERROR, s1) \<and>
     TKINTER_PROTECT_LOADTK (ex_cfg True) \<and>
     observed_decisions (ex_host ex_plain_image True False) (calls (pr s1)) = (True, False, False, False) \<and>
     spec_step False (True, False, False, False) = (Gui_init_failed, True) \<and>
     run_outcome ex_st0 s1 TCL_ERROR = Gui_init_failed \<and> tk_load_failed (pr s1)"
proof -
  obtain s1 :: st where r1: "Tcl_AppInit (ex_cfg True) (ex_host ex_plain_image True False) ex_st0 = Inr (TCL_ERROR, s1)"
      and c1: "calls (pr s1) = [Tcl_Init_call ex_interp TCL_OK, Tk_Init_call ex_interp TCL_ERROR]"
    using ex_protected_runs by blast
  have l0: "\<not> tk_load_failed (pr ex_st0)" and c0: "calls (pr ex_st0) = []"
    by (simp_all add: ex_st0_def fresh_proc_def)
  have d: "observed_decisions (ex_host ex_plain_image True False) (calls (pr s1)) = (True, False, False, False)"
    by (simp add: c1 observed_decisions_def ex_run_defs)
  have "spec_step False (True, False, False, False) = (run_outcome ex_st0 s1 TCL_ERROR, tk_load_failed (pr s1))"
    using Refinement.Tcl_AppInit_refines_spec [OF ex_prot r1] l0 c0 d by simp
  moreover have "spec_step False (True, False, False, False) = (Gui_init_failed, True)"
    by (simp add: spec_step_def)
  ultimately show ?thesis using r1 ex_prot d by auto
qed

theorem aqua_bundle_library_path_witness:
  "''/Tcl'' \<noteq> [] \<and> list_all tcl_list_plain ''/Tcl'' \<and>
   bundle_path (ex_aqua_host ''/Tcl'' ''/Tk'') ''com.tcltk.tklibrary'' = ''/Tk'' \<and> ''/Tk'' \<noteq> [] \<and>
   (\<exists>s'. aqua_pre_tk_init (ex_aqua_host ''/Tcl'' ''/Tk'') ''/Tcl'' ex_st0 = Inr s' \<and>
      tcl_lib_path (pr s') = Some [''/Tcl'', ''/Tk''] \<and> Tcl_GetVar ''tk_library'' s' = Some ''/Tk'')"
  using Aqua.aqua_bundle_library_path [of "''/Tcl''" "ex_aqua_host ''/Tcl'' ''/Tk''" "''/Tk''" ex_st0]
  by (simp add: ex_aqua_host_def tcl_list_plain_def tcl_space_def)

theorem aqua_bundle_path_with_space_split_witness:
  "list_all tcl_list_plain ''/My'' \<and> list_all tcl_list_plain ''App'' \<and>
   bundle_path (ex_aqua_host ''/My App'' ''/Tk'') ''com.tcltk.tklibrary'' = ''/Tk'' \<and>
   (\<exists>s'. aqua_pre_tk_init (ex_aqua_host ''/My App'' ''/Tk'') ''/My App'' ex_st0 = Inr s' \<and>
      tcl_lib_path (pr s') = Some [''/My'', ''App'', ''/Tk''])"
  using Aqua.aqua_bundle_path_with_space_split
    [of "''/My''" "''App''" "ex_aqua_host ''/My App'' ''/Tk''" "''/Tk''" ex_st0]
  by (simp add: ex_aqua_host_def tcl_list_plain_def tcl_space_def)

theorem Tcl_AppInit_returns_iff_witness:
  "(\<exists>r. Tcl_AppInit (ex_cfg True) (ex_host ex_zip_image True True) ex_st0 = Inr r) \<and>
   \<not> (\<exists>r. Tcl_AppInit ex_aqua_cfg (ex_aqua_host [] ''/Tk'') ex_st0 = Inr r)"
  using Aqua.Tcl_AppInit_returns_iff [of "ex_cfg True" "ex_host ex_zip_image True True" ex_st0]
    Aqua.Tcl_AppInit_returns_iff [of ex_aqua_cfg "ex_aqua_host [] ''/Tk''" ex_st0]
  by (simp add: ex_host_def ex_aqua_host_def ex_cfg_def ex_aqua_cfg_def)

theorem reachable_no_leaked_resources_witness:
  "\<exists>p. appinit_reach ex_tix_cfg p \<and> open_files p = 0 \<and> zvfs_mounts p ZVFS_MOUNT = Some ex_exe"
  using ex_tix_reach Lifetime.reachable_no_leaked_resources by blast

theorem reachable_static_pkgs_configured_witness:
  "\<exists>p. appinit_reach ex_tix_cfg p \<and> static_pkgs p = [''Tix''] \<and> distinct (static_pkgs p) \<and>
     set (static_pkgs p) \<subseteq> set (configured_pkgs ex_tix_cfg)"
  using ex_tix_reach Lifetime.reachable_static_pkgs_configured by blast

theorem working_host_initialises_witness:
  "(\<exists>s'. Tcl_AppInit (ex_cfg True) (ex_host ex_zip_image True True) ex_st0 = Inr (TCL_OK, s') \<and>
      appinit_reach (ex_cfg True) (pr s')) \<and>
   (\<exists>s'. Tcl_AppInit ex_aqua_cfg (ex_aqua_host ''/Tcl'' ''/Tk'') ex_st0 = Inr (TCL_OK, s') \<and>
      appinit_reach ex_aqua_cfg (pr s'))"
  using Lifetime.working_host_initialises [of "ex_cfg True" "fresh_proc Map.empty"
      "ex_host ex_zip_image True True" ex_exe ex_interp] appinit_reach.start [of "ex_cfg True" Map.empty]
    Lifetime.working_host_initialises [of ex_aqua_cfg "fresh_proc Map.empty"
      "ex_aqua_host ''/Tcl'' ''/Tk''" ex_exe ex_interp] appinit_reach.start [of ex_aqua_cfg Map.empty]
  by (simp add: ex_st0_def ex_host_def ex_aqua_host_def ex_cfg_def ex_aqua_cfg_def fresh_proc_def
      ex_interp_fields)

lemma ex_protected_trace:
  "\<exists>os p'. appinit_trace (ex_cfg True) (fresh_proc Map.empty) os p' \<and> tk_load_failed p' \<and>
     map snd os = [Gui_init_failed, Gui_previously_failed]"
proof -
  obtain s1 s2 :: st where
      r1: "Tcl_AppInit (ex_cfg True) (ex_host ex_plain_image True False) ex_st0 = Inr (TCL_ERROR, s1)" and
      r2: "Tcl_AppInit (ex_cfg True) (ex_host ex_plain_image True False) \<lparr>pr = pr s1, ip = ex_interp\<rparr> =
             Inr (TCL_ERROR, s2)" and
      l2: "tk_load_failed (pr s2)" and
      c1: "calls (pr s1) = [Tcl_Init_call ex_interp TCL_OK, Tk_Init_call ex_interp TCL_ERROR]" and
      c2: "calls (pr s2) = [Tcl_Init_call ex_interp TCL_OK, Tk_Init_call ex_interp TCL_ERROR,
                            Tcl_Init_call ex_interp TCL_OK]"
    using ex_protected_runs by blast
  have t: "appinit_trace (ex_cfg True) (fresh_proc Map.empty)
      [(TCL_ERROR, run_outcome ex_st0 s1 TCL_ERROR),
       (TCL_ERROR, run_outcome \<lparr>pr = pr s1, ip = ex_interp\<rparr> s2 TCL_ERROR)] (pr s2)"
    using appinit_trace.step [OF r1 [unfolded ex_st0_def] appinit_trace.step [OF r2 appinit_trace.nil]]
    by (simp add: ex_st0_def)
  have "run_outcome ex_st0 s1 TCL_ERROR = Gui_init_failed"
    "run_outcome \<lparr>pr = pr s1, ip = ex_interp\<rparr> s2 TCL_ERROR = Gui_previously_failed"
    using c1 c2 by (simp_all add: run_outcome_def ex_st0_def fresh_proc_def)
  with t l2 show ?thesis by fastforce
qed

theorem at_most_one_gui_failure_witness:
  "\<exists>os p'. appinit_trace (ex_cfg True) (fresh_proc Map.empty) os p' \<and>
     map snd os = [Gui_init_failed, Gui_previously_failed] \<and>
     length (filter (\<lambda>r. snd r = Gui_init_failed) os) \<le> 1"
proof -
  obtain os :: "(tcl_code \<times> spec_outcome) list" and p' :: proc where t: "appinit_trace (ex_cfg True) (fresh_proc Map.empty) os p'" and
      ou: "map snd os = [Gui_init_failed, Gui_previously_failed]"
    using ex_protected_trace by (elim exE conjE)
  have f: "tk_load_failed (fresh_proc Map.empty) = False" by (simp add: fresh_proc_def)
  have "length (filter (\<lambda>r. snd r = Gui_init_failed) os) \<le> 1"
    using Refinement.at_most_one_gui_failure [OF ex_prot t] f by simp
  with t ou show ?thesis by (intro exI [of _ os] exI [of _ p'] conjI)
qed

theorem run_environment_writes_witness:
  "\<exists>s'. Tcl_AppInit (ex_cfg True) (ex_host ex_zip_image True True) ex_st0 = Inr (TCL_OK, s') \<and>
     environ (pr s') ''TK_LIBRARY'' = Some ''/zvfs/tk8.6'' \<and> environ (pr s') ''PATH'' = None"
proof -
  obtain s' :: st where r: "Tcl_AppInit (ex_cfg True) (ex_host ex_zip_image True True) ex_st0 = Inr (TCL_OK, s')"
      and tk: "environ (pr s') ''TK_LIBRARY'' = Some ''/zvfs/tk8.6''"
    using ex_zip_run_env by blast
  have e: "environ (pr ex_st0) = Map.empty" by (simp add: ex_st0_def fresh_proc_def)
  from Runs.run_environment_writes [OF r, of "''PATH''"] r tk e show ?thesis by auto
qed

theorem failed_tcl_init_keeps_redirect_witness:
  "\<not> TK_AQUA (ex_cfg True) \<and> exe_name ((ex_host ex_zip_image True True)\<lparr>tcl_init := \<lambda>i. (TCL_ERROR, i)\<rparr>) = Some ex_exe \<and>
   image_has_sig (files ((ex_host ex_zip_image True True)\<lparr>tcl_init := \<lambda>i. (TCL_ERROR, i)\<rparr>)) ex_exe \<and>
   fst (tcl_init ((ex_host ex_zip_image True True)\<lparr>tcl_init := \<lambda>i. (TCL_ERROR, i)\<rparr>)
         (ip (zvfs_found_state ((ex_host ex_zip_image True True)\<lparr>tcl_init := \<lambda>i. (TCL_ERROR, i)\<rparr>) ex_exe ex_st0))) =
     TCL_ERROR \<and>
   (\<exists>s'. Tcl_AppInit (ex_cfg True) ((ex_host ex_zip_image True True)\<lparr>tcl_init := \<lambda>i. (TCL_ERROR, i)\<rparr>) ex_st0 =
      Inr (TCL_ERROR, s') \<and> environ (pr s') ''TCL_LIBRARY'' = Some ''/zvfs/tcl8.6'' \<and> zvfs_inited (pr s'))"
  using Runs.failed_tcl_init_keeps_redirect
    [of "ex_cfg True" "(ex_host ex_zip_image True True)\<lparr>tcl_init := \<lambda>i. (TCL_ERROR, i)\<rparr>" ex_exe ex_st0]
  by (simp add: ex_cfg_def ex_host_def ex_zip_image_sig)

theorem failed_run_no_gui_effects_witness:
  "\<exists>s1. Tcl_AppInit (ex_cfg True) (ex_host ex_plain_image True False) ex_st0 = Inr (TCL_ERROR, s1) \<and>
     static_pkgs (pr s1) = [] \<and> Tk_MainWindow_call \<notin> set (calls (pr s1))"
proof -
  obtain s1 :: st where r: "Tcl_AppInit (ex_cfg True) (ex_host ex_plain_image True False) ex_st0 = Inr (TCL_ERROR, s1)"
    using ex_protected_runs by blast
  from Runs.failed_run_no_gui_effects [OF r] r show ?thesis
    by (auto simp: ex_st0_def fresh_proc_def)
qed

theorem zvfs_init_every_interpreter_witness:
  "\<exists>s1 rc s2. zvfs_inited (pr \<lparr>pr = pr s1, ip = ex_interp\<rparr>) \<and> zvfs_found (ex_host ex_zip_image True True) \<and>
     Tcl_AppInit (ex_cfg True) (ex_host ex_zip_image True True) \<lparr>pr = pr s1, ip = ex_interp\<rparr> = Inr (rc, s2) \<and>
     Zvfs_Init_call \<in> set (drop (length (calls (pr (s1::st)))) (calls (pr s2)))"
proof -
  obtain s1 s2 :: st where
      r2: "Tcl_AppInit (ex_cfg True) (ex_host ex_zip_image True True) \<lparr>pr = pr s1, ip = ex_interp\<rparr> =
             Inr (TCL_OK, s2)" and i: "zvfs_inited (pr s1)"
    using ex_zip_two_runs by blast
  have f: "zvfs_found (ex_host ex_zip_image True True)"
    by (simp add: zvfs_found_def ex_host_def ex_zip_image_sig)
  from Runs.zvfs_init_every_interpreter [of "\<lparr>pr = pr s1, ip = ex_interp\<rparr>", OF _ f r2] i f r2
  show ?thesis by auto
qed

end
